theory Spec2Isabelle
  imports Main "HOL-Library.Sublist"
begin

section \<open>JavaScript string primitives used by the sources\<close>

text \<open>
  Strings are character lists, a character being a code unit below 256; a
  JavaScript string with a code unit above 255 has no counterpart here. The
  sources only inspect ASCII punctuation (\<open>/\<close>, \<open>:\<close>, \<open>@\<close>, \<open>.\<close>), so positions and
  lengths agree with JavaScript's on ASCII input. An index that JavaScript
  reports as \<open>-1\<close> is \<open>None\<close> here.
\<close>

text \<open>\<open>str.indexOf(sep)\<close>: the first position at which \<open>sep\<close> starts.\<close>

fun indexOf :: "string \<Rightarrow> string \<Rightarrow> nat option" where
  "indexOf [] sep = (if sep = [] then Some 0 else None)"
| "indexOf (c # cs) sep =
     (if prefix sep (c # cs) then Some 0 else map_option Suc (indexOf cs sep))"

text \<open>\<open>str.indexOf(sep, from)\<close> for \<open>from \<le> str.length\<close>.\<close>

definition indexOfFrom :: "string \<Rightarrow> string \<Rightarrow> nat \<Rightarrow> nat option" where
  "indexOfFrom s sep k = map_option (\<lambda>i. i + k) (indexOf (drop k s) sep)"

text \<open>\<open>str.lastIndexOf(sep)\<close>: the last position at which \<open>sep\<close> starts.\<close>

fun lastIndexOf :: "string \<Rightarrow> string \<Rightarrow> nat option" where
  "lastIndexOf [] sep = (if sep = [] then Some 0 else None)"
| "lastIndexOf (c # cs) sep =
     (case lastIndexOf cs sep of
        Some i \<Rightarrow> Some (Suc i)
      | None \<Rightarrow> if prefix sep (c # cs) then Some 0 else None)"

text \<open>\<open>str.includes(sub)\<close>.\<close>

definition str_includes :: "string \<Rightarrow> string \<Rightarrow> bool" where
  "str_includes s sub = (indexOf s sub \<noteq> None)"

text \<open>\<open>str.slice(a, b)\<close> and \<open>str.slice(a)\<close> for non-negative positions.\<close>

definition slice :: "string \<Rightarrow> nat \<Rightarrow> nat \<Rightarrow> string" where
  "slice s a b = take (b - a) (drop a s)"

definition sliceFrom :: "string \<Rightarrow> nat \<Rightarrow> string" where
  "sliceFrom s a = drop a s"

text \<open>The double quote character, for the messages that contain it.\<close>

definition dq :: string where
  "dq = [CHR 0x22]"

text \<open>\<open>str.startsWith(p)\<close>, \<open>arr.join(sep)\<close> on strings, \<open>str.trim()\<close> and
  \<open>str.toLowerCase()\<close> on ASCII.\<close>

definition startsWith :: "string \<Rightarrow> string \<Rightarrow> bool" where
  "startsWith s p = prefix p s"

fun join :: "string \<Rightarrow> string list \<Rightarrow> string" where
  "join sep [] = []"
| "join sep [x] = x"
| "join sep (x # y # ys) = x @ sep @ join sep (y # ys)"

definition isSpace :: "char \<Rightarrow> bool" where
  "isSpace c = (c \<in> set [CHR '' '', CHR 0x09, CHR 0x0A, CHR 0x0B, CHR 0x0C, CHR 0x0D, CHR 0xA0])"

definition trim :: "string \<Rightarrow> string" where
  "trim s = rev (dropWhile isSpace (rev (dropWhile isSpace s)))"

definition lowerChar :: "char \<Rightarrow> char" where
  "lowerChar c =
     (case map_of (zip ''ABCDEFGHIJKLMNOPQRSTUVWXYZ'' ''abcdefghijklmnopqrstuvwxyz'') c of
        Some l \<Rightarrow> l
      | None \<Rightarrow> c)"

definition toLowerCase :: "string \<Rightarrow> string" where
  "toLowerCase s = map lowerChar s"

text \<open>A natural number in decimal, as a template literal prints it.\<close>

fun digits :: "nat \<Rightarrow> nat \<Rightarrow> string" where
  "digits 0 n = []"
| "digits (Suc fuel) n =
     (if n < 10 then [''0123456789'' ! n]
      else digits fuel (n div 10) @ [''0123456789'' ! (n mod 10)])"

definition showNat :: "nat \<Rightarrow> string" where
  "showNat n = digits (Suc n) n"

section \<open>JavaScript values\<close>

text \<open>
  What \<open>JSON.parse\<close> returns, and \<open>undefined\<close>. A number is held as the text
  that \<open>Number.prototype.toString\<close> gives for it (\<open>1\<close>, \<open>1.5\<close>, \<open>1e+21\<close>), which is
  the same for equal numbers; an object is the list of its own properties.
\<close>

datatype js =
    JUndefined
  | JNull
  | JBool bool
  | JNum string
  | JStr string
  | JArr "js list"
  | JObj "(string \<times> js) list"

definition truthy :: "js \<Rightarrow> bool" where
  "truthy v =
     (case v of
        JUndefined \<Rightarrow> False
      | JNull \<Rightarrow> False
      | JBool b \<Rightarrow> b
      | JNum n \<Rightarrow> n \<noteq> ''0'' \<and> n \<noteq> ''NaN''
      | JStr s \<Rightarrow> s \<noteq> []
      | JArr xs \<Rightarrow> True
      | JObj kvs \<Rightarrow> True)"

definition isArray :: "js \<Rightarrow> bool" where
  "isArray v = (case v of JArr xs \<Rightarrow> True | _ \<Rightarrow> False)"

definition isString :: "js \<Rightarrow> bool" where
  "isString v = (case v of JStr s \<Rightarrow> True | _ \<Rightarrow> False)"

text \<open>\<open>arr[0]\<close> on an array value; anything else has no element.\<close>

definition elem0 :: "js \<Rightarrow> js" where
  "elem0 v = (case v of JArr (x # xs) \<Rightarrow> x | _ \<Rightarrow> JUndefined)"

section \<open>HTTP messages (node-fetch)\<close>

text \<open>
  \<open>Headers\<close> as a list of name and value; names are lower-case, as node-fetch
  stores them and as every literal of the sources is written. \<open>get\<close> joins the
  values of a repeated name with \<open>", "\<close>.
\<close>

type_synonym headers = "(string \<times> string) list"

definition hget :: "headers \<Rightarrow> string \<Rightarrow> string option" where
  "hget h n =
     (case map snd (filter (\<lambda>kv. fst kv = n) h) of
        [] \<Rightarrow> None
      | v # vs \<Rightarrow> Some (join '', '' (v # vs)))"

definition hhas :: "headers \<Rightarrow> string \<Rightarrow> bool" where
  "hhas h n = (n \<in> fst ` set h)"

definition hdelete :: "headers \<Rightarrow> string \<Rightarrow> headers" where
  "hdelete h n = filter (\<lambda>kv. fst kv \<noteq> n) h"

definition hset :: "headers \<Rightarrow> string \<Rightarrow> string \<Rightarrow> headers" where
  "hset h n v = hdelete h n @ [(n, v)]"

definition happend :: "headers \<Rightarrow> string \<Rightarrow> string \<Rightarrow> headers" where
  "happend h n v = h @ [(n, v)]"

text \<open>A header read that the code tests for truthiness: present and not empty.\<close>

definition htruthy :: "string option \<Rightarrow> bool" where
  "htruthy v = (case v of None \<Rightarrow> False | Some s \<Rightarrow> s \<noteq> [])"

text \<open>
  A \<open>DockerResponse\<close>: the response as received, the bytes its body stream
  delivers (\<open>None\<close> for a null body), whether the body was consumed, and the
  cache \<open>decodedBody\<close>.
\<close>

record response =
  status :: nat
  statusText :: string
  headers :: headers
  body :: "string option"
  disturbed :: bool
  decodedBody :: "string option"

section \<open>Errors (lib/errors.ts)\<close>

text \<open>
  The error classes the code throws: plain \<open>Error\<close>, the engine's \<open>TypeError\<close>,
  \<open>HttpError\<close> with its response and registry errors, and the others of
  \<open>errors.ts\<close>. \<open>FetchError\<close> is what \<open>fetch\<close> rejects with when no response
  was obtained. Only \<open>HttpError\<close> has a \<open>resp\<close> property.
\<close>

datatype error =
    Error string
  | TypeError string
  | HttpError response "js list" string
  | BadDigestError string
  | TooManyRedirectsError string
  | UploadError string
  | FetchError string

definition message :: "error \<Rightarrow> string" where
  "message e =
     (case e of
        Error m \<Rightarrow> m
      | TypeError m \<Rightarrow> m
      | HttpError r es m \<Rightarrow> m
      | BadDigestError m \<Rightarrow> m
      | TooManyRedirectsError m \<Rightarrow> m
      | UploadError m \<Rightarrow> m
      | FetchError m \<Rightarrow> m)"

text \<open>\<open>err.resp\<close>, tested for truthiness by \<open>supportsV2\<close>.\<close>

definition resp :: "error \<Rightarrow> response option" where
  "resp e = (case e of HttpError r es m \<Rightarrow> Some r | _ \<Rightarrow> None)"

section \<open>Reading JavaScript values\<close>

text \<open>
  \<open>v.name\<close> for the property names the sources read (\<open>body\<close>, \<open>errors\<close>,
  \<open>details\<close>, \<open>message\<close>, \<open>error\<close>, \<open>code\<close>, \<open>detail\<close>, \<open>token\<close>,
  \<open>schemaVersion\<close>): none of them is inherited, so an object gives its own
  property or \<open>undefined\<close>, an array or a primitive gives \<open>undefined\<close>, and
  \<open>null\<close> and \<open>undefined\<close> raise a \<open>TypeError\<close>.
\<close>

definition getProp :: "js \<Rightarrow> string \<Rightarrow> error + js" where
  "getProp v n =
     (case v of
        JUndefined \<Rightarrow>
          Inl (TypeError (''Cannot read properties of undefined (reading '' @ n @ '')''))
      | JNull \<Rightarrow> Inl (TypeError (''Cannot read properties of null (reading '' @ n @ '')''))
      | JObj kvs \<Rightarrow> Inr (case map_of kvs n of Some x \<Rightarrow> x | None \<Rightarrow> JUndefined)
      | _ \<Rightarrow> Inr JUndefined)"

text \<open>\<open>v?.name\<close>: \<open>undefined\<close> instead of the \<open>TypeError\<close>.\<close>

definition optProp :: "js \<Rightarrow> string \<Rightarrow> js" where
  "optProp v n = (case getProp v n of Inl e \<Rightarrow> JUndefined | Inr x \<Rightarrow> x)"

text \<open>
  The string a value becomes in a concatenation or a \<open>join\<close>, and what
  \<open>v.toString()\<close> returns. No JSON value is callable, so an object with an own
  \<open>toString\<close> property raises a \<open>TypeError\<close>; \<open>join\<close> prints \<open>null\<close> and
  \<open>undefined\<close> as the empty string.
\<close>

fun toString :: "js \<Rightarrow> error + string"
  and joinJs :: "string \<Rightarrow> js list \<Rightarrow> error + string" where
  "toString JUndefined = Inr ''undefined''"
| "toString JNull = Inr ''null''"
| "toString (JBool b) = Inr (if b then ''true'' else ''false'')"
| "toString (JNum n) = Inr n"
| "toString (JStr s) = Inr s"
| "toString (JArr xs) = joinJs '','' xs"
| "toString (JObj kvs) =
     (if map_of kvs ''toString'' \<noteq> None
      then Inl (TypeError ''Cannot convert object to primitive value'')
      else Inr ''[object Object]'')"
| "joinJs sep [] = Inr []"
| "joinJs sep (x # xs) =
     (case (if x = JUndefined \<or> x = JNull then Inr [] else toString x) of
        Inl e \<Rightarrow> Inl e
      | Inr s \<Rightarrow>
          if xs = [] then Inr s
          else (case joinJs sep xs of Inl e \<Rightarrow> Inl e | Inr r \<Rightarrow> Inr (s @ sep @ r)))"

section \<open>The platform\<close>

text \<open>
  What the client is linked against, taken as parameters: \<open>fetch\<close> over a state
  of the network (it rejects with a message when no response is obtained),
  \<open>new URL(rel, base).toString()\<close> (\<open>None\<close> when it throws), \<open>JSON.parse\<close>
  (\<open>Inl\<close> the \<open>SyntaxError\<close>'s message), \<open>JSON.stringify\<close>, the MD5 and SHA-256
  digests of a byte string in base64 and hex, \<open>btoa\<close> (total on the strings of
  this theory, whose code units are below 256), \<open>encodeURI\<close>,
  \<open>URLSearchParams.toString\<close>, \<open>new TextDecoder().decode\<close> from the bytes of a
  body to its text, and the user agent that \<open>common.ts\<close> builds from the package
  version and the host.
\<close>

record fetch_request =
  fetchUrl :: string
  fetchMethod :: string
  fetchHeaders :: headers
  fetchRedirect :: string
  fetchBody :: "string option"

record raw_response =
  rawStatus :: nat
  rawStatusText :: string
  rawHeaders :: headers
  rawBody :: "string option"

record 'w platform =
  fetch :: "fetch_request \<Rightarrow> 'w \<Rightarrow> (string + raw_response) \<times> 'w"
  newURL :: "string \<Rightarrow> string \<Rightarrow> string option"
  JSON_parse :: "string \<Rightarrow> string + js"
  JSON_stringify :: "js \<Rightarrow> string"
  md5_base64 :: "string \<Rightarrow> string"
  sha256_hex :: "string \<Rightarrow> string"
  btoa :: "string \<Rightarrow> string"
  encodeURI :: "string \<Rightarrow> string"
  URLSearchParams_toString :: "(string \<times> string) list \<Rightarrow> string"
  TextDecoder_decode :: "string \<Rightarrow> string"
  DEFAULT_USERAGENT :: string

text \<open>The network: its state, and the requests handed to \<open>fetch\<close> so far.\<close>

record 'w net =
  world :: 'w
  sent :: "fetch_request list"

definition doFetch ::
  "'w platform \<Rightarrow> fetch_request \<Rightarrow> 'w net \<Rightarrow> (string + raw_response) \<times> 'w net" where
  "doFetch P rq n =
     (case fetch P rq (world n) of
        (r, w) \<Rightarrow> (r, \<lparr>world = w, sent = sent n @ [rq]\<rparr>))"

section \<open>DockerResponse (lib/docker-json-client.ts)\<close>

text \<open>
  \<open>arrayBuffer()\<close> of node-fetch: rejects when the body was already consumed,
  otherwise consumes it.
\<close>

definition arrayBuffer :: "response \<Rightarrow> (error + string) \<times> response" where
  "arrayBuffer r =
     (if disturbed r then (Inl (TypeError ''body used already''), r)
      else (Inr (case body r of None \<Rightarrow> [] | Some b \<Rightarrow> b), r\<lparr>disturbed := True\<rparr>))"

text \<open>
  The Content-MD5 check of \<open>dockerBody\<close>: the header is present and not empty,
  the status is not 206, and the header differs from the MD5 of the bytes.
\<close>

definition contentMd5Mismatch :: "'w platform \<Rightarrow> response \<Rightarrow> string \<Rightarrow> bool" where
  "contentMd5Mismatch P r bytes =
     (htruthy (hget (headers r) ''content-md5'') \<and> status r \<noteq> 206
      \<and> the (hget (headers r) ''content-md5'') \<noteq> md5_base64 P bytes)"

definition contentMd5Error :: "'w platform \<Rightarrow> response \<Rightarrow> string \<Rightarrow> error" where
  "contentMd5Error P r bytes =
     Error (''BadDigestError: Content-MD5 ('' @ the (hget (headers r) ''content-md5'')
              @ '' vs '' @ md5_base64 P bytes @ '')'')"

definition dockerBody :: "'w platform \<Rightarrow> response \<Rightarrow> (error + string) \<times> response" where
  "dockerBody P r =
     (case decodedBody r of
        Some d \<Rightarrow> (Inr d, r)
      | None \<Rightarrow>
          (case arrayBuffer r of
             (Inl e, r1) \<Rightarrow> (Inl e, r1)
           | (Inr bytes, r1) \<Rightarrow>
               if contentMd5Mismatch P r1 bytes then (Inl (contentMd5Error P r1 bytes), r1)
               else (Inr bytes, r1\<lparr>decodedBody := Some bytes\<rparr>)))"

definition dockerJson :: "'w platform \<Rightarrow> response \<Rightarrow> (error + js) \<times> response" where
  "dockerJson P r =
     (case dockerBody P r of
        (Inl e, r1) \<Rightarrow> (Inl e, r1)
      | (Inr bytes, r1) \<Rightarrow>
          (let text = TextDecoder_decode P bytes
           in if trim text = [] then (Inr JUndefined, r1)
              else (case JSON_parse P text of
                      Inl m \<Rightarrow> (Inl (Error (''Invalid JSON in response: '' @ m)), r1)
                    | Inr v \<Rightarrow> (Inr v, r1))))"

text \<open>\<open>errObj.filter((x) => typeof x.message === 'string')\<close> on the elements.\<close>

fun filterMessage :: "js list \<Rightarrow> error + js list" where
  "filterMessage [] = Inr []"
| "filterMessage (x # xs) =
     (case getProp x ''message'' of
        Inl e \<Rightarrow> Inl e
      | Inr m \<Rightarrow>
          (case filterMessage xs of
             Inl e \<Rightarrow> Inl e
           | Inr r \<Rightarrow> Inr (if isString m then x # r else r)))"

definition dockerErrors :: "'w platform \<Rightarrow> response \<Rightarrow> (error + js list) \<times> response" where
  "dockerErrors P r =
     (case dockerJson P r of
        (res, r1) \<Rightarrow>
          (let obj = (case res of Inl e \<Rightarrow> JNull | Inr v \<Rightarrow> v);
               errObj =
                 (if truthy (optProp obj ''error'') then JArr [optProp obj ''error'']
                  else if optProp obj ''errors'' \<noteq> JUndefined \<and> optProp obj ''errors'' \<noteq> JNull
                  then optProp obj ''errors''
                  else if truthy obj then JArr [obj] else JArr [])
           in case errObj of
                JArr xs \<Rightarrow> (filterMessage xs, r1)
              | _ \<Rightarrow> (Inl (TypeError ''errObj.filter is not a function''), r1)))"

text \<open>One line of the message of an \<open>HttpError\<close>, for one registry error.\<close>

definition errorText :: "'w platform \<Rightarrow> js \<Rightarrow> error + string" where
  "errorText P x =
     (case getProp x ''code'' of
        Inl e \<Rightarrow> Inl e
      | Inr code \<Rightarrow>
          (case getProp x ''message'' of
             Inl e \<Rightarrow> Inl e
           | Inr msg \<Rightarrow>
               (case getProp x ''detail'' of
                  Inl e \<Rightarrow> Inl e
                | Inr detail \<Rightarrow>
                    (case joinJs '': ''
                            [code, msg,
                             JStr (if truthy detail then JSON_stringify P detail else [])] of
                       Inl e \<Rightarrow> Inl e
                     | Inr t \<Rightarrow> Inr (''    '' @ t)))))"

fun errorTexts :: "'w platform \<Rightarrow> js list \<Rightarrow> error + string list" where
  "errorTexts P [] = Inr []"
| "errorTexts P (x # xs) =
     (case errorText P x of
        Inl e \<Rightarrow> Inl e
      | Inr t \<Rightarrow> (case errorTexts P xs of Inl e \<Rightarrow> Inl e | Inr ts \<Rightarrow> Inr (t # ts)))"

text \<open>
  The \<open>try\<close> block of \<open>dockerThrowable\<close>: the registry errors and the message
  lines, or the error that the \<open>catch\<close> receives.
\<close>

definition throwableErrors ::
  "'w platform \<Rightarrow> response \<Rightarrow> (error + js list \<times> string list) \<times> response" where
  "throwableErrors P r =
     (case (if status r \<ge> 400 then dockerErrors P r else (Inr [], r)) of
        (Inl e, r1) \<Rightarrow> (Inl e, r1)
      | (Inr errors, r1) \<Rightarrow>
          (case (if errors = []
                 then (case dockerBody P r1 of
                         (Inl e, r2) \<Rightarrow> (Inl e, r2)
                       | (Inr bytes, r2) \<Rightarrow>
                           (Inr (if length (TextDecoder_decode P bytes) > 1
                                 then [JObj [(''message'',
                                              JStr (slice (TextDecoder_decode P bytes) 0 512))]]
                                 else []), r2))
                 else (Inr errors, r1)) of
             (Inl e, r2) \<Rightarrow> (Inl e, r2)
           | (Inr errors2, r2) \<Rightarrow>
               (case errorTexts P errors2 of
                  Inl e \<Rightarrow> (Inl e, r2)
                | Inr ts \<Rightarrow> (Inr (errors2, ts), r2))))"

text \<open>
  \<open>dockerThrowable\<close> resolves with the \<open>HttpError\<close> to throw (\<open>Inr\<close>), or
  rejects (\<open>Inl\<close>) when the HTML body cannot be drained.
\<close>

definition dockerThrowable ::
  "'w platform \<Rightarrow> response \<Rightarrow> string \<Rightarrow> (error + error) \<times> response" where
  "dockerThrowable P r baseMsg =
     (if (case hget (headers r) ''content-type'' of
            None \<Rightarrow> False
          | Some ct \<Rightarrow> startsWith ct ''text/html'')
      then (case arrayBuffer r of
              (Inl e, r1) \<Rightarrow> (Inl e, r1)
            | (Inr bytes, r1) \<Rightarrow> (Inr (HttpError r1 [] (baseMsg @ '' (w/ HTML body)'')), r1))
      else (case throwableErrors P r of
              (Inr (errors, ts), r1) \<Rightarrow>
                (Inr (HttpError r1 errors (join [CHR 0x0A] (baseMsg # ts))), r1)
            | (Inl err, r1) \<Rightarrow>
                (Inr (HttpError r1 []
                        (baseMsg @ '' - and failed to parse error body: '' @ message err)), r1)))"

text \<open>
  What a reader of the stream that \<open>dockerStream\<close> returns observes: the bytes,
  then the end of the stream or an error. The body of a node-fetch response is a
  Node.js \<open>Readable\<close>, which has no \<open>pipeThrough\<close> (the source silences the
  compiler on that line): when the Content-MD5 header is set and the status is not
  206, the call \<open>stream.pipeThrough(...)\<close> is a \<open>TypeError\<close>. Otherwise the body is
  returned as it is.
\<close>

record stream =
  delivered :: string
  failure :: "error option"

definition dockerStream :: "'w platform \<Rightarrow> response \<Rightarrow> error + stream" where
  "dockerStream P r =
     (case body r of
        None \<Rightarrow> Inl (Error ''No body to stream'')
      | Some b \<Rightarrow>
          if htruthy (hget (headers r) ''content-md5'') \<and> status r \<noteq> 206
          then Inl (TypeError ''stream.pipeThrough is not a function'')
          else Inr \<lparr>delivered = b, failure = None\<rparr>)"

section \<open>DockerJsonClient (lib/docker-json-client.ts)\<close>

record DockerJsonClient =
  accept :: string
  apiUrl :: string
  userAgent :: string

record HttpReqOpts =
  path :: string
  reqMethod :: string
  reqHeaders :: "headers option"
  reqBody :: "string option"
  retry :: "bool option"
  connectTimeout :: "nat option"
  expectStatus :: "nat list option"
  redirect :: "string option"

text \<open>\<open>new DockerResponse(rawResp.body, {headers, status, statusText})\<close>.\<close>

definition newDockerResponse :: "raw_response \<Rightarrow> response" where
  "newDockerResponse rw =
     \<lparr>status = rawStatus rw, statusText = rawStatusText rw, headers = rawHeaders rw,
      body = rawBody rw, disturbed = False, decodedBody = None\<rparr>"

text \<open>The request that \<open>request\<close> hands to \<open>fetch\<close>, for a resolved URL.\<close>

definition fetchRequest :: "DockerJsonClient \<Rightarrow> HttpReqOpts \<Rightarrow> string \<Rightarrow> fetch_request" where
  "fetchRequest cl opts u =
     (let hs0 = (case reqHeaders opts of None \<Rightarrow> [] | Some h \<Rightarrow> h);
          hs1 = (if \<not> hhas hs0 ''accept'' \<and> accept cl \<noteq> []
                 then hset hs0 ''accept'' (accept cl) else hs0);
          hs2 = hset hs1 ''user-agent'' (userAgent cl)
      in \<lparr>fetchUrl = u, fetchMethod = reqMethod opts, fetchHeaders = hs2,
          fetchRedirect = (case redirect opts of None \<Rightarrow> ''manual'' | Some rd \<Rightarrow> rd),
          fetchBody = reqBody opts\<rparr>)"

definition request ::
  "'w platform \<Rightarrow> DockerJsonClient \<Rightarrow> HttpReqOpts \<Rightarrow> 'w net \<Rightarrow> (error + response) \<times> 'w net" where
  "request P cl opts n =
     (case newURL P (path opts) (apiUrl cl) of
        None \<Rightarrow> (Inl (TypeError ''Invalid URL''), n)
      | Some u \<Rightarrow>
          (case doFetch P (fetchRequest cl opts u) n of
             (Inl m, n1) \<Rightarrow> (Inl (FetchError m), n1)
           | (Inr rw, n1) \<Rightarrow>
               if rawStatus rw
                    \<notin> set (case expectStatus opts of None \<Rightarrow> [200] | Some l \<Rightarrow> l)
               then (case dockerThrowable P (newDockerResponse rw)
                            (''Unexpected HTTP '' @ showNat (rawStatus rw)
                               @ '' from '' @ path opts) of
                       (Inl e, r1) \<Rightarrow> (Inl e, n1)
                     | (Inr e, r1) \<Rightarrow> (Inl e, n1))
               else (Inr (newDockerResponse rw), n1)))"

section \<open>Repository names (lib/common.ts)\<close>

definition DEFAULT_INDEX_NAME :: string where
  "DEFAULT_INDEX_NAME = ''docker.io''"

definition DEFAULT_LOGIN_SERVERNAME :: string where
  "DEFAULT_LOGIN_SERVERNAME = ''https://index.docker.io/v1/''"

definition DEFAULT_TAG :: string where
  "DEFAULT_TAG = ''latest''"

text \<open>\<open>VALID_NS = /^[a-z0-9\._-]*$/\<close> and \<open>VALID_REPO = /^[a-z0-9_\/\.-]*$/\<close>.\<close>

definition VALID_NS :: "string \<Rightarrow> bool" where
  "VALID_NS s = list_all (\<lambda>c. c \<in> set ''abcdefghijklmnopqrstuvwxyz0123456789._-'') s"

definition VALID_REPO :: "string \<Rightarrow> bool" where
  "VALID_REPO s = list_all (\<lambda>c. c \<in> set ''abcdefghijklmnopqrstuvwxyz0123456789_/.-'') s"

datatype scheme = http | https

record RegistryIndex =
  name :: string
  official :: bool
  scheme :: scheme

record RegistryRepo =
  index :: RegistryIndex
  officialRepo :: bool
  remoteName :: string
  localName :: string
  canonicalName :: string

record RegistryImage = RegistryRepo +
  digest :: "string option"
  tag :: "string option"
  canonicalRef :: string

text \<open>\<open>splitIntoTwo\<close> returns a list of one or two strings.\<close>

definition splitIntoTwo :: "string \<Rightarrow> string \<Rightarrow> string list" where
  "splitIntoTwo str sep =
     (case indexOf str sep of
        None \<Rightarrow> [str]
      | Some slashIdx \<Rightarrow> [slice str 0 slashIdx, sliceFrom str (slashIdx + 1)])"

text \<open>\<open>host.split(':')[0]\<close> is the part of \<open>host\<close> before its first colon.\<close>

definition isLocalhost :: "string \<Rightarrow> bool" where
  "isLocalhost host =
     (let lead = takeWhile (\<lambda>c. c \<noteq> CHR '':'') host
      in lead = ''localhost'' \<or> lead = ''127.0.0.1'' \<or> str_includes host ''::1'')"

definition defaultIndex :: RegistryIndex where
  "defaultIndex = \<lparr>name = DEFAULT_INDEX_NAME, official = True, scheme = https\<rparr>"

text \<open>
  The scheme and host part of \<open>parseIndex\<close>: the optional
  \<open>scheme://\<close> prefix is split off, or the scheme follows from the host.
\<close>

definition parseIndexScheme :: "string \<Rightarrow> error + (scheme \<times> string)" where
  "parseIndexScheme arg =
     (case indexOf arg ''://'' of
        Some protoSepIdx \<Rightarrow>
          (let foundScheme = slice arg 0 protoSepIdx
           in if foundScheme \<noteq> ''http'' \<and> foundScheme \<noteq> ''https''
              then Inl (Error (''invalid index scheme, must be '' @ dq @ ''http'' @ dq
                                 @ '' or '' @ dq @ ''https'' @ dq @ '': '' @ arg))
              else Inr (if foundScheme = ''http'' then http else https,
                        sliceFrom arg (protoSepIdx + 3)))
      | None \<Rightarrow> Inr (if isLocalhost arg then http else https, arg))"

definition parseIndex :: "string option \<Rightarrow> error + RegistryIndex" where
  "parseIndex argo =
     (case argo of
        None \<Rightarrow> Inr defaultIndex
      | Some arg \<Rightarrow>
          if arg = [] \<or> arg = DEFAULT_LOGIN_SERVERNAME then Inr defaultIndex
          else
            (case parseIndexScheme arg of
               Inl e \<Rightarrow> Inl e
             | Inr (sch, indexName) \<Rightarrow>
                 if indexName = [] then Inl (Error (''invalid index, empty host: '' @ arg))
                 else if indexOf indexName ''.'' = None \<and> indexOf indexName '':'' = None
                         \<and> indexName \<noteq> ''localhost''
                 then Inl (Error (''invalid index, '' @ dq @ indexName @ dq
                                    @ '' does not look like a valid host: '' @ arg))
                 else
                   (let indexName1 =
                          (if last indexName = CHR ''/''
                           then slice indexName 0 (length indexName - 1)
                           else indexName)
                    in if indexOf indexName1 ''/'' \<noteq> None
                       then Inl (Error (''invalid index, trailing repo: '' @ arg))
                       else
                         (let indexName2 =
                                (if indexName1 = ''index.'' @ DEFAULT_INDEX_NAME
                                 then DEFAULT_INDEX_NAME else indexName1);
                              idx = \<lparr>name = indexName2,
                                     official = (indexName2 = DEFAULT_INDEX_NAME),
                                     scheme = sch\<rparr>
                          in if official idx \<and> scheme idx = http
                             then Inl (Error (''invalid index, plaintext HTTP to official index ''
                                                @ ''is disallowed: '' @ arg))
                             else Inr idx))))"

text \<open>The optional second argument of \<open>parseRepo\<close>: a string or a parsed index.\<close>

datatype default_index = IndexString string | IndexObject RegistryIndex

text \<open>
  First half of \<open>parseRepo\<close>: strip the optional leading \<open>INDEX/\<close> and
  return the index with the raw remote name.
\<close>

definition parseRepoIndex ::
  "string \<Rightarrow> default_index option \<Rightarrow> error + (RegistryIndex \<times> string)" where
  "parseRepoIndex arg dflt =
     (case indexOf arg ''://'' of
        Some protoSepIdx \<Rightarrow>
          (case indexOfFrom arg ''/'' (protoSepIdx + 3) of
             None \<Rightarrow> Inl (Error (''invalid repository name, no '' @ dq @ ''/REPO'' @ dq
                                    @ '' after hostame: '' @ arg))
           | Some slashIdx \<Rightarrow>
               (case parseIndex (Some (slice arg 0 slashIdx)) of
                  Inl e \<Rightarrow> Inl e
                | Inr idx \<Rightarrow> Inr (idx, sliceFrom arg (slashIdx + 1))))
      | None \<Rightarrow>
          (let parts = splitIntoTwo arg ''/''
           in if length parts = 1
                 \<or> (indexOf (parts ! 0) ''.'' = None \<and> indexOf (parts ! 0) '':'' = None
                      \<and> parts ! 0 \<noteq> ''localhost'')
              then
                (case (case dflt of
                         None \<Rightarrow> parseIndex None
                       | Some (IndexString s) \<Rightarrow> parseIndex (Some s)
                       | Some (IndexObject i) \<Rightarrow> Inr i) of
                   Inl e \<Rightarrow> Inl e
                 | Inr idx \<Rightarrow> Inr (idx, arg))
              else
                (case parseIndex (Some (parts ! 0)) of
                   Inl e \<Rightarrow> Inl e
                 | Inr idx \<Rightarrow> Inr (idx, parts ! 1))))"

text \<open>
  The namespace checks of \<open>parseRepo\<close>, in the source's order; the result is
  the error of the first check that fails.
\<close>

definition validateNamespace :: "string \<Rightarrow> error option" where
  "validateNamespace ns =
     (if length ns < 2 \<or> length ns > 255
      then Some (Error (''invalid repository namespace, must be between ''
                          @ ''2 and 255 characters: '' @ ns))
      else if \<not> VALID_NS ns
      then Some (Error (''invalid repository namespace, may only contain ''
                          @ ''[a-z0-9._-] characters: '' @ ns))
      else if hd ns = CHR ''-'' \<and> last ns = CHR ''-''
      then Some (Error (''invalid repository namespace, cannot start or ''
                          @ ''end with a hypen: '' @ ns))
      else if indexOf ns ''--'' \<noteq> None
      then Some (Error (''invalid repository namespace, cannot contain ''
                          @ ''consecutive hyphens: '' @ ns))
      else None)"

definition validateName :: "string \<Rightarrow> error option" where
  "validateName nm =
     (if \<not> VALID_REPO nm
      then Some (Error (''invalid repository name, may only contain ''
                          @ ''[a-z0-9_/.-] characters: '' @ nm))
      else None)"

text \<open>
  Second half of \<open>parseRepo\<close>: validate the namespace and the name
  (docker's \<open>validateRemoteName\<close>), returning both.
\<close>

definition validateRemoteName ::
  "RegistryIndex \<Rightarrow> string \<Rightarrow> error + (string \<times> string)" where
  "validateRemoteName idx remoteNameRaw =
     (let nameParts = splitIntoTwo remoteNameRaw ''/''
      in if length nameParts = 2
         then
           (let nm = nameParts ! 1; ns = nameParts ! 0
            in case validateNamespace ns of
                 Some e \<Rightarrow> Inl e
               | None \<Rightarrow>
                   (case validateName nm of Some e \<Rightarrow> Inl e | None \<Rightarrow> Inr (ns, nm)))
         else
           (let nm = remoteNameRaw; ns = (if official idx then ''library'' else [])
            in case validateName nm of Some e \<Rightarrow> Inl e | None \<Rightarrow> Inr (ns, nm)))"

definition parseRepo :: "string \<Rightarrow> default_index option \<Rightarrow> error + RegistryRepo" where
  "parseRepo arg dflt =
     (case parseRepoIndex arg dflt of
        Inl e \<Rightarrow> Inl e
      | Inr (idx, remoteNameRaw) \<Rightarrow>
          (case validateRemoteName idx remoteNameRaw of
             Inl e \<Rightarrow> Inl e
           | Inr (ns, nm) \<Rightarrow>
               (let off = (official idx \<and> ns = ''library'');
                    rn = (if ns \<noteq> [] then ns @ ''/'' @ nm else nm);
                    ln = (if official idx then (if off then nm else rn)
                          else name idx @ ''/'' @ rn);
                    cn = (if official idx then DEFAULT_INDEX_NAME @ ''/'' @ ln else ln)
                in Inr \<lparr>index = idx, officialRepo = off, remoteName = rn,
                         localName = ln, canonicalName = cn\<rparr>)))"

text \<open>
  \<open>parseRepoAndRef\<close>: the digest is cut at the last \<open>@\<close>, then the tag at the
  last \<open>:\<close> if it comes after the last \<open>/\<close>; an empty tag or digest is falsy
  and is left out of \<open>canonicalRef\<close>.
\<close>

definition parseRepoAndRef :: "string \<Rightarrow> default_index option \<Rightarrow> error + RegistryImage" where
  "parseRepoAndRef arg0 dflt =
     (let (digest1, tag1, arg1) =
            (case lastIndexOf arg0 ''@'' of
               Some atIdx \<Rightarrow> (Some (sliceFrom arg0 (atIdx + 1)), None, slice arg0 0 atIdx)
             | None \<Rightarrow> (None, Some DEFAULT_TAG, arg0));
          colonIdx = lastIndexOf arg1 '':'';
          slashIdx = lastIndexOf arg1 ''/'';
          (tag2, arg2) =
            (case colonIdx of
               None \<Rightarrow> (tag1, arg1)
             | Some ci \<Rightarrow>
                 if (case slashIdx of None \<Rightarrow> True | Some si \<Rightarrow> ci > si)
                 then (Some (sliceFrom arg1 (ci + 1)), slice arg1 0 ci)
                 else (tag1, arg1))
      in case parseRepo arg2 dflt of
           Inl e \<Rightarrow> Inl e
         | Inr repo \<Rightarrow>
             Inr (RegistryRepo.extend repo
                    \<lparr>digest = digest1, tag = tag2,
                     canonicalRef =
                       canonicalName repo
                       @ (case tag2 of None \<Rightarrow> [] | Some t \<Rightarrow> if t \<noteq> [] then '':'' @ t else [])
                       @ (case digest1 of None \<Rightarrow> []
                          | Some d \<Rightarrow> if d \<noteq> [] then ''@'' @ d else [])\<rparr>))"

section \<open>WWW-Authenticate challenges (lib/www-authenticate.ts)\<close>

text \<open>\<open>\w\<close> of a regular expression.\<close>

definition isWord :: "char \<Rightarrow> bool" where
  "isWord c =
     (c \<in> set ''abcdefghijklmnopqrstuvwxyzABCDEFGHIJKLMNOPQRSTUVWXYZ0123456789_'')"

text \<open>
  \<open>to_parse.match(/(\w+)\s+(.*)/)\<close>: the leftmost run of word characters that
  is followed by white space, and what follows the white space up to the end of
  the line; \<open>None\<close> when there is no match.
\<close>

fun matchParseAuth :: "string \<Rightarrow> (string \<times> string) option" where
  "matchParseAuth [] = None"
| "matchParseAuth (c # cs) =
     (let w = takeWhile isWord (c # cs); rest = dropWhile isWord (c # cs)
      in if isWord c \<and> rest \<noteq> [] \<and> isSpace (hd rest)
         then Some (w, takeWhile (\<lambda>d. d \<noteq> CHR 0x0A \<and> d \<noteq> CHR 0x0D) (dropWhile isSpace rest))
         else matchParseAuth cs)"

text \<open>
  \<open>header.split(/([",=])/)\<close>: the text between separators and the separators
  themselves, in order. The first argument is the text read so far, reversed.
\<close>

fun splitSeparators :: "string \<Rightarrow> string \<Rightarrow> string list" where
  "splitSeparators cur [] = [rev cur]"
| "splitSeparators cur (c # cs) =
     (if c = CHR 0x22 \<or> c = CHR '','' \<or> c = CHR ''=''
      then rev cur # [c] # splitSeparators [] cs
      else splitSeparators (c # cur) cs)"

type_synonym parms = "(string \<times> string) list"

text \<open>\<open>this.parms[key] = value\<close>.\<close>

definition parmsSet :: "parms \<Rightarrow> string \<Rightarrow> string \<Rightarrow> parms" where
  "parmsSet ps k v = (k, v) # filter (\<lambda>kv. fst kv \<noteq> k) ps"

text \<open>
  The token loop of \<open>parse_params\<close>, with the state number, \<open>key\<close>, \<open>value\<close>
  and \<open>parms\<close>; the result is the returned error message and the parameters.
\<close>

fun parse_params_loop ::
  "nat \<Rightarrow> string \<Rightarrow> string \<Rightarrow> parms \<Rightarrow> string list \<Rightarrow> string option \<times> parms" where
  "parse_params_loop state key val ps [] =
     (if state = 0 \<or> state = 9 then (None, ps)
      else if state = 8 then (None, parmsSet ps key val)
      else (Some ''Unexpected end of www-authenticate value.'', ps))"
| "parse_params_loop state key val ps (tok # toks) =
     (if tok = [] then parse_params_loop state key val ps toks
      else if state = 0 then parse_params_loop 1 (trim tok) val ps toks
      else if state = 1 then
        (if tok \<noteq> ''='' then (Some (''Equal sign was expected after '' @ key), ps)
         else parse_params_loop 2 key val ps toks)
      else if state = 2 then
        (if tok = [CHR 0x22] then parse_params_loop 3 key [] ps toks
         else parse_params_loop 9 key (trim tok) (parmsSet ps key (trim tok)) toks)
      else if state = 3 then
        (if tok = [CHR 0x22] then parse_params_loop 8 key val ps toks
         else parse_params_loop 3 key (val @ tok) ps toks)
      else if state = 8 then
        (if tok = [CHR 0x22] then parse_params_loop 3 key (val @ [CHR 0x22]) ps toks
         else if tok = '','' then parse_params_loop 0 key val (parmsSet ps key val) toks
         else (Some (''Unexpected token ('' @ tok @ '') after '' @ val @ [CHR 0x22]), ps))
      else if state = 9 then
        (if tok \<noteq> '','' then (Some (''Comma expected after '' @ val), ps)
         else parse_params_loop 0 key val ps toks)
      else parse_params_loop state key val ps toks)"

definition parse_params :: "string \<Rightarrow> string option \<times> parms" where
  "parse_params header = parse_params_loop 0 [] [] [] (splitSeparators [] header)"

record Parser =
  schemeName :: string
  parms :: parms
  err :: "string option"

text \<open>
  The constructor of \<open>Parse_WWW_Authenticate\<close>; the non-null assertion on the
  match is a \<open>TypeError\<close> at run time when the header does not match.
\<close>

definition Parse_WWW_Authenticate :: "string \<Rightarrow> error + Parser" where
  "Parse_WWW_Authenticate to_parse =
     (case matchParseAuth to_parse of
        None \<Rightarrow> Inl (TypeError ''Cannot read properties of null (reading 1)'')
      | Some (m1, m2) \<Rightarrow>
          (case parse_params m2 of
             (Some e, ps) \<Rightarrow> Inr \<lparr>schemeName = [], parms = [], err = Some e\<rparr>
           | (None, ps) \<Rightarrow> Inr \<lparr>schemeName = m1, parms = ps, err = None\<rparr>))"

section \<open>The registry client (lib/registry-client-v2.ts)\<close>

datatype AuthInfo = AuthNone | Basic string string | Bearer string

text \<open>
  \<open>headers.set(name, value)\<close> of node-fetch checks the value first: a character
  other than the tab and those from 0x20 to 0x7e and from 0x80 to 0xff makes it a
  \<open>TypeError\<close>, and the headers stay as they are. The value that
  \<open>_setAuthHeaderFromAuthInfo\<close> sets holds the token that the authorization
  server sent, or the option of the caller. The accept type and the user agent
  that \<open>request\<close> sets are taken to be legal values.
\<close>

definition legalHeaderValue :: "string \<Rightarrow> bool" where
  "legalHeaderValue v =
     list_all (\<lambda>c. c = CHR 0x09 \<or> (0x20 \<le> (of_char c :: nat) \<and> (of_char c :: nat) \<le> 0x7e)
                    \<or> 0x80 \<le> (of_char c :: nat)) v"

definition Headers_set :: "headers \<Rightarrow> string \<Rightarrow> string \<Rightarrow> error + headers" where
  "Headers_set h n v =
     (if legalHeaderValue v then Inr (hset h n v)
      else Inl (TypeError (v @ '' is not a legal HTTP header value'')))"

text \<open>\<open>_setAuthHeaderFromAuthInfo\<close>: the headers it leaves, or the error of \<open>set\<close>.\<close>

definition setAuthHeaderFromAuthInfo ::
  "'w platform \<Rightarrow> headers \<Rightarrow> AuthInfo option \<Rightarrow> error + headers" where
  "setAuthHeaderFromAuthInfo P hs ai =
     (case ai of
        Some (Bearer token) \<Rightarrow> Headers_set hs ''authorization'' (''Bearer '' @ token)
      | Some (Basic user pass) \<Rightarrow>
          Headers_set hs ''authorization'' (''Basic '' @ btoa P (user @ '':'' @ pass))
      | _ \<Rightarrow> Inr (hdelete hs ''authorization''))"

text \<open>
  \<open>_getRegistryErrorMessage\<close>: the branches in the source's order. Reading a
  property of \<open>null\<close> or \<open>undefined\<close> raises, as does \<open>err.errors[0].message\<close> on
  an empty array.
\<close>

definition getRegistryErrorMessage :: "js \<Rightarrow> error + js" where
  "getRegistryErrorMessage er =
     (case getProp er ''body'' of
        Inl e \<Rightarrow> Inl e
      | Inr b \<Rightarrow>
          if truthy b \<and> isArray (optProp b ''errors'') \<and> truthy (elem0 (optProp b ''errors''))
          then getProp (elem0 (optProp b ''errors'')) ''message''
          else if truthy b \<and> truthy (optProp b ''details'')
          then Inr (optProp b ''details'')
          else
            (case (if isArray (optProp er ''errors'')
                   then getProp (elem0 (optProp er ''errors'')) ''message''
                   else Inr JUndefined) of
               Inl e \<Rightarrow> Inl e
             | Inr m \<Rightarrow>
                 if isArray (optProp er ''errors'') \<and> truthy m then Inr m
                 else if truthy (optProp er ''message'') then Inr (optProp er ''message'')
                 else if truthy (optProp er ''details'') then Inr (optProp er ''details'')
                 else (case toString er of Inl e \<Rightarrow> Inl e | Inr t \<Rightarrow> Inr (JStr t))))"

definition makeAuthScope :: "string \<Rightarrow> string \<Rightarrow> string list \<Rightarrow> string" where
  "makeAuthScope resource nm actions = resource @ '':'' @ nm @ '':'' @ join '','' actions"

definition parseWWWAuthenticate :: "string \<Rightarrow> error + Parser" where
  "parseWWWAuthenticate header =
     (case Parse_WWW_Authenticate header of
        Inl e \<Rightarrow> Inl e
      | Inr parsed \<Rightarrow>
          (case err parsed of
             Some e \<Rightarrow>
               Inl (Error (''could not parse WWW-Authenticate header '' @ dq @ header @ dq
                             @ '': '' @ e))
           | None \<Rightarrow> Inr parsed))"

record DockerContentDigest =
  raw :: string
  algorithm :: string
  expectedDigest :: string

definition parseDockerContentDigest ::
  "'w platform \<Rightarrow> string \<Rightarrow> error + DockerContentDigest" where
  "parseDockerContentDigest P dcd =
     (if dcd = [] then Inl (BadDigestError (''missing '' @ dq @ ''Docker-Content-Digest'' @ dq
                                              @ '' header''))
      else
        (let errPre = ''could not parse Docker-Content-Digest header '' @ dq @ dcd @ dq @ '': '';
             parts = splitIntoTwo dcd '':''
         in if length parts \<noteq> 2
            then Inl (BadDigestError (errPre @ JSON_stringify P (JStr dcd)))
            else if parts ! 0 \<noteq> ''sha256''
            then Inl (BadDigestError (errPre @ ''Unsupported hash algorithm ''
                                        @ JSON_stringify P (JStr (parts ! 0))))
            else Inr \<lparr>raw = dcd, algorithm = parts ! 0, expectedDigest = parts ! 1\<rparr>))"

text \<open>
  The reader's view of a byte stream piped through \<open>validationStream\<close>: the
  chunks pass through, and the end of the stream is an error when the SHA-256 of
  the bytes is not the expected digest.
\<close>

definition validationStream :: "'w platform \<Rightarrow> DockerContentDigest \<Rightarrow> stream \<Rightarrow> stream" where
  "validationStream P info st =
     (case failure st of
        Some e \<Rightarrow> st
      | None \<Rightarrow>
          if expectedDigest info = sha256_hex P (delivered st) then st
          else st\<lparr>failure :=
                    Some (BadDigestError (''Docker-Content-Digest ('' @ expectedDigest info
                                            @ '' vs '' @ sha256_hex P (delivered st) @ '')''))\<rparr>)"

definition digestFromManifestStr :: "'w platform \<Rightarrow> string \<Rightarrow> error + string" where
  "digestFromManifestStr P manifestStr =
     (case JSON_parse P manifestStr of
        Inl m \<Rightarrow>
          Inl (Error (''could not parse manifest: '' @ m @ [CHR 0x0A] @ manifestStr))
      | Inr manifest \<Rightarrow>
          (case getProp manifest ''schemaVersion'' of
             Inl e \<Rightarrow> Inl e
           | Inr v \<Rightarrow>
               if v = JNum ''1''
               then Inl (Error ''schemaVersion 1 is not supported by /x/docker_registry_client.'')
               else Inr (''sha256:'' @ sha256_hex P manifestStr)))"

text \<open>
  The client object. \<open>loggedIn\<close>, \<open>loggedInScope\<close>, \<open>authInfo\<close>,
  \<open>sessionHeaders\<close> and \<open>baseUrl\<close> are the private fields \<open>_loggedIn\<close>,
  \<open>_loggedInScope\<close>, \<open>_authInfo\<close>, \<open>_headers\<close> and \<open>_url\<close>;
  \<open>clientUserAgent\<close> is \<open>_commonHttpClientOpts.userAgent\<close>.
\<close>

record RegistryClientV2 =
  insecure :: bool
  repo :: RegistryRepo
  acceptOCIManifests :: bool
  acceptManifestLists :: bool
  username :: "string option"
  password :: "string option"
  scopes :: "string list"
  loggedIn :: bool
  loggedInScope :: "string option"
  authInfo :: "AuthInfo option"
  sessionHeaders :: headers
  baseUrl :: string
  clientUserAgent :: string

text \<open>The getter \<open>_api\<close>: a new \<open>DockerJsonClient\<close> on every read.\<close>

definition api :: "RegistryClientV2 \<Rightarrow> DockerJsonClient" where
  "api c = \<lparr>accept = ''application/json'', apiUrl = baseUrl c,
            userAgent = clientUserAgent c\<rparr>"

definition DEFAULT_INDEX_URL :: string where
  "DEFAULT_INDEX_URL = ''https://registry-1.docker.io''"

definition schemeText :: "scheme \<Rightarrow> string" where
  "schemeText sc = (case sc of http \<Rightarrow> ''http'' | https \<Rightarrow> ''https'')"

text \<open>
  \<open>urlFromIndex\<close>; the scheme argument has the type \<open>'http' | 'https'\<close>, so the
  check for another scheme in the second branch cannot fail.
\<close>

definition urlFromIndex :: "RegistryIndex \<Rightarrow> scheme option \<Rightarrow> error + string" where
  "urlFromIndex idx sch =
     (if official idx
      then (if sch \<noteq> None \<and> sch \<noteq> Some https
            then Inl (Error ''Unencrypted communication with docker.io is not allowed'')
            else Inr DEFAULT_INDEX_URL)
      else Inr (schemeText (case sch of None \<Rightarrow> RegistryIndex.scheme idx | Some x \<Rightarrow> x)
                  @ ''://'' @ name idx))"

record RegistryClientOpts =
  optName :: "string option"
  optRepo :: "RegistryRepo option"
  optUsername :: "string option"
  optPassword :: "string option"
  optToken :: "string option"
  optInsecure :: "bool option"
  optScheme :: "scheme option"
  optAcceptOCI :: "bool option"
  optAcceptLists :: "bool option"
  optUserAgent :: "string option"
  optScopes :: "string list option"

text \<open>The first session headers: from the token, else from the user name and password.\<close>

definition initialHeaders :: "'w platform \<Rightarrow> RegistryClientOpts \<Rightarrow> error + headers" where
  "initialHeaders P opts =
     (if htruthy (optToken opts)
      then setAuthHeaderFromAuthInfo P [] (Some (Bearer (the (optToken opts))))
      else if htruthy (optUsername opts) \<or> htruthy (optPassword opts)
      then setAuthHeaderFromAuthInfo P []
             (Some (Basic (case optUsername opts of None \<Rightarrow> [] | Some u \<Rightarrow> u)
                          (case optPassword opts of None \<Rightarrow> [] | Some pw \<Rightarrow> pw)))
      else setAuthHeaderFromAuthInfo P [] (Some AuthNone))"

text \<open>
  The constructor of \<open>RegistryClientV2\<close>: the repository, then the headers, then
  the URL.
\<close>

definition newRegistryClientV2 :: "'w platform \<Rightarrow> RegistryClientOpts \<Rightarrow> error + RegistryClientV2" where
  "newRegistryClientV2 P opts =
     (case (case optRepo opts of
              Some r \<Rightarrow> Inr r
            | None \<Rightarrow>
                if htruthy (optName opts) then parseRepo (the (optName opts)) None
                else Inl (Error ''name or repo required'')) of
        Inl e \<Rightarrow> Inl e
      | Inr r \<Rightarrow>
          (case initialHeaders P opts of
             Inl e \<Rightarrow> Inl e
           | Inr hs \<Rightarrow>
               (case urlFromIndex (index r) (optScheme opts) of
                  Inl e \<Rightarrow> Inl e
                | Inr u \<Rightarrow>
                    Inr \<lparr>insecure = (optInsecure opts = Some True),
                         repo = r,
                         acceptOCIManifests = (optAcceptOCI opts = Some True),
                         acceptManifestLists = (optAcceptLists opts = Some True),
                         username = optUsername opts,
                         password = optPassword opts,
                         scopes = (case optScopes opts of None \<Rightarrow> [''pull''] | Some l \<Rightarrow> l),
                         loggedIn = False,
                         loggedInScope = None,
                         authInfo = None,
                         sessionHeaders = hs,
                         baseUrl = u,
                         clientUserAgent =
                           (if htruthy (optUserAgent opts) then the (optUserAgent opts)
                            else DEFAULT_USERAGENT P)\<rparr>)))"

definition ping ::
  "'w platform \<Rightarrow> RegistryClientV2 \<Rightarrow> headers option \<Rightarrow> nat list option \<Rightarrow> 'w net
     \<Rightarrow> (error + response) \<times> 'w net" where
  "ping P c hs es n =
     (case request P (api c)
             \<lparr>path = ''/v2/'', reqMethod = ''GET'', reqHeaders = hs, reqBody = None,
              retry = Some False, connectTimeout = Some 10000,
              expectStatus = Some (case es of None \<Rightarrow> [200, 401, 404] | Some l \<Rightarrow> l),
              redirect = None\<rparr> n of
        (Inl e, n1) \<Rightarrow> (Inl e, n1)
      | (Inr r, n1) \<Rightarrow>
          (case dockerBody P r of
             (Inl e, r1) \<Rightarrow> (Inl e, n1)
           | (Inr bytes, r1) \<Rightarrow> (Inr r1, n1)))"

text \<open>
  \<open>/^(\w+):\/\//.exec(tokenUrl)\<close>: the leading word before \<open>://\<close>, if any.
\<close>

definition matchScheme :: "string \<Rightarrow> string option" where
  "matchScheme s =
     (let w = takeWhile isWord s
      in if w \<noteq> [] \<and> prefix ''://'' (dropWhile isWord s) then Some w else None)"

text \<open>The URL, query and headers of the token request of \<open>_getToken\<close>.\<close>

definition tokenQuery ::
  "RegistryClientV2 \<Rightarrow> string option \<Rightarrow> string list option \<Rightarrow> (string \<times> string) list" where
  "tokenQuery c service scps =
     (case service of None \<Rightarrow> [] | Some sv \<Rightarrow> if sv \<noteq> [] then [(''service'', sv)] else [])
     @ (case scps of None \<Rightarrow> [] | Some l \<Rightarrow> map (\<lambda>sc. (''scope'', sc)) l)
     @ (case username c of
          None \<Rightarrow> []
        | Some u \<Rightarrow> if u \<noteq> [] then [(''account'', u)] else [])"

definition tokenHeaders :: "'w platform \<Rightarrow> RegistryClientV2 \<Rightarrow> error + headers" where
  "tokenHeaders P c =
     (case username c of
        None \<Rightarrow> Inr []
      | Some u \<Rightarrow>
          if u \<noteq> []
          then setAuthHeaderFromAuthInfo P []
                 (Some (Basic u (case password c of None \<Rightarrow> [] | Some pw \<Rightarrow> pw)))
          else Inr [])"

definition tokenUrl ::
  "'w platform \<Rightarrow> RegistryClientV2 \<Rightarrow> string option \<Rightarrow> string option \<Rightarrow> string list option
     \<Rightarrow> error + string" where
  "tokenUrl P c realm service scps =
     (let realmStr = (case realm of None \<Rightarrow> ''undefined'' | Some r \<Rightarrow> r);
          q = URLSearchParams_toString P (tokenQuery c service scps)
      in case (case matchScheme realmStr of
                 None \<Rightarrow> Inr ((if insecure c then ''http'' else ''https'') @ ''://'' @ realmStr)
               | Some m1 \<Rightarrow>
                   if m1 \<noteq> ''http'' \<and> m1 \<noteq> ''https''
                   then Inl (Error (''unsupported scheme for WWW-Authenticate realm '' @ dq
                                      @ realmStr @ dq @ '': '' @ dq @ m1 @ dq))
                   else Inr realmStr) of
           Inl e \<Rightarrow> Inl e
         | Inr u \<Rightarrow> Inr (if q \<noteq> [] then u @ ''?'' @ q else u))"

text \<open>What \<open>_getToken\<close> does with a 401 response: it always throws.\<close>

definition tokenUnauthorized :: "'w platform \<Rightarrow> response \<Rightarrow> error" where
  "tokenUnauthorized P r =
     (case dockerJson P r of
        (Inl e, r1) \<Rightarrow> e
      | (Inr b, r1) \<Rightarrow>
          (case getRegistryErrorMessage b of
             Inl e \<Rightarrow> e
           | Inr errMsg \<Rightarrow>
               (case toString errMsg of
                  Inl e \<Rightarrow> e
                | Inr t \<Rightarrow>
                    (case dockerThrowable P r1 (''Registry auth failed: '' @ t) of
                       (Inl e, r2) \<Rightarrow> e
                     | (Inr e, r2) \<Rightarrow> e))))"

text \<open>What \<open>_getToken\<close> does with a 200 response.\<close>

definition tokenFromBody :: "'w platform \<Rightarrow> response \<Rightarrow> error + string" where
  "tokenFromBody P r =
     (case dockerJson P r of
        (Inl e, r1) \<Rightarrow> Inl e
      | (Inr b, r1) \<Rightarrow>
          (case getProp b ''token'' of
             Inl e \<Rightarrow> Inl e
           | Inr (JStr t) \<Rightarrow> Inr t
           | Inr other \<Rightarrow>
               (case dockerThrowable P r1
                       (''authorization server did not include a token in the response'') of
                  (Inl e, r2) \<Rightarrow> Inl e
                | (Inr e, r2) \<Rightarrow> Inl e)))"

definition getToken ::
  "'w platform \<Rightarrow> RegistryClientV2 \<Rightarrow> string option \<Rightarrow> string option \<Rightarrow> string list option
     \<Rightarrow> 'w net \<Rightarrow> (error + string) \<times> 'w net" where
  "getToken P c realm service scps n =
     (case tokenUrl P c realm service scps of
        Inl e \<Rightarrow> (Inl e, n)
      | Inr u \<Rightarrow>
          (case tokenHeaders P c of
             Inl e \<Rightarrow> (Inl e, n)
           | Inr hs \<Rightarrow>
               (case request P (api c)
                       \<lparr>path = u, reqMethod = ''GET'', reqHeaders = Some hs,
                        reqBody = None, retry = None, connectTimeout = None,
                        expectStatus = Some [200, 401], redirect = None\<rparr> n of
                  (Inl e, n1) \<Rightarrow> (Inl e, n1)
                | (Inr r, n1) \<Rightarrow>
                    if status r = 401 then (Inl (tokenUnauthorized P r), n1)
                    else (tokenFromBody P r, n1))))"

text \<open>
  \<open>performLogin\<close>, after the response with the challenge is at hand: read the
  header, parse it and act on the scheme.
\<close>

definition loginWithChallenge ::
  "'w platform \<Rightarrow> RegistryClientV2 \<Rightarrow> string option \<Rightarrow> response \<Rightarrow> 'w net
     \<Rightarrow> (error + AuthInfo) \<times> 'w net" where
  "loginWithChallenge P c scope res n =
     (let chalHeader = hget (headers res) ''www-authenticate''
      in if \<not> htruthy chalHeader
         then (case dockerThrowable P res
                      (''missing WWW-Authenticate header from '' @ dq @ ''GET /v2/'' @ dq
                         @ '' (see https://docs.docker.com/registry/spec/api/#api-version-check)'') of
                 (Inl e, r1) \<Rightarrow> (Inl e, n)
               | (Inr e, r1) \<Rightarrow> (Inl e, n))
         else
           (case parseWWWAuthenticate (the chalHeader) of
              Inl e \<Rightarrow> (Inl e, n)
            | Inr authChallenge \<Rightarrow>
                if toLowerCase (schemeName authChallenge) = ''basic''
                then (Inr (Basic (case username c of None \<Rightarrow> [] | Some u \<Rightarrow> u)
                                 (case password c of None \<Rightarrow> [] | Some pw \<Rightarrow> pw)), n)
                else if toLowerCase (schemeName authChallenge) = ''bearer''
                then (case getToken P c (map_of (parms authChallenge) ''realm'')
                             (map_of (parms authChallenge) ''service'')
                             (Some (case scope of
                                      None \<Rightarrow> []
                                    | Some sc \<Rightarrow> if sc \<noteq> [] then [sc] else [])) n of
                        (Inl e, n1) \<Rightarrow> (Inl e, n1)
                      | (Inr token, n1) \<Rightarrow> (Inr (Bearer token), n1))
                else (Inl (Error (''unsupported auth scheme: '' @ dq
                                    @ schemeName authChallenge @ dq)), n)))"

definition performLogin ::
  "'w platform \<Rightarrow> RegistryClientV2 \<Rightarrow> string option \<Rightarrow> response option \<Rightarrow> 'w net
     \<Rightarrow> (error + AuthInfo) \<times> 'w net" where
  "performLogin P c scope pingRes n =
     (if (case pingRes of
            None \<Rightarrow> True
          | Some res \<Rightarrow> \<not> htruthy (hget (headers res) ''www-authenticate''))
      then (case ping P c None (Some [200, 401]) n of
              (Inl e, n1) \<Rightarrow> (Inl e, n1)
            | (Inr res, n1) \<Rightarrow>
                if status res = 200 then (Inr AuthNone, n1)
                else loginWithChallenge P c scope res n1)
      else loginWithChallenge P c scope (the pingRes) n)"

text \<open>
  \<open>login\<close> returns nothing; the client it leaves behind is part of the result.
  \<open>performLogin\<close>, \<open>ping\<close> and \<open>_getToken\<close> hold no assignment to a field of the
  client, so they take the client and return none. After \<open>performLogin\<close> has
  returned, \<open>_loggedIn\<close>, \<open>_loggedInScope\<close> and \<open>_authInfo\<close> are assigned, and
  then the authorization header is set; when that throws, the three assignments
  stay.
\<close>

definition effectiveScope :: "RegistryClientV2 \<Rightarrow> string option \<Rightarrow> string" where
  "effectiveScope c optScope =
     (case optScope of
        Some sc \<Rightarrow>
          if sc \<noteq> [] then sc
          else makeAuthScope ''repository'' (remoteName (repo c)) (scopes c)
      | None \<Rightarrow> makeAuthScope ''repository'' (remoteName (repo c)) (scopes c))"

definition login ::
  "'w platform \<Rightarrow> RegistryClientV2 \<Rightarrow> response option \<Rightarrow> string option \<Rightarrow> 'w net
     \<Rightarrow> (error + unit) \<times> RegistryClientV2 \<times> 'w net" where
  "login P c pingRes optScope n =
     (let scope = effectiveScope c optScope
      in if loggedIn c \<and> loggedInScope c = Some scope then (Inr (), c, n)
         else
           (case performLogin P c (Some scope) pingRes n of
              (Inl e, n1) \<Rightarrow> (Inl e, c, n1)
            | (Inr ai, n1) \<Rightarrow>
                (let c1 = c\<lparr>loggedIn := True, loggedInScope := Some scope,
                            authInfo := Some ai\<rparr>
                 in case setAuthHeaderFromAuthInfo P (sessionHeaders c1) (Some ai) of
                      Inl e \<Rightarrow> (Inl e, c1, n1)
                    | Inr hs \<Rightarrow> (Inr (), c1\<lparr>sessionHeaders := hs\<rparr>, n1))))"

text \<open>
  \<open>header.split(/[\s,]+/g)\<close>: the pieces between runs of white space and
  commas. The first argument is the piece read so far, reversed.
\<close>

function splitVersions :: "string \<Rightarrow> string \<Rightarrow> string list" where
  "splitVersions cur [] = [rev cur]"
| "splitVersions cur (c # cs) =
     (if isSpace c \<or> c = CHR '',''
      then rev cur # splitVersions [] (dropWhile (\<lambda>d. isSpace d \<or> d = CHR '','') cs)
      else splitVersions (c # cur) cs)"
  by pat_completeness auto
termination
  by (relation "measure (\<lambda>(cur, s). length s)")
     (auto simp: less_Suc_eq_le length_dropWhile_le)

definition supportsV2 ::
  "'w platform \<Rightarrow> RegistryClientV2 \<Rightarrow> 'w net \<Rightarrow> (error + bool) \<times> 'w net" where
  "supportsV2 P c n =
     (case ping P c None None n of
        (Inl e, n1) \<Rightarrow> if resp e \<noteq> None then (Inr False, n1) else (Inl e, n1)
      | (Inr res, n1) \<Rightarrow>
          (let header = hget (headers res) ''docker-distribution-api-version''
           in if htruthy header \<and> ''registry/2.0'' \<in> set (splitVersions [] (the header))
              then (Inr True, n1)
              else (Inr (status res \<in> set [200, 401]), n1)))"

definition MEDIATYPE_MANIFEST_V2 :: string where
  "MEDIATYPE_MANIFEST_V2 = ''application/vnd.docker.distribution.manifest.v2+json''"

definition MEDIATYPE_MANIFEST_LIST_V2 :: string where
  "MEDIATYPE_MANIFEST_LIST_V2 = ''application/vnd.docker.distribution.manifest.list.v2+json''"

definition MEDIATYPE_OCI_MANIFEST_V1 :: string where
  "MEDIATYPE_OCI_MANIFEST_V1 = ''application/vnd.oci.image.manifest.v1+json''"

definition MEDIATYPE_OCI_MANIFEST_INDEX_V1 :: string where
  "MEDIATYPE_OCI_MANIFEST_INDEX_V1 = ''application/vnd.oci.image.index.v1+json''"

text \<open>The request headers of \<open>getManifest\<close>: the session headers and the accepted types.\<close>

definition manifestHeaders :: "RegistryClientV2 \<Rightarrow> bool \<Rightarrow> bool \<Rightarrow> headers" where
  "manifestHeaders c mlists oci =
     (let h1 = happend (sessionHeaders c) ''accept'' MEDIATYPE_MANIFEST_V2;
          h2 = (if mlists then happend h1 ''accept'' MEDIATYPE_MANIFEST_LIST_V2 else h1);
          h3 = (if oci then happend h2 ''accept'' MEDIATYPE_OCI_MANIFEST_V1 else h2)
      in if oci \<and> mlists then happend h3 ''accept'' MEDIATYPE_OCI_MANIFEST_INDEX_V1 else h3)"

text \<open>What \<open>getManifest\<close> does with a 401 response: it always throws.\<close>

definition manifestUnauthorized :: "'w platform \<Rightarrow> string \<Rightarrow> response \<Rightarrow> error" where
  "manifestUnauthorized P ref r =
     (case dockerJson P r of
        (Inl e, r1) \<Rightarrow> e
      | (Inr b, r1) \<Rightarrow>
          (case getRegistryErrorMessage b of
             Inl e \<Rightarrow> e
           | Inr errMsg \<Rightarrow>
               (case toString errMsg of
                  Inl e \<Rightarrow> e
                | Inr t \<Rightarrow>
                    (case dockerThrowable P r1
                            (''Manifest '' @ JSON_stringify P (JStr ref) @ '' Not Found: '' @ t) of
                       (Inl e, r2) \<Rightarrow> e
                     | (Inr e, r2) \<Rightarrow> e))))"

text \<open>What \<open>getManifest\<close> does with the response otherwise: parse and check the body.\<close>

definition manifestFromBody :: "'w platform \<Rightarrow> response \<Rightarrow> error + response \<times> js" where
  "manifestFromBody P r =
     (case dockerJson P r of
        (Inl e, r1) \<Rightarrow> Inl e
      | (Inr manifest, r1) \<Rightarrow>
          (case getProp manifest ''schemaVersion'' of
             Inl e \<Rightarrow> Inl e
           | Inr v \<Rightarrow>
               if v = JNum ''1''
               then Inl (Error ''schemaVersion 1 is not supported by /x/docker_registry_client.'')
               else Inr (r1, manifest)))"

record getManifestOpts =
  ref :: string
  optAcceptManifestLists :: "bool option"
  optAcceptOCIManifests :: "bool option"
  followRedirects :: "bool option"

definition manifestRequest :: "'w platform \<Rightarrow> RegistryClientV2 \<Rightarrow> getManifestOpts \<Rightarrow> HttpReqOpts" where
  "manifestRequest P c opts =
     \<lparr>path = ''/v2/'' @ encodeURI P (remoteName (repo c)) @ ''/manifests/''
               @ encodeURI P (ref opts),
      reqMethod = ''GET'',
      reqHeaders =
        Some (manifestHeaders c
                (case optAcceptManifestLists opts of
                   None \<Rightarrow> acceptManifestLists c | Some b \<Rightarrow> b)
                (case optAcceptOCIManifests opts of
                   None \<Rightarrow> acceptOCIManifests c | Some b \<Rightarrow> b)),
      reqBody = None, retry = None, connectTimeout = None,
      expectStatus = Some [200, 401],
      redirect = Some (if followRedirects opts = Some False then ''manual'' else ''follow'')\<rparr>"

definition getManifest ::
  "'w platform \<Rightarrow> RegistryClientV2 \<Rightarrow> getManifestOpts \<Rightarrow> 'w net
     \<Rightarrow> (error + response \<times> js) \<times> RegistryClientV2 \<times> 'w net" where
  "getManifest P c opts n =
     (case login P c None None n of
        (Inl e, c1, n1) \<Rightarrow> (Inl e, c1, n1)
      | (Inr u, c1, n1) \<Rightarrow>
          (case request P (api c1) (manifestRequest P c1 opts) n1 of
             (Inl e, n2) \<Rightarrow> (Inl e, c1, n2)
           | (Inr r, n2) \<Rightarrow>
               if status r = 401 then (Inl (manifestUnauthorized P (ref opts) r), c1, n2)
               else (manifestFromBody P r, c1, n2)))"

text \<open>
  The loop of \<open>_makeHttpRequest\<close>. The first argument is how many passes are
  left, \<open>maxRedirects - numRedirs\<close>; \<open>maxRedirects\<close> is a natural number here.
  With no pass left the loop is left and the function throws.
\<close>

definition hopRequest :: "string \<Rightarrow> string \<Rightarrow> headers option \<Rightarrow> HttpReqOpts" where
  "hopRequest meth reqPath reqHs =
     \<lparr>path = reqPath, reqMethod = meth, reqHeaders = reqHs, reqBody = None,
      retry = None, connectTimeout = None, expectStatus = Some [200, 302, 307],
      redirect = Some ''manual''\<rparr>"

fun redirectLoop ::
  "nat \<Rightarrow> 'w platform \<Rightarrow> RegistryClientV2 \<Rightarrow> string \<Rightarrow> bool \<Rightarrow> nat
     \<Rightarrow> string \<Rightarrow> headers option \<Rightarrow> response list \<Rightarrow> 'w net
     \<Rightarrow> (error + response list) \<times> 'w net" where
  "redirectLoop 0 P c meth follow maxR reqPath reqHs ress n =
     (Inl (TooManyRedirectsError
             (''maximum number of redirects ('' @ showNat maxR @ '') hit'')), n)"
| "redirectLoop (Suc k) P c meth follow maxR reqPath reqHs ress n =
     (case request P ((api c)\<lparr>accept := []\<rparr>) (hopRequest meth reqPath reqHs) n of
        (Inl e, n1) \<Rightarrow> (Inl e, n1)
      | (Inr r, n1) \<Rightarrow>
          if \<not> follow then (Inr (ress @ [r]), n1)
          else if \<not> (status r = 302 \<or> status r = 307) then (Inr (ress @ [r]), n1)
          else if \<not> htruthy (hget (headers r) ''location'') then (Inr (ress @ [r]), n1)
          else
            (case newURL P reqPath (baseUrl c) of
               None \<Rightarrow> (Inl (TypeError ''Invalid URL''), n1)
             | Some b \<Rightarrow>
                 (case newURL P (the (hget (headers r) ''location'')) b of
                    None \<Rightarrow> (Inl (TypeError ''Invalid URL''), n1)
                  | Some loc \<Rightarrow>
                      redirectLoop k P c meth follow maxR loc (Some []) (ress @ [r]) n1)))"

record makeHttpRequestOpts =
  mMethod :: string
  mPath :: string
  mHeaders :: "headers option"
  mFollowRedirects :: "bool option"
  maxRedirects :: "nat option"

definition makeHttpRequest ::
  "'w platform \<Rightarrow> RegistryClientV2 \<Rightarrow> makeHttpRequestOpts \<Rightarrow> 'w net
     \<Rightarrow> (error + response list) \<times> 'w net" where
  "makeHttpRequest P c opts n =
     (let follow = (case mFollowRedirects opts of None \<Rightarrow> True | Some b \<Rightarrow> b);
          maxR = (case maxRedirects opts of None \<Rightarrow> 3 | Some m \<Rightarrow> m)
      in redirectLoop maxR P c (mMethod opts) follow maxR (mPath opts) (mHeaders opts) [] n)"

definition headOrGetBlob ::
  "'w platform \<Rightarrow> RegistryClientV2 \<Rightarrow> string \<Rightarrow> string \<Rightarrow> 'w net
     \<Rightarrow> (error + response list) \<times> RegistryClientV2 \<times> 'w net" where
  "headOrGetBlob P c meth dgst n =
     (case login P c None None n of
        (Inl e, c1, n1) \<Rightarrow> (Inl e, c1, n1)
      | (Inr u, c1, n1) \<Rightarrow>
          (case makeHttpRequest P c1
                  \<lparr>mMethod = meth,
                   mPath = ''/v2/'' @ encodeURI P (remoteName (repo c1)) @ ''/blobs/''
                             @ encodeURI P dgst,
                   mHeaders = Some (sessionHeaders c1), mFollowRedirects = None,
                   maxRedirects = None\<rparr> n1 of
             (res, n2) \<Rightarrow> (res, c1, n2)))"

definition headBlob ::
  "'w platform \<Rightarrow> RegistryClientV2 \<Rightarrow> string \<Rightarrow> 'w net
     \<Rightarrow> (error + response list) \<times> RegistryClientV2 \<times> 'w net" where
  "headBlob P c dgst n = headOrGetBlob P c ''HEAD'' dgst n"

text \<open>
  \<open>createBlobReadStream\<close>, after the responses are at hand: take the stream of
  the last response, then check the digest header of the first one. The stream
  is returned as \<open>dockerStream\<close> gave it: the line that pipes it through
  \<open>validationStream\<close> is commented out in the source.
\<close>

definition blobStream ::
  "'w platform \<Rightarrow> string \<Rightarrow> response list \<Rightarrow> error + response list \<times> stream" where
  "blobStream P dgst ress =
     (if ress = [] then Inl (TypeError ''Cannot read properties of undefined'')
      else
        (case dockerStream P (last ress) of
           Inl e \<Rightarrow> Inl e
         | Inr st \<Rightarrow>
             (let dcdHeader = hget (headers (hd ress)) ''docker-content-digest''
              in if htruthy dcdHeader
                 then (case parseDockerContentDigest P (the dcdHeader) of
                         Inl e \<Rightarrow> Inl e
                       | Inr dcdInfo \<Rightarrow>
                           if raw dcdInfo \<noteq> dgst
                           then Inl (BadDigestError
                                       (''Docker-Content-Digest header, '' @ raw dcdInfo
                                          @ '', does not match given digest, '' @ dgst))
                           else Inr (ress, st))
                 else Inr (ress, st))))"

definition createBlobReadStream ::
  "'w platform \<Rightarrow> RegistryClientV2 \<Rightarrow> string \<Rightarrow> 'w net
     \<Rightarrow> (error + response list \<times> stream) \<times> RegistryClientV2 \<times> 'w net" where
  "createBlobReadStream P c dgst n =
     (case headOrGetBlob P c ''GET'' dgst n of
        (Inl e, c1, n1) \<Rightarrow> (Inl e, c1, n1)
      | (Inr ress, c1, n1) \<Rightarrow> (blobStream P dgst ress, c1, n1))"

section \<open>A platform for the examples\<close>

text \<open>
  The examples run against a scripted network: each call of \<open>fetch\<close> takes the
  next entry of a list of outcomes, and rejects when the list is used up.
\<close>

type_synonym script = "(string + raw_response) list"

definition exFetch :: "fetch_request \<Rightarrow> script \<Rightarrow> (string + raw_response) \<times> script" where
  "exFetch rq w = (case w of [] \<Rightarrow> (Inl ''request failed'', []) | r # rs \<Rightarrow> (r, rs))"

text \<open>Absolute URLs resolve to themselves, absolute paths against the origin of the base.\<close>

definition exOrigin :: "string \<Rightarrow> string" where
  "exOrigin u =
     takeWhile isWord u @ ''://''
       @ takeWhile (\<lambda>c. c \<noteq> CHR ''/'') (drop 3 (dropWhile isWord u))"

definition exNewURL :: "string \<Rightarrow> string \<Rightarrow> string option" where
  "exNewURL rel base =
     (if matchScheme rel \<noteq> None then Some rel
      else if prefix ''/'' rel \<and> matchScheme base \<noteq> None then Some (exOrigin base @ rel)
      else None)"

text \<open>The JSON texts of the examples and the values \<open>JSON.parse\<close> gives for them.\<close>

definition exManifestV2 :: string where
  "exManifestV2 = ''{'' @ dq @ ''schemaVersion'' @ dq @ '':2}''"

definition exManifestV1 :: string where
  "exManifestV1 = ''{'' @ dq @ ''schemaVersion'' @ dq @ '':1,'' @ dq @ ''name'' @ dq @ '':''
                    @ dq @ ''blarg'' @ dq @ ''}''"

definition exDetails :: string where
  "exDetails = ''{'' @ dq @ ''details'' @ dq @ '':'' @ dq @ ''incorrect username or password''
                 @ dq @ ''}''"

definition exToken :: string where
  "exToken = ''{'' @ dq @ ''token'' @ dq @ '':'' @ dq @ ''abc'' @ dq @ ''}''"

text \<open>A token with a line feed, written \<open>\n\<close> in the JSON text.\<close>

definition exBadToken :: string where
  "exBadToken = ''{'' @ dq @ ''token'' @ dq @ '':'' @ dq @ ''a'' @ [CHR 0x5C] @ ''nb'' @ dq @ ''}''"

definition exJSON_parse :: "string \<Rightarrow> string + js" where
  "exJSON_parse s =
     (case map_of
             [(''null'', JNull),
              (''{}'', JObj []),
              (exManifestV2, JObj [(''schemaVersion'', JNum ''2'')]),
              (exManifestV1, JObj [(''schemaVersion'', JNum ''1''), (''name'', JStr ''blarg'')]),
              (exDetails, JObj [(''details'', JStr ''incorrect username or password'')]),
              (exToken, JObj [(''token'', JStr ''abc'')]),
              (exBadToken, JObj [(''token'', JStr (''a'' @ [CHR 0x0A] @ ''b''))])] s of
        Some v \<Rightarrow> Inr v
      | None \<Rightarrow> Inl ''Unexpected token'')"

definition exJSON_stringify :: "js \<Rightarrow> string" where
  "exJSON_stringify v =
     (case v of JStr s \<Rightarrow> dq @ s @ dq | JNull \<Rightarrow> ''null'' | _ \<Rightarrow> ''{}'')"

text \<open>The SHA-256 digests, in hex, of the byte strings of the examples.\<close>

definition exSha256 :: "string \<Rightarrow> string" where
  "exSha256 s =
     (case map_of
             [(exManifestV2,
               ''bafebd36189ad3688b7b3915ea55d461e0bfcfbdde11e54b0a123999fb6be50f''),
              (''hello'',
               ''2cf24dba5fb0a30e26e83b2ac5b9e29e1b161e5c1fa7425e73043362938b9824''),
              (''tampered'',
               ''d121be3103007b41edf96f8262925f8c7d61894afe9a041843b631f69445bc57'')] s of
        Some h \<Rightarrow> h
      | None \<Rightarrow> [])"

text \<open>The digests of the blobs \<open>hello\<close> and \<open>tampered\<close>, as a registry writes them.\<close>

definition exHelloDigest :: string where
  "exHelloDigest = ''sha256:'' @ exSha256 ''hello''"

definition exTamperedDigest :: string where
  "exTamperedDigest = ''sha256:'' @ exSha256 ''tampered''"

definition exMd5 :: "string \<Rightarrow> string" where
  "exMd5 s =
     (case map_of [(''hello'', ''XUFAKrxLKna5cZ2REBfFkg==''),
                   (''tampered'', ''B7IYuSQSDUmnJcNrBlVgAA=='')] s of
        Some h \<Rightarrow> h
      | None \<Rightarrow> [])"

definition exBtoa :: "string \<Rightarrow> string" where
  "exBtoa s = (case map_of [(''alice:secret'', ''YWxpY2U6c2VjcmV0'')] s of
                 Some b \<Rightarrow> b | None \<Rightarrow> [])"

text \<open>\<open>key=value\<close> pairs joined by \<open>&\<close>; colon, slash and comma are percent-encoded.\<close>

definition exFormEncode :: "string \<Rightarrow> string" where
  "exFormEncode s =
     concat (map (\<lambda>c. if c = CHR '':'' then ''%3A'' else if c = CHR ''/'' then ''%2F''
                        else if c = CHR '','' then ''%2C'' else [c]) s)"

definition exSearchParams :: "(string \<times> string) list \<Rightarrow> string" where
  "exSearchParams kvs = join ''&'' (map (\<lambda>kv. exFormEncode (fst kv) @ ''='' @ exFormEncode (snd kv)) kvs)"

definition exPlatform :: "script platform" where
  "exPlatform =
     \<lparr>fetch = exFetch, newURL = exNewURL, JSON_parse = exJSON_parse,
      JSON_stringify = exJSON_stringify, md5_base64 = exMd5, sha256_hex = exSha256,
      btoa = exBtoa, encodeURI = (\<lambda>s. s), URLSearchParams_toString = exSearchParams,
      TextDecoder_decode = (\<lambda>s. s),
      DEFAULT_USERAGENT = ''node-oci-registry-client/0.2.0 (x64-linux; node/18.0.0)''\<rparr>"

text \<open>The client \<open>new RegistryClientV2({name: 'registry.example/blarg'})\<close>.\<close>

definition exClient :: RegistryClientV2 where
  "exClient =
     \<lparr>insecure = False,
      repo = \<lparr>index = \<lparr>name = ''registry.example'', official = False, scheme = https\<rparr>,
              officialRepo = False, remoteName = ''blarg'',
              localName = ''registry.example/blarg'',
              canonicalName = ''registry.example/blarg''\<rparr>,
      acceptOCIManifests = False, acceptManifestLists = False,
      username = None, password = None, scopes = [''pull''],
      loggedIn = False, loggedInScope = None, authInfo = None,
      sessionHeaders = [], baseUrl = ''https://registry.example'',
      clientUserAgent = ''node-oci-registry-client/0.2.0 (x64-linux; node/18.0.0)''\<rparr>"

definition exOpts :: RegistryClientOpts where
  "exOpts =
     \<lparr>optName = Some ''registry.example/blarg'', optRepo = None, optUsername = None,
      optPassword = None, optToken = None, optInsecure = None, optScheme = None,
      optAcceptOCI = None, optAcceptLists = None, optUserAgent = None, optScopes = None\<rparr>"

text \<open>
  The challenge \<open>Bearer realm="https://auth.example/token",service="registry.example"\<close>.
\<close>

definition exChallenge :: string where
  "exChallenge = ''Bearer realm='' @ dq @ ''https://auth.example/token'' @ dq
                   @ '',service='' @ dq @ ''registry.example'' @ dq"

text \<open>
  The client after a \<open>login\<close> whose ping the registry answered with 200, and the
  scope of a later push.
\<close>

definition exLoggedIn :: RegistryClientV2 where
  "exLoggedIn =
     exClient\<lparr>loggedIn := True, loggedInScope := Some ''repository:blarg:pull'',
              authInfo := Some AuthNone\<rparr>"

definition exPushScope :: string where
  "exPushScope = ''repository:blarg:pull,push''"

text \<open>A response of the script with a status, headers and a body.\<close>

definition exResponse :: "nat \<Rightarrow> headers \<Rightarrow> string \<Rightarrow> string + raw_response" where
  "exResponse st hs b =
     Inr \<lparr>rawStatus = st, rawStatusText = [], rawHeaders = hs, rawBody = Some b\<rparr>"

text \<open>A registry that answers every request with a 307 to the same location.\<close>

definition exRedirector :: "unit platform" where
  "exRedirector =
     \<lparr>fetch = (\<lambda>rq w. (exResponse 307 [(''location'', ''https://cdn.example/x'')] [], w)),
      newURL = exNewURL,
      JSON_parse = exJSON_parse, JSON_stringify = exJSON_stringify, md5_base64 = exMd5,
      sha256_hex = exSha256, btoa = exBtoa, encodeURI = (\<lambda>s. s),
      URLSearchParams_toString = exSearchParams, TextDecoder_decode = (\<lambda>s. s),
      DEFAULT_USERAGENT = ''node-oci-registry-client/0.2.0 (x64-linux; node/18.0.0)''\<rparr>"

section \<open>Properties of name parsing\<close>

lemma indexOf_char_notin: "c \<notin> set s \<Longrightarrow> indexOf s [c] = None"
  by (induction s) auto

lemma indexOf_Some_subset: "indexOf s sep = Some i \<Longrightarrow> set sep \<subseteq> set s"
proof (induction s arbitrary: i)
  case Nil
  then show ?case by (auto split: if_splits)
next
  case (Cons a s)
  show ?case
  proof (cases "prefix sep (a # s)")
    case True
    then show ?thesis using set_mono_prefix by blast
  next
    case False
    with Cons.prems obtain j where "indexOf s sep = Some j" by auto
    from Cons.IH[OF this] show ?thesis by auto
  qed
qed

lemma indexOf_None_if: "c \<in> set sep \<Longrightarrow> c \<notin> set s \<Longrightarrow> indexOf s sep = None"
  using indexOf_Some_subset by (cases "indexOf s sep") auto

lemma parseIndexScheme_plain:
  assumes "CHR ''/'' \<notin> set idx"
  shows "parseIndexScheme idx = Inr (if isLocalhost idx then http else https, idx)"
proof -
  have "indexOf idx ''://'' = None"
    by (rule indexOf_None_if[of "CHR ''/''"]) (use assms in simp_all)
  then show ?thesis by (simp add: parseIndexScheme_def)
qed

lemma parseIndex_plain_host:
  assumes sl: "CHR ''/'' \<notin> set idx"
      and host: "indexOf idx ''.'' \<noteq> None \<or> indexOf idx '':'' \<noteq> None \<or> idx = ''localhost''"
      and nidx: "idx \<noteq> ''index.docker.io''"
      and ok: "parseIndex (Some idx) = Inr i"
    shows "name i = idx \<and> official i = (idx = ''docker.io'')"
proof -
  have ne: "idx \<noteq> []"
  proof
    assume "idx = []"
    with host show False by simp
  qed
  have nl: "idx \<noteq> DEFAULT_LOGIN_SERVERNAME"
  proof
    assume "idx = DEFAULT_LOGIN_SERVERNAME"
    then have "CHR ''/'' \<in> set idx" by (simp add: DEFAULT_LOGIN_SERVERNAME_def)
    with sl show False by simp
  qed
  from sl ne have lst: "last idx \<noteq> CHR ''/''"
    using last_in_set by metis
  from sl have nsl: "indexOf idx ''/'' = None"
    by (simp add: indexOf_char_notin)
  have hostc: "\<not> (indexOf idx ''.'' = None \<and> indexOf idx '':'' = None \<and> idx \<noteq> ''localhost'')"
    using host by blast
  define sch where "sch = (if isLocalhost idx then http else https)"
  have "parseIndex (Some idx) =
          (if idx = DEFAULT_INDEX_NAME \<and> sch = http
           then Inl (Error (''invalid index, plaintext HTTP to official index ''
                              @ ''is disallowed: '' @ idx))
           else Inr \<lparr>name = idx, official = (idx = DEFAULT_INDEX_NAME), scheme = sch\<rparr>)"
    unfolding parseIndex_def
    by (simp only: option.case ne nl parseIndexScheme_plain[OF sl] sum.case prod.case
          hostc lst nsl Let_def if_False if_True simp_thms nidx sch_def[symmetric]
          DEFAULT_INDEX_NAME_def append.simps RegistryIndex.simps)
  with ok have "i = \<lparr>name = idx, official = (idx = DEFAULT_INDEX_NAME), scheme = sch\<rparr>"
    by (simp split: if_splits)
  then show ?thesis by (simp add: DEFAULT_INDEX_NAME_def)
qed


lemma indexOf_char_first: "c \<notin> set xs \<Longrightarrow> indexOf (xs @ c # ys) [c] = Some (length xs)"
  by (induction xs) auto

lemma lastIndexOf_char_notin: "c \<notin> set s \<Longrightarrow> lastIndexOf s [c] = None"
  by (induction s) auto

lemma lastIndexOf_append_notin:
  "c \<notin> set ys \<Longrightarrow> lastIndexOf (xs @ ys) [c] = lastIndexOf xs [c]"
  by (induction xs) (auto simp: lastIndexOf_char_notin split: option.splits)

lemma lastIndexOf_snoc: "lastIndexOf (xs @ [c]) [c] = Some (length xs)"
  by (induction xs) auto

lemma lastIndexOf_bound: "lastIndexOf s [c] = Some i \<Longrightarrow> i < length s"
  by (induction s arbitrary: i) (auto split: option.splits if_splits)

lemma lastIndexOf_mid: "\<exists>i. lastIndexOf (xs @ c # ys) [c] = Some i \<and> length xs \<le> i"
  by (induction xs) (auto split: option.splits)

lemma lastIndexOf_last:
  "c \<notin> set ys \<Longrightarrow> lastIndexOf (xs @ c # ys) [c] = Some (length xs)"
  using lastIndexOf_append_notin[of c ys "xs @ [c]"] by (simp add: lastIndexOf_snoc)

lemma splitIntoTwo_char:
  "c \<notin> set xs \<Longrightarrow> splitIntoTwo (xs @ c # ys) [c] = [xs, ys]"
  by (simp add: splitIntoTwo_def indexOf_char_first slice_def sliceFrom_def)

lemma splitIntoTwo_cases:
  "splitIntoTwo s [c] = [s] \<and> c \<notin> set s
   \<or> (\<exists>a b. splitIntoTwo s [c] = [a, b] \<and> s = a @ c # b \<and> c \<notin> set a)"
proof (cases "c \<in> set s")
  case True
  then obtain a b where "s = a @ c # b" "c \<notin> set a"
    by (meson split_list_first)
  then show ?thesis by (simp add: splitIntoTwo_char)
next
  case False
  then show ?thesis by (simp add: splitIntoTwo_def indexOf_char_notin)
qed

lemma validateRemoteName_one:
  assumes "CHR ''/'' \<notin> set rname" "validateRemoteName i rname = Inr (ns, nm)"
  shows "ns = (if official i then ''library'' else []) \<and> nm = rname"
proof -
  have sp: "splitIntoTwo rname ''/'' = [rname]"
    using assms(1) by (simp add: splitIntoTwo_def indexOf_char_notin)
  from assms(2) show ?thesis
    by (auto simp add: validateRemoteName_def sp Let_def split: option.splits)
qed

lemma validateRemoteName_two:
  assumes "CHR ''/'' \<notin> set a" "validateRemoteName i (a @ ''/'' @ b) = Inr (ns, nm)"
  shows "ns = a \<and> nm = b \<and> a \<noteq> []"
proof -
  have sp: "splitIntoTwo (a @ CHR ''/'' # b) ''/'' = [a, b]"
    using assms(1) by (rule splitIntoTwo_char)
  from assms(2) have "ns = a" "nm = b" and v: "validateNamespace a = None"
    by (simp_all add: validateRemoteName_def sp Let_def split: option.splits)
  from v have "\<not> length a < 2"
    by (simp add: validateNamespace_def split: if_splits)
  then have "a \<noteq> []" by auto
  with \<open>ns = a\<close> \<open>nm = b\<close> show ?thesis by simp
qed

lemma validateRemoteName_result:
  assumes "validateRemoteName i rname = Inr (ns, nm)"
  shows "(ns = (if official i then ''library'' else []) \<and> nm = rname)
         \<or> (ns \<noteq> [] \<and> rname = ns @ ''/'' @ nm)"
proof (cases "CHR ''/'' \<in> set rname")
  case False
  with assms validateRemoteName_one show ?thesis by blast
next
  case True
  then obtain a b where ab: "rname = a @ ''/'' @ b" "CHR ''/'' \<notin> set a"
    using split_list_first[of "CHR ''/''" rname] by auto
  with assms validateRemoteName_two[of a i b ns nm] show ?thesis by simp
qed


lemma parseRepoIndex_explicit:
  assumes sl: "CHR ''/'' \<notin> set idx"
      and host: "indexOf idx ''.'' \<noteq> None \<or> indexOf idx '':'' \<noteq> None \<or> idx = ''localhost''"
      and nidx: "idx \<noteq> ''index.docker.io''"
      and nsch: "indexOf (idx @ ''/'' @ rname) ''://'' = None"
      and ok: "parseRepoIndex (idx @ ''/'' @ rname) dflt = Inr (i, rawName)"
    shows "name i = idx \<and> official i = (idx = ''docker.io'') \<and> rawName = rname"
proof -
  have sp: "splitIntoTwo (idx @ CHR ''/'' # rname) ''/'' = [idx, rname]"
    using sl by (rule splitIntoTwo_char)
  have nsch': "indexOf (idx @ CHR ''/'' # rname) ''://'' = None"
    using nsch by simp
  have hostc: "\<not> (indexOf idx ''.'' = None \<and> indexOf idx '':'' = None \<and> idx \<noteq> ''localhost'')"
    using host by blast
  have "parseRepoIndex (idx @ CHR ''/'' # rname) dflt =
          (case parseIndex (Some idx) of Inl e \<Rightarrow> Inl e | Inr ix \<Rightarrow> Inr (ix, rname))"
    unfolding parseRepoIndex_def
    by (simp only: nsch' option.case sp Let_def nth_Cons_0 nth_Cons_Suc One_nat_def hostc
          list.size simp_thms if_False)
       simp
  with ok obtain i' where pi: "parseIndex (Some idx) = Inr i'" and "i = i'" "rawName = rname"
    by (auto split: sum.splits)
  with parseIndex_plain_host[OF sl host nidx pi] show ?thesis by simp
qed

lemma parseRepo_explicit_index:
  assumes sl: "CHR ''/'' \<notin> set idx"
      and host: "indexOf idx ''.'' \<noteq> None \<or> indexOf idx '':'' \<noteq> None \<or> idx = ''localhost''"
      and nidx: "idx \<noteq> ''index.docker.io''"
      and nsch: "indexOf (idx @ ''/'' @ rname) ''://'' = None"
      and lib: "idx = ''docker.io'' \<longrightarrow> \<not> prefix ''library/'' rname"
      and ok: "parseRepo (idx @ ''/'' @ rname) dflt = Inr r"
    shows "canonicalName r = idx @ ''/'' @ rname"
proof -
  from ok obtain i rawName ns nm where
      pri: "parseRepoIndex (idx @ ''/'' @ rname) dflt = Inr (i, rawName)"
      and vr: "validateRemoteName i rawName = Inr (ns, nm)"
      and r: "canonicalName r =
                (if official i
                 then DEFAULT_INDEX_NAME @ ''/'' @
                      (if ns = ''library'' then nm else if ns \<noteq> [] then ns @ ''/'' @ nm else nm)
                 else name i @ ''/'' @ (if ns \<noteq> [] then ns @ ''/'' @ nm else nm))"
    unfolding parseRepo_def
    by (auto simp: Let_def split: sum.splits prod.splits)
  from parseRepoIndex_explicit[OF sl host nidx nsch pri]
  have i: "name i = idx" "official i = (idx = ''docker.io'')" "rawName = rname" by auto
  from validateRemoteName_result[OF vr] i(3)
  consider (one) "ns = (if official i then ''library'' else [])" "nm = rname"
    | (two) "ns \<noteq> []" "rname = ns @ ''/'' @ nm" by auto
  then show ?thesis
  proof cases
    case one
    then show ?thesis using r i by (simp add: DEFAULT_INDEX_NAME_def)
  next
    case two
    with lib have "idx = ''docker.io'' \<Longrightarrow> ns \<noteq> ''library''" by auto
    with two show ?thesis using r i by (simp add: DEFAULT_INDEX_NAME_def)
  qed
qed

lemma VALID_REPO_chars:
  assumes "VALID_REPO s"
  shows "CHR '':'' \<notin> set s \<and> CHR ''@'' \<notin> set s"
proof -
  let ?ok = "set ''abcdefghijklmnopqrstuvwxyz0123456789_/.-''"
  have a: "CHR '':'' \<notin> ?ok" by simp
  have b: "CHR ''@'' \<notin> ?ok" by simp
  from assms have "set s \<subseteq> ?ok"
    unfolding VALID_REPO_def list_all_iff by blast
  with a b show ?thesis by blast
qed

text \<open>Cutting the tag: the reference without its digest part.\<close>

lemma cut_tag_some:
  assumes "CHR ''/'' \<notin> set t" "CHR '':'' \<notin> set t"
  shows "lastIndexOf (idx @ ''/'' @ rname @ '':'' @ t) '':'' = Some (length (idx @ ''/'' @ rname))
       \<and> (\<exists>si. lastIndexOf (idx @ ''/'' @ rname @ '':'' @ t) ''/'' = Some si
                \<and> si < length (idx @ ''/'' @ rname))"
proof -
  let ?base = "idx @ ''/'' @ rname"
  have "lastIndexOf (?base @ CHR '':'' # t) '':'' = Some (length ?base)"
    using assms(2) by (rule lastIndexOf_last)
  moreover have "lastIndexOf (?base @ CHR '':'' # t) ''/'' = lastIndexOf ?base ''/''"
    using assms(1) by (intro lastIndexOf_append_notin) simp
  moreover obtain si where "lastIndexOf ?base ''/'' = Some si"
    using lastIndexOf_mid[of idx "CHR ''/''" rname] by auto
  moreover from this have "si < length ?base" by (rule lastIndexOf_bound)
  ultimately show ?thesis by simp
qed

lemma cut_tag_none:
  assumes "CHR '':'' \<notin> set rname"
  shows "\<exists>si. lastIndexOf (idx @ ''/'' @ rname) ''/'' = Some si
            \<and> (\<forall>ci. lastIndexOf (idx @ ''/'' @ rname) '':'' = Some ci \<longrightarrow> \<not> ci > si)"
proof -
  obtain si where si: "lastIndexOf (idx @ CHR ''/'' # rname) ''/'' = Some si" "length idx \<le> si"
    using lastIndexOf_mid[of idx "CHR ''/''" rname] by auto
  have "lastIndexOf (idx @ CHR ''/'' # rname) '':'' = lastIndexOf idx '':''"
    using assms by (intro lastIndexOf_append_notin) simp
  then have "\<forall>ci. lastIndexOf (idx @ CHR ''/'' # rname) '':'' = Some ci \<longrightarrow> ci < length idx"
    using lastIndexOf_bound by auto
  with si show ?thesis by fastforce
qed

text \<open>
  Claim C9, as amended. The claim says that every valid reference is reproduced by
  \<open>canonicalRef\<close>; that fails for \<open>busybox\<close>, which becomes
  \<open>docker.io/busybox:latest\<close>. What holds: a reference \<open>INDEX/REPO[:TAG][@DIGEST]\<close>
  that \<open>parseRepoAndRef\<close> accepts is reproduced by \<open>canonicalRef\<close> when the
  index is written out without a scheme (no slash or at-sign in it, it looks like a
  host, it is not \<open>index.docker.io\<close>, and under \<open>docker.io\<close> the repository does
  not start with \<open>library/\<close>), the repository uses the characters of
  \<open>VALID_REPO\<close>, and a non-empty tag (without \<open>/\<close>, \<open>:\<close>, \<open>@\<close>) or a non-empty
  digest (without \<open>@\<close>) is written out. The tag and digest fields are then the ones
  written.
\<close>

theorem parseRepoAndRef_roundtrip:
  assumes arg: "arg = idx @ ''/'' @ rname
                  @ (case tg of None \<Rightarrow> [] | Some t \<Rightarrow> '':'' @ t)
                  @ (case dg of None \<Rightarrow> [] | Some d \<Rightarrow> ''@'' @ d)"
      and sl: "CHR ''/'' \<notin> set idx" and at: "CHR ''@'' \<notin> set idx"
      and host: "indexOf idx ''.'' \<noteq> None \<or> indexOf idx '':'' \<noteq> None \<or> idx = ''localhost''"
      and nidx: "idx \<noteq> ''index.docker.io''"
      and lib: "idx = ''docker.io'' \<longrightarrow> \<not> prefix ''library/'' rname"
      and nsch: "\<not> str_includes (idx @ ''/'' @ rname) ''://''"
      and vrepo: "VALID_REPO rname"
      and tgok: "\<forall>t. tg = Some t \<longrightarrow> t \<noteq> [] \<and> CHR ''/'' \<notin> set t \<and> CHR '':'' \<notin> set t
                        \<and> CHR ''@'' \<notin> set t"
      and dgok: "\<forall>d. dg = Some d \<longrightarrow> d \<noteq> [] \<and> CHR ''@'' \<notin> set d"
      and some: "tg \<noteq> None \<or> dg \<noteq> None"
      and ok: "parseRepoAndRef arg dflt = Inr r"
    shows "canonicalRef r = arg \<and> tag r = tg \<and> digest r = dg"
proof -
  define base where "base = idx @ ''/'' @ rname"
  define tp where "tp = (case tg of None \<Rightarrow> [] | Some t \<Rightarrow> '':'' @ t)"
  define dp where "dp = (case dg of None \<Rightarrow> [] | Some d \<Rightarrow> ''@'' @ d)"
  define a1 where "a1 = base @ tp"
  have arg': "arg = a1 @ dp"
    using arg by (simp add: a1_def base_def tp_def dp_def)
  from vrepo have rc: "CHR '':'' \<notin> set rname" "CHR ''@'' \<notin> set rname"
    using VALID_REPO_chars by auto
  have noat: "CHR ''@'' \<notin> set a1"
    using at rc tgok by (auto simp: a1_def base_def tp_def split: option.splits)
  \<comment> \<open>the tag is cut at the last colon after the last slash\<close>
  have tagcut:
    "(case lastIndexOf a1 '':'' of
        None \<Rightarrow> (tg1, a1)
      | Some ci \<Rightarrow>
          if (case lastIndexOf a1 ''/'' of None \<Rightarrow> True | Some si \<Rightarrow> ci > si)
          then (Some (sliceFrom a1 (ci + 1)), slice a1 0 ci)
          else (tg1, a1))
     = (case tg of None \<Rightarrow> tg1 | Some t \<Rightarrow> Some t, base)" for tg1
  proof (cases tg)
    case None
    from cut_tag_none[OF rc(1), of idx] obtain si where
      "lastIndexOf base ''/'' = Some si"
      "\<forall>ci. lastIndexOf base '':'' = Some ci \<longrightarrow> \<not> ci > si" by (auto simp: base_def)
    then show ?thesis using None by (auto simp: a1_def tp_def split: option.splits)
  next
    case (Some t)
    with tgok have "CHR ''/'' \<notin> set t" "CHR '':'' \<notin> set t" by auto
    from cut_tag_some[OF this, of idx rname] show ?thesis
      using Some by (auto simp: slice_def sliceFrom_def a1_def tp_def base_def)
  qed
  have pr: "parseRepoAndRef arg dflt =
      (case parseRepo base dflt of
         Inl e \<Rightarrow> Inl e
       | Inr rp \<Rightarrow>
           Inr (RegistryRepo.extend rp
                  \<lparr>digest = dg, tag = tg, canonicalRef = canonicalName rp @ tp @ dp\<rparr>))"
  proof (cases dg)
    case None
    with some obtain t where t: "tg = Some t" by auto
    have "arg = a1" using arg' None by (simp add: dp_def)
    moreover have "lastIndexOf a1 ''@'' = None"
      using noat by (simp add: lastIndexOf_char_notin)
    moreover have "t \<noteq> []" using tgok t by simp
    ultimately show ?thesis
      using None t tagcut[of "Some DEFAULT_TAG"]
      by (simp add: parseRepoAndRef_def Let_def tp_def dp_def split: sum.splits)
  next
    case (Some d)
    with dgok have d: "CHR ''@'' \<notin> set d" "d \<noteq> []" by auto
    have "arg = a1 @ CHR ''@'' # d" using arg' Some by (simp add: dp_def)
    then have "lastIndexOf arg ''@'' = Some (length a1)"
      and "slice arg 0 (length a1) = a1"
      and "sliceFrom arg (length a1 + 1) = d"
      using lastIndexOf_last[OF d(1), of a1] by (simp_all add: slice_def sliceFrom_def)
    then show ?thesis
      using Some tgok d(2) tagcut[of None]
      by (simp add: parseRepoAndRef_def Let_def tp_def dp_def split: option.splits sum.splits)
  qed
  from ok pr obtain rp where rp: "parseRepo base dflt = Inr rp"
      and r: "r = RegistryRepo.extend rp
                  \<lparr>digest = dg, tag = tg, canonicalRef = canonicalName rp @ tp @ dp\<rparr>"
    by (auto split: sum.splits)
  from nsch have "indexOf (idx @ ''/'' @ rname) ''://'' = None" by (simp add: str_includes_def)
  from parseRepo_explicit_index[OF sl host nidx this lib] rp
  have "canonicalName rp = base" by (simp add: base_def)
  with r arg' show ?thesis
    by (simp add: RegistryRepo.extend_def RegistryImage.defs a1_def)
qed

text \<open>The definitions that evaluating the parser on a literal unfolds.\<close>

lemmas parse_defs = parseRepoAndRef_def parseRepo_def parseRepoIndex_def validateRemoteName_def
  validateNamespace_def validateName_def parseIndex_def parseIndexScheme_def splitIntoTwo_def
  isLocalhost_def str_includes_def slice_def sliceFrom_def indexOfFrom_def VALID_NS_def VALID_REPO_def
  DEFAULT_INDEX_NAME_def DEFAULT_TAG_def DEFAULT_LOGIN_SERVERNAME_def defaultIndex_def Let_def
  RegistryRepo.extend_def RegistryImage.defs RegistryRepo.defs

text \<open>
  The amended theorem at \<open>localhost:5000/blarg:mytag@sha256:cafebabe\<close>, the
  reference the test suite round-trips.
\<close>

lemma parseRepoAndRef_blarg:
  "parseRepoAndRef ''localhost:5000/blarg:mytag@sha256:cafebabe'' None =
   Inr \<lparr>index = \<lparr>name = ''localhost:5000'', official = False, scheme = http\<rparr>,
        officialRepo = False, remoteName = ''blarg'',
        localName = ''localhost:5000/blarg'',
        canonicalName = ''localhost:5000/blarg'',
        digest = Some ''sha256:cafebabe'', tag = Some ''mytag'',
        canonicalRef = ''localhost:5000/blarg:mytag@sha256:cafebabe''\<rparr>"
  by (simp add: parse_defs)


theorem parseRepoAndRef_roundtrip_witness:
  "\<exists>r. parseRepoAndRef ''localhost:5000/blarg:mytag@sha256:cafebabe'' None = Inr r
     \<and> canonicalRef r = ''localhost:5000/blarg:mytag@sha256:cafebabe''
     \<and> tag r = Some ''mytag'' \<and> digest r = Some ''sha256:cafebabe''"
proof -
  obtain r where r: "parseRepoAndRef ''localhost:5000/blarg:mytag@sha256:cafebabe'' None = Inr r"
    using parseRepoAndRef_blarg by blast
  have h: "\<not> str_includes (''localhost:5000'' @ ''/'' @ ''blarg'') ''://''"
     "VALID_REPO ''blarg''"
     "indexOf ''localhost:5000'' ''.'' \<noteq> None \<or> indexOf ''localhost:5000'' '':'' \<noteq> None
        \<or> ''localhost:5000'' = ''localhost''"
    by (simp_all add: str_includes_def VALID_REPO_def)
  from parseRepoAndRef_roundtrip[of "''localhost:5000/blarg:mytag@sha256:cafebabe''"
      "''localhost:5000''" "''blarg''" "Some ''mytag''" "Some ''sha256:cafebabe''" None r]
    h r
  show ?thesis by simp
qed

text \<open>
  Claim C9 as stated is false: \<open>busybox\<close> is a valid reference and its
  \<open>canonicalRef\<close> is \<open>docker.io/busybox:latest\<close> (the test suite asserts this
  value). The default tag is also added after an explicit index, the \<open>library\<close>
  namespace of the official index is dropped, and \<open>index.docker.io\<close> is renamed.
\<close>

theorem parseRepoAndRef_roundtrip_counterexample:
  "map_sum id canonicalRef (parseRepoAndRef ''busybox'' None)
     = Inr ''docker.io/busybox:latest''
   \<and> map_sum id canonicalRef (parseRepoAndRef ''localhost:5000/blarg'' None)
     = Inr ''localhost:5000/blarg:latest''
   \<and> map_sum id canonicalRef (parseRepoAndRef ''docker.io/library/ubuntu:latest'' None)
     = Inr ''docker.io/ubuntu:latest''
   \<and> map_sum id canonicalRef (parseRepoAndRef ''index.docker.io/foo/bar:x'' None)
     = Inr ''docker.io/foo/bar:x''"
  by (simp add: parse_defs)

section \<open>Manifest digests and schema version 1\<close>

text \<open>
  Claim C6, as amended. \<open>digestFromManifestStr\<close> returns \<open>sha256:\<close> followed by
  the hex SHA-256 of the string it was given, whenever the string parses as JSON
  to a value whose \<open>schemaVersion\<close> can be read and is not the number 1. The
  result is a function of the input string alone: the parsed value decides only
  whether a digest is returned, never which one.
\<close>

theorem digestFromManifestStr_raw_sha256:
  assumes "JSON_parse P str = Inr m"
      and "getProp m ''schemaVersion'' = Inr v"
      and "v \<noteq> JNum ''1''"
    shows "digestFromManifestStr P str = Inr (''sha256:'' @ sha256_hex P str)"
  using assms by (simp add: digestFromManifestStr_def)

text \<open>The theorem at the manifest \<open>{"schemaVersion":2}\<close>, with its real digest.\<close>

theorem digestFromManifestStr_raw_sha256_witness:
  "JSON_parse exPlatform exManifestV2 = Inr (JObj [(''schemaVersion'', JNum ''2'')])
   \<and> getProp (JObj [(''schemaVersion'', JNum ''2'')]) ''schemaVersion'' = Inr (JNum ''2'')
   \<and> digestFromManifestStr exPlatform exManifestV2
       = Inr ''sha256:bafebd36189ad3688b7b3915ea55d461e0bfcfbdde11e54b0a123999fb6be50f''"
proof -
  have p: "JSON_parse exPlatform exManifestV2 = Inr (JObj [(''schemaVersion'', JNum ''2'')])"
    by (simp add: exPlatform_def exJSON_parse_def exManifestV2_def exManifestV1_def
          exDetails_def exToken_def dq_def)
  have g: "getProp (JObj [(''schemaVersion'', JNum ''2'')]) ''schemaVersion'' = Inr (JNum ''2'')"
    by (simp add: getProp_def)
  have h: "sha256_hex exPlatform exManifestV2
             = ''bafebd36189ad3688b7b3915ea55d461e0bfcfbdde11e54b0a123999fb6be50f''"
    by (simp add: exPlatform_def exSha256_def exManifestV2_def dq_def)
  from digestFromManifestStr_raw_sha256[OF p g] h p g show ?thesis by simp
qed

text \<open>
  Claim C6 as stated is false at the input \<open>null\<close>: it parses as JSON and its
  \<open>schemaVersion\<close> is not 1, but reading \<open>manifest.schemaVersion\<close> of \<open>null\<close>
  raises a \<open>TypeError\<close> and no digest is returned.
\<close>

theorem digestFromManifestStr_null_counterexample:
  "JSON_parse exPlatform ''null'' = Inr JNull
   \<and> digestFromManifestStr exPlatform ''null''
       = Inl (TypeError ''Cannot read properties of null (reading schemaVersion)'')"
  by (simp add: digestFromManifestStr_def exPlatform_def exJSON_parse_def exManifestV2_def
        exManifestV1_def exDetails_def exToken_def dq_def getProp_def)


text \<open>The definitions that evaluating the client on the example platform unfolds.\<close>

lemmas js_defs = getProp_def optProp_def truthy_def isArray_def isString_def elem0_def

lemmas header_defs = hget_def hhas_def hset_def hdelete_def happend_def htruthy_def

lemmas response_defs = arrayBuffer_def contentMd5Mismatch_def contentMd5Error_def dockerBody_def dockerJson_def dockerErrors_def
  errorText_def throwableErrors_def dockerThrowable_def dockerStream_def startsWith_def
  trim_def isSpace_def slice_def

lemmas example_defs = exPlatform_def exFetch_def exNewURL_def exOrigin_def exJSON_parse_def
  exJSON_stringify_def exSha256_def exMd5_def exBtoa_def exFormEncode_def exSearchParams_def
  exClient_def exResponse_def exManifestV2_def exManifestV1_def exDetails_def exToken_def
  exBadToken_def
  dq_def matchScheme_def isWord_def

lemmas client_defs = request_def fetchRequest_def newDockerResponse_def Let_def doFetch_def api_def ping_def performLogin_def
  loginWithChallenge_def login_def effectiveScope_def makeAuthScope_def
  setAuthHeaderFromAuthInfo_def Headers_set_def legalHeaderValue_def showNat_def

text \<open>
  Claim C7. A manifest whose \<open>schemaVersion\<close> is the number 1 is rejected with
  the error \<open>schemaVersion 1 is not supported\<close>, whatever its other fields are:
  by \<open>digestFromManifestStr\<close> when the string parses to it, and by \<open>getManifest\<close>
  when, after the login, the manifest request is answered with status 200 and the
  body parses to it. No manifest that \<open>getManifest\<close> returns has
  \<open>schemaVersion\<close> 1.
\<close>

theorem schemaVersion1_rejected:
  fixes P :: "'w platform"
  shows
  "(JSON_parse P str = Inr m \<and> getProp m ''schemaVersion'' = Inr (JNum ''1'')
      \<longrightarrow> digestFromManifestStr P str
            = Inl (Error ''schemaVersion 1 is not supported by /x/docker_registry_client.''))
   \<and> (login P c None None n = (Inr (), c1, n1)
        \<and> request P (api c1) (manifestRequest P c1 opts) n1 = (Inr r, n2)
        \<and> status r = 200
        \<and> dockerJson P r = (Inr m, r1)
        \<and> getProp m ''schemaVersion'' = Inr (JNum ''1'')
      \<longrightarrow> getManifest P c opts n
            = (Inl (Error ''schemaVersion 1 is not supported by /x/docker_registry_client.''),
               c1, n2))
   \<and> (getManifest P c opts n = (Inr (r', m'), c', n')
      \<longrightarrow> getProp m' ''schemaVersion'' \<noteq> Inr (JNum ''1''))"
proof (intro conjI impI)
  assume "JSON_parse P str = Inr m \<and> getProp m ''schemaVersion'' = Inr (JNum ''1'')"
  then show "digestFromManifestStr P str
            = Inl (Error ''schemaVersion 1 is not supported by /x/docker_registry_client.'')"
    by (simp add: digestFromManifestStr_def)
next
  assume a: "login P c None None n = (Inr (), c1, n1)
        \<and> request P (api c1) (manifestRequest P c1 opts) n1 = (Inr r, n2)
        \<and> status r = 200
        \<and> dockerJson P r = (Inr m, r1)
        \<and> getProp m ''schemaVersion'' = Inr (JNum ''1'')"
  then have "manifestFromBody P r
               = Inl (Error ''schemaVersion 1 is not supported by /x/docker_registry_client.'')"
    by (simp add: manifestFromBody_def)
  with a show "getManifest P c opts n
            = (Inl (Error ''schemaVersion 1 is not supported by /x/docker_registry_client.''),
               c1, n2)"
    by (simp add: getManifest_def)
next
  assume g: "getManifest P c opts n = (Inr (r', m'), c', n')"
  then obtain r0 where "manifestFromBody P r0 = Inr (r', m')"
    by (auto simp: getManifest_def split: prod.splits sum.splits if_splits)
  then show "getProp m' ''schemaVersion'' \<noteq> Inr (JNum ''1'')"
    by (auto simp: manifestFromBody_def split: prod.splits sum.splits if_splits)
qed


text \<open>
  The theorem on the example platform: the ping is answered with 200, so the login
  needs no credentials, and the manifest request is answered with 200 and a
  version 1 manifest that has a further field.
\<close>

theorem schemaVersion1_rejected_witness:
  "\<exists>c1 n1 r n2 r1.
      login exPlatform exClient None None
        \<lparr>world = [exResponse 200 [] ''{}'', exResponse 200 [] exManifestV1], sent = []\<rparr>
        = (Inr (), c1, n1)
    \<and> request exPlatform (api c1)
          (manifestRequest exPlatform c1
             \<lparr>ref = ''latest'', optAcceptManifestLists = None, optAcceptOCIManifests = None,
              followRedirects = None\<rparr>) n1 = (Inr r, n2)
    \<and> status r = 200
    \<and> dockerJson exPlatform r
        = (Inr (JObj [(''schemaVersion'', JNum ''1''), (''name'', JStr ''blarg'')]), r1)
    \<and> getManifest exPlatform exClient
          \<lparr>ref = ''latest'', optAcceptManifestLists = None, optAcceptOCIManifests = None,
           followRedirects = None\<rparr>
          \<lparr>world = [exResponse 200 [] ''{}'', exResponse 200 [] exManifestV1], sent = []\<rparr>
        = (Inl (Error ''schemaVersion 1 is not supported by /x/docker_registry_client.''),
           c1, n2)
    \<and> digestFromManifestStr exPlatform exManifestV1
        = Inl (Error ''schemaVersion 1 is not supported by /x/docker_registry_client.'')"
proof -
  let ?n0 = "\<lparr>world = [exResponse 200 [] ''{}'', exResponse 200 [] exManifestV1], sent = []\<rparr>"
  let ?opts = "\<lparr>ref = ''latest'', optAcceptManifestLists = None, optAcceptOCIManifests = None,
              followRedirects = None\<rparr>"
  let ?m = "JObj [(''schemaVersion'', JNum ''1''), (''name'', JStr ''blarg'')]"
  obtain c1 n1 where l: "login exPlatform exClient None None ?n0 = (Inr (), c1, n1)"
    and c1: "c1 = exClient\<lparr>loggedIn := True, loggedInScope := Some ''repository:blarg:pull'',
                            authInfo := Some AuthNone\<rparr>"
    and n1: "world n1 = [exResponse 200 [] exManifestV1]"
    by (simp add: client_defs example_defs header_defs response_defs)
  obtain r n2 where rq: "request exPlatform (api c1) (manifestRequest exPlatform c1 ?opts) n1
                          = (Inr r, n2)"
    and r: "r = \<lparr>status = 200, statusText = [], headers = [], body = Some exManifestV1,
                 disturbed = False, decodedBody = None\<rparr>"
    using c1 n1
    by (simp add: client_defs example_defs header_defs response_defs manifestRequest_def
          manifestHeaders_def)
  obtain r1 where dj: "dockerJson exPlatform r = (Inr ?m, r1)"
    using r by (simp add: example_defs header_defs response_defs)
  have st: "status r = 200" using r by simp
  have gp: "getProp ?m ''schemaVersion'' = Inr (JNum ''1'')" by (simp add: getProp_def)
  have jp: "JSON_parse exPlatform exManifestV1 = Inr ?m" by (simp add: example_defs)
  from schemaVersion1_rejected[where P = exPlatform and str = exManifestV1 and m = ?m
      and c = exClient and n = ?n0 and ?c1.0 = c1 and ?n1.0 = n1 and opts = ?opts and r = r
      and ?n2.0 = n2 and ?r1.0 = r1]
    l rq st dj gp jp
  show ?thesis by blast
qed

section \<open>The capability probe\<close>

text \<open>
  A response that was not read yet: \<open>dockerThrowable\<close> resolves with an
  \<open>HttpError\<close> for it, and \<open>dockerBody\<close> reads it unless its Content-MD5 is wrong.
\<close>

lemma dockerThrowable_fresh:
  assumes "\<not> disturbed r"
  shows "\<exists>r1 es msg. dockerThrowable P r base = (Inr (HttpError r1 es msg), r1)"
proof (cases "case hget (headers r) ''content-type'' of None \<Rightarrow> False
              | Some ct \<Rightarrow> startsWith ct ''text/html''")
  case True
  then show ?thesis using assms by (simp add: dockerThrowable_def arrayBuffer_def)
next
  case False
  obtain res r1 where t: "throwableErrors P r = (res, r1)" by (cases "throwableErrors P r")
  show ?thesis
  proof (cases res)
    case (Inl e)
    with t False show ?thesis by (simp add: dockerThrowable_def)
  next
    case (Inr p)
    with t False show ?thesis by (cases p) (simp add: dockerThrowable_def)
  qed
qed

text \<open>The request of \<open>ping\<close>, for the resolved URL of \<open>/v2/\<close>.\<close>

lemma fetchRequest_ping:
  "fetchRequest (api c)
     \<lparr>path = ''/v2/'', reqMethod = ''GET'', reqHeaders = None, reqBody = None,
      retry = Some False, connectTimeout = Some 10000, expectStatus = Some es,
      redirect = None\<rparr> u
   = \<lparr>fetchUrl = u, fetchMethod = ''GET'',
      fetchHeaders = [(''accept'', ''application/json''), (''user-agent'', clientUserAgent c)],
      fetchRedirect = ''manual'', fetchBody = None\<rparr>"
  by (simp add: fetchRequest_def api_def hhas_def hset_def hdelete_def)

lemma dockerBody_fresh:
  "dockerBody P (newDockerResponse rw) =
     (let bytes = (case rawBody rw of None \<Rightarrow> [] | Some b \<Rightarrow> b);
          r1 = (newDockerResponse rw)\<lparr>disturbed := True\<rparr>
      in if contentMd5Mismatch P r1 bytes then (Inl (contentMd5Error P r1 bytes), r1)
         else (Inr bytes, r1\<lparr>decodedBody := Some bytes\<rparr>))"
proof -
  have "decodedBody (newDockerResponse rw) = None" "\<not> disturbed (newDockerResponse rw)"
       "body (newDockerResponse rw) = rawBody rw"
    by (simp_all add: newDockerResponse_def)
  then show ?thesis by (simp add: dockerBody_def arrayBuffer_def Let_def)
qed


lemma newDockerResponse_fields [simp]:
  "status (newDockerResponse rw) = rawStatus rw"
  "headers (newDockerResponse rw) = rawHeaders rw"
  "body (newDockerResponse rw) = rawBody rw"
  "disturbed (newDockerResponse rw) = False"
  "decodedBody (newDockerResponse rw) = None"
  by (simp_all add: newDockerResponse_def)

lemma contentMd5_disturbed [simp]:
  "contentMd5Mismatch P (r\<lparr>disturbed := b\<rparr>) x = contentMd5Mismatch P r x"
  "contentMd5Error P (r\<lparr>disturbed := b\<rparr>) x = contentMd5Error P r x"
  by (simp_all add: contentMd5Mismatch_def contentMd5Error_def)

text \<open>What \<open>ping\<close> with the default statuses returns, by the outcome of \<open>fetch\<close>.\<close>

lemma ping_default:
  fixes P :: "'w platform"
  assumes url: "newURL P ''/v2/'' (baseUrl c) = Some u"
      and rq: "rq = \<lparr>fetchUrl = u, fetchMethod = ''GET'',
                     fetchHeaders = [(''accept'', ''application/json''),
                                     (''user-agent'', clientUserAgent c)],
                     fetchRedirect = ''manual'', fetchBody = None\<rparr>"
      and f: "fetch P rq (world n) = (out, w)"
      and n1: "n1 = \<lparr>world = w, sent = sent n @ [rq]\<rparr>"
    shows "ping P c None None n =
       (case out of
          Inl msg \<Rightarrow> (Inl (FetchError msg), n1)
        | Inr rw \<Rightarrow>
            if rawStatus rw \<notin> {200, 401, 404}
            then (case dockerThrowable P (newDockerResponse rw)
                         (''Unexpected HTTP '' @ showNat (rawStatus rw) @ '' from /v2/'') of
                    (res, r1) \<Rightarrow> (Inl (case res of Inl e \<Rightarrow> e | Inr e \<Rightarrow> e), n1))
            else (case dockerBody P (newDockerResponse rw) of
                    (Inl e, r1) \<Rightarrow> (Inl e, n1)
                  | (Inr bytes, r1) \<Rightarrow> (Inr r1, n1)))"
proof -
  have a: "apiUrl (api c) = baseUrl c" by (simp add: api_def)
  show ?thesis
    unfolding ping_def request_def
    by (simp add: a url fetchRequest_ping doFetch_def rq[symmetric] f n1
          split: sum.splits prod.splits)
qed

text \<open>
  Claim C2, as amended. With the URL of \<open>/v2/\<close> resolved, \<open>supportsV2\<close>
  re-throws when \<open>fetch\<close> rejects (no response was obtained) and when the body of
  an expected response fails its Content-MD5 check; it returns \<open>false\<close> when the
  response has a status other than 200, 401 and 404, which \<open>ping\<close> turns into an
  \<open>HttpError\<close> that carries the response; and otherwise it returns \<open>true\<close> exactly
  when the \<open>docker-distribution-api-version\<close> header lists \<open>registry/2.0\<close> or the
  status is 200 or 401.
\<close>

theorem supportsV2_outcomes:
  fixes P :: "'w platform"
  assumes url: "newURL P ''/v2/'' (baseUrl c) = Some u"
      and rq: "rq = \<lparr>fetchUrl = u, fetchMethod = ''GET'',
                     fetchHeaders = [(''accept'', ''application/json''),
                                     (''user-agent'', clientUserAgent c)],
                     fetchRedirect = ''manual'', fetchBody = None\<rparr>"
      and n1: "n1 = \<lparr>world = w, sent = sent n @ [rq]\<rparr>"
    shows
    "(fetch P rq (world n) = (Inl msg, w)
        \<longrightarrow> supportsV2 P c n = (Inl (FetchError msg), n1))
     \<and> (fetch P rq (world n) = (Inr rw, w) \<and> rawStatus rw \<notin> {200, 401, 404}
        \<longrightarrow> supportsV2 P c n = (Inr False, n1))
     \<and> (fetch P rq (world n) = (Inr rw, w) \<and> rawStatus rw \<in> {200, 401, 404}
          \<and> contentMd5Mismatch P (newDockerResponse rw)
                (case rawBody rw of None \<Rightarrow> [] | Some b \<Rightarrow> b)
        \<longrightarrow> supportsV2 P c n
              = (Inl (contentMd5Error P (newDockerResponse rw)
                        (case rawBody rw of None \<Rightarrow> [] | Some b \<Rightarrow> b)), n1))
     \<and> (fetch P rq (world n) = (Inr rw, w) \<and> rawStatus rw \<in> {200, 401, 404}
          \<and> \<not> contentMd5Mismatch P (newDockerResponse rw)
                  (case rawBody rw of None \<Rightarrow> [] | Some b \<Rightarrow> b)
        \<longrightarrow> supportsV2 P c n
              = (Inr ((htruthy (hget (rawHeaders rw) ''docker-distribution-api-version'')
                       \<and> ''registry/2.0''
                           \<in> set (splitVersions []
                                    (the (hget (rawHeaders rw)
                                            ''docker-distribution-api-version''))))
                      \<or> rawStatus rw \<in> {200, 401}), n1))"
proof (intro conjI impI)
  assume f: "fetch P rq (world n) = (Inl msg, w)"
  show "supportsV2 P c n = (Inl (FetchError msg), n1)"
    unfolding supportsV2_def ping_default[OF url rq f n1] by (simp add: resp_def)
next
  assume "fetch P rq (world n) = (Inr rw, w) \<and> rawStatus rw \<notin> {200, 401, 404}"
  then have f: "fetch P rq (world n) = (Inr rw, w)" and st: "rawStatus rw \<notin> {200, 401, 404}"
    by auto
  obtain r1 es m where
    "dockerThrowable P (newDockerResponse rw)
       (''Unexpected HTTP '' @ showNat (rawStatus rw) @ '' from /v2/'')
     = (Inr (HttpError r1 es m), r1)"
  proof -
    have "\<not> disturbed (newDockerResponse rw)" by simp
    from dockerThrowable_fresh[OF this] that show ?thesis by blast
  qed
  then show "supportsV2 P c n = (Inr False, n1)"
    unfolding supportsV2_def ping_default[OF url rq f n1] using st by (simp add: resp_def)
next
  assume "fetch P rq (world n) = (Inr rw, w) \<and> rawStatus rw \<in> {200, 401, 404}
          \<and> contentMd5Mismatch P (newDockerResponse rw)
                (case rawBody rw of None \<Rightarrow> [] | Some b \<Rightarrow> b)"
  then have f: "fetch P rq (world n) = (Inr rw, w)" and st: "rawStatus rw \<in> {200, 401, 404}"
    and bad: "contentMd5Mismatch P (newDockerResponse rw)
                (case rawBody rw of None \<Rightarrow> [] | Some b \<Rightarrow> b)"
    by auto
  show "supportsV2 P c n
              = (Inl (contentMd5Error P (newDockerResponse rw)
                        (case rawBody rw of None \<Rightarrow> [] | Some b \<Rightarrow> b)), n1)"
    unfolding supportsV2_def ping_default[OF url rq f n1] dockerBody_fresh
    using st bad by (simp add: resp_def contentMd5Error_def)
next
  assume "fetch P rq (world n) = (Inr rw, w) \<and> rawStatus rw \<in> {200, 401, 404}
          \<and> \<not> contentMd5Mismatch P (newDockerResponse rw)
                  (case rawBody rw of None \<Rightarrow> [] | Some b \<Rightarrow> b)"
  then have f: "fetch P rq (world n) = (Inr rw, w)" and st: "rawStatus rw \<in> {200, 401, 404}"
    and good: "\<not> contentMd5Mismatch P (newDockerResponse rw)
                (case rawBody rw of None \<Rightarrow> [] | Some b \<Rightarrow> b)"
    by auto
  show "supportsV2 P c n
              = (Inr ((htruthy (hget (rawHeaders rw) ''docker-distribution-api-version'')
                       \<and> ''registry/2.0''
                           \<in> set (splitVersions []
                                    (the (hget (rawHeaders rw)
                                            ''docker-distribution-api-version''))))
                      \<or> rawStatus rw \<in> {200, 401}), n1)"
    unfolding supportsV2_def ping_default[OF url rq f n1] dockerBody_fresh
    using st good by (auto simp: Let_def)
qed


text \<open>
  The four cases of the theorem on the example platform: \<open>fetch\<close> rejects; a
  response with status 500; a response with status 200 whose Content-MD5 is not
  that of its body; a response with status 404 that lists \<open>registry/2.0\<close>.
\<close>

theorem supportsV2_outcomes_witness:
  "fst (supportsV2 exPlatform exClient \<lparr>world = [], sent = []\<rparr>)
     = Inl (FetchError ''request failed'')
   \<and> fst (supportsV2 exPlatform exClient \<lparr>world = [exResponse 500 [] ''oops''], sent = []\<rparr>)
     = Inr False
   \<and> fst (supportsV2 exPlatform exClient
             \<lparr>world = [exResponse 200 [(''content-md5'', ''XUFAKrxLKna5cZ2REBfFkg=='')]
                          ''tampered''], sent = []\<rparr>)
     = Inl (Error (''BadDigestError: Content-MD5 (XUFAKrxLKna5cZ2REBfFkg== vs ''
                     @ ''B7IYuSQSDUmnJcNrBlVgAA==)''))
   \<and> fst (supportsV2 exPlatform exClient
             \<lparr>world = [exResponse 404 [(''docker-distribution-api-version'',
                                          ''registry/2.0, other'')] ''hello''], sent = []\<rparr>)
     = Inr True"
proof -
  let ?u = "''https://registry.example/v2/''"
  let ?rq = "\<lparr>fetchUrl = ?u, fetchMethod = ''GET'',
              fetchHeaders = [(''accept'', ''application/json''),
                              (''user-agent'', clientUserAgent exClient)],
              fetchRedirect = ''manual'', fetchBody = None\<rparr>"
  have url: "newURL exPlatform ''/v2/'' (baseUrl exClient) = Some ?u"
    by (simp add: example_defs)
  note sv = supportsV2_outcomes[where P = exPlatform and c = exClient, OF url refl refl]
  have f1: "fetch exPlatform ?rq (world \<lparr>world = [], sent = []\<rparr>) = (Inl ''request failed'', [])"
    by (simp add: example_defs)
  have f2: "fetch exPlatform ?rq (world \<lparr>world = [exResponse 500 [] ''oops''], sent = []\<rparr>)
             = (Inr \<lparr>rawStatus = 500, rawStatusText = [], rawHeaders = [],
                     rawBody = Some ''oops''\<rparr>, [])"
    by (simp add: example_defs)
  let ?rw3 = "\<lparr>rawStatus = 200, rawStatusText = [],
               rawHeaders = [(''content-md5'', ''XUFAKrxLKna5cZ2REBfFkg=='')],
               rawBody = Some ''tampered''\<rparr>"
  have f3: "fetch exPlatform ?rq
             (world \<lparr>world = [exResponse 200 [(''content-md5'', ''XUFAKrxLKna5cZ2REBfFkg=='')]
                                ''tampered''], sent = []\<rparr>) = (Inr ?rw3, [])"
    by (simp add: example_defs)
  have m3: "contentMd5Mismatch exPlatform (newDockerResponse ?rw3)
              (case rawBody ?rw3 of None \<Rightarrow> [] | Some b \<Rightarrow> b)"
    by (simp add: contentMd5Mismatch_def example_defs header_defs)
  have e3: "contentMd5Error exPlatform (newDockerResponse ?rw3)
              (case rawBody ?rw3 of None \<Rightarrow> [] | Some b \<Rightarrow> b)
             = Error (''BadDigestError: Content-MD5 (XUFAKrxLKna5cZ2REBfFkg== vs ''
                     @ ''B7IYuSQSDUmnJcNrBlVgAA==)'')"
    by (simp add: contentMd5Error_def example_defs header_defs)
  let ?rw4 = "\<lparr>rawStatus = 404, rawStatusText = [],
               rawHeaders = [(''docker-distribution-api-version'', ''registry/2.0, other'')],
               rawBody = Some ''hello''\<rparr>"
  have f4: "fetch exPlatform ?rq
             (world \<lparr>world = [exResponse 404 [(''docker-distribution-api-version'',
                                                ''registry/2.0, other'')] ''hello''],
                      sent = []\<rparr>) = (Inr ?rw4, [])"
    by (simp add: example_defs)
  have m4: "\<not> contentMd5Mismatch exPlatform (newDockerResponse ?rw4)
              (case rawBody ?rw4 of None \<Rightarrow> [] | Some b \<Rightarrow> b)"
    by (simp add: contentMd5Mismatch_def header_defs)
  have v4: "htruthy (hget (rawHeaders ?rw4) ''docker-distribution-api-version'')
             \<and> ''registry/2.0''
                  \<in> set (splitVersions []
                           (the (hget (rawHeaders ?rw4) ''docker-distribution-api-version'')))"
    by (simp add: header_defs isSpace_def)
  from sv[where n = "\<lparr>world = [], sent = []\<rparr>" and w = "[]" and msg = "''request failed''"] f1
  have a: "fst (supportsV2 exPlatform exClient \<lparr>world = [], sent = []\<rparr>)
             = Inl (FetchError ''request failed'')" by simp
  from sv[where n = "\<lparr>world = [exResponse 500 [] ''oops''], sent = []\<rparr>" and w = "[]"
             and rw = "\<lparr>rawStatus = 500, rawStatusText = [], rawHeaders = [],
                        rawBody = Some ''oops''\<rparr>"] f2
  have b: "fst (supportsV2 exPlatform exClient
                  \<lparr>world = [exResponse 500 [] ''oops''], sent = []\<rparr>) = Inr False" by simp
  from sv[where n = "\<lparr>world = [exResponse 200 [(''content-md5'', ''XUFAKrxLKna5cZ2REBfFkg=='')]
                              ''tampered''], sent = []\<rparr>" and w = "[]" and rw = ?rw3] f3 m3 e3
  have c: "fst (supportsV2 exPlatform exClient
             \<lparr>world = [exResponse 200 [(''content-md5'', ''XUFAKrxLKna5cZ2REBfFkg=='')]
                          ''tampered''], sent = []\<rparr>)
     = Inl (Error (''BadDigestError: Content-MD5 (XUFAKrxLKna5cZ2REBfFkg== vs ''
                     @ ''B7IYuSQSDUmnJcNrBlVgAA==)''))" by simp
  from sv[where n = "\<lparr>world = [exResponse 404 [(''docker-distribution-api-version'',
                                             ''registry/2.0, other'')] ''hello''],
                sent = []\<rparr>" and w = "[]" and rw = ?rw4] f4 m4 v4
  have d: "fst (supportsV2 exPlatform exClient
             \<lparr>world = [exResponse 404 [(''docker-distribution-api-version'',
                                          ''registry/2.0, other'')] ''hello''], sent = []\<rparr>)
     = Inr True" by simp
  from a b c d show ?thesis by blast
qed

text \<open>
  Claim C2 as stated is false: when \<open>fetch\<close> rejects, so that no response was
  obtained, \<open>supportsV2\<close> re-throws the failure instead of returning \<open>false\<close>; and
  a ping failure that is not a transport failure, a response with status 500, is
  answered with \<open>false\<close> instead of being re-thrown.
\<close>

theorem supportsV2_transport_counterexample:
  "fst (supportsV2 exPlatform exClient \<lparr>world = [], sent = []\<rparr>)
     = Inl (FetchError ''request failed'')
   \<and> fst (supportsV2 exPlatform exClient \<lparr>world = [exResponse 500 [] ''oops''], sent = []\<rparr>)
     = Inr False"
  by (simp add: supportsV2_def client_defs example_defs header_defs response_defs resp_def
        js_defs)

section \<open>The redirect follower\<close>

text \<open>The request of one pass of the loop, for a resolved URL.\<close>

lemma fetchRequest_hop:
  "fetchRequest ((api c)\<lparr>accept := []\<rparr>) (hopRequest meth p hs) u
   = \<lparr>fetchUrl = u, fetchMethod = meth,
      fetchHeaders = hset (case hs of None \<Rightarrow> [] | Some h \<Rightarrow> h) ''user-agent''
                       (clientUserAgent c),
      fetchRedirect = ''manual'', fetchBody = None\<rparr>"
  by (simp add: fetchRequest_def hopRequest_def api_def)

lemma request_hop:
  assumes "newURL P p (baseUrl c) = Some u"
      and "fetch P (fetchRequest ((api c)\<lparr>accept := []\<rparr>) (hopRequest meth p hs) u) (world n)
             = (Inr rw, w)"
      and "rawStatus rw \<in> {200, 302, 307}"
    shows "request P ((api c)\<lparr>accept := []\<rparr>) (hopRequest meth p hs) n
             = (Inr (newDockerResponse rw),
                \<lparr>world = w,
                 sent = sent n @ [fetchRequest ((api c)\<lparr>accept := []\<rparr>) (hopRequest meth p hs) u]\<rparr>)"
proof -
  have a: "apiUrl ((api c)\<lparr>accept := []\<rparr>) = baseUrl c" by (simp add: api_def)
  have b: "path (hopRequest meth p hs) = p"
          "expectStatus (hopRequest meth p hs) = Some [200, 302, 307]"
    by (simp_all add: hopRequest_def)
  from assms show ?thesis
    unfolding request_def by (auto simp: a b doFetch_def)
qed

text \<open>Reading a response changes neither its status nor its headers.\<close>

lemma arrayBuffer_status:
  "arrayBuffer r = (x, r1) \<Longrightarrow> status r1 = status r \<and> headers r1 = headers r"
  by (auto simp add: arrayBuffer_def split: if_splits)

lemma dockerBody_status:
  "dockerBody P r = (x, r1) \<Longrightarrow> status r1 = status r \<and> headers r1 = headers r"
  by (auto simp add: dockerBody_def arrayBuffer_def split: option.splits if_splits)

lemma dockerJson_status:
  assumes "dockerJson P r = (x, r1)"
  shows "status r1 = status r \<and> headers r1 = headers r"
proof -
  obtain y r0 where b: "dockerBody P r = (y, r0)" by (cases "dockerBody P r")
  from assms b have "r1 = r0"
    by (auto simp add: dockerJson_def Let_def split: sum.splits if_splits)
  with dockerBody_status[OF b] show ?thesis by simp
qed

lemma dockerErrors_status:
  assumes "dockerErrors P r = (x, r1)"
  shows "status r1 = status r \<and> headers r1 = headers r"
proof -
  obtain y r0 where b: "dockerJson P r = (y, r0)" by (cases "dockerJson P r")
  from assms b have "r1 = r0"
    by (auto simp add: dockerErrors_def Let_def split: js.splits)
  with dockerJson_status[OF b] show ?thesis by simp
qed

lemma throwableErrors_status:
  assumes "throwableErrors P r = (x, r2)"
  shows "status r2 = status r \<and> headers r2 = headers r"
proof -
  obtain y r0 where e: "(if status r \<ge> 400 then dockerErrors P r else (Inr [], r)) = (y, r0)"
    by (cases "if status r \<ge> 400 then dockerErrors P r else (Inr [], r)")
  then have s0: "status r0 = status r \<and> headers r0 = headers r"
    using dockerErrors_status[of P r y r0] by (auto split: if_splits)
  obtain z r3 where b: "dockerBody P r0 = (z, r3)" by (cases "dockerBody P r0")
  from assms e b have "r2 = r0 \<or> r2 = r3"
    unfolding throwableErrors_def
    by (auto split: sum.splits if_splits prod.splits)
  with s0 dockerBody_status[OF b] show ?thesis by auto
qed

lemma dockerThrowable_status:
  assumes "dockerThrowable P r base = (x, r1)"
  shows "status r1 = status r \<and> headers r1 = headers r"
proof (cases "case hget (headers r) ''content-type'' of None \<Rightarrow> False
              | Some ct \<Rightarrow> startsWith ct ''text/html''")
  case True
  obtain y r0 where a: "arrayBuffer r = (y, r0)" by (cases "arrayBuffer r")
  from assms True a have "r1 = r0"
    by (auto simp add: dockerThrowable_def split: sum.splits)
  with arrayBuffer_status[OF a] show ?thesis by simp
next
  case False
  obtain y r0 where t: "throwableErrors P r = (y, r0)" by (cases "throwableErrors P r")
  from assms False t have "r1 = r0"
    by (auto simp add: dockerThrowable_def split: sum.splits prod.splits)
  with throwableErrors_status[OF t] show ?thesis by simp
qed

text \<open>A response with a status that is not expected: \<open>request\<close> throws an \<open>HttpError\<close>.\<close>

lemma request_hop_unexpected:
  assumes u: "newURL P p (baseUrl c) = Some u"
      and f: "fetch P (fetchRequest ((api c)\<lparr>accept := []\<rparr>) (hopRequest meth p hs) u) (world n)
             = (Inr rw, w)"
      and st: "rawStatus rw \<notin> {200, 302, 307}"
    shows "\<exists>r1 es msg. request P ((api c)\<lparr>accept := []\<rparr>) (hopRequest meth p hs) n
             = (Inl (HttpError r1 es msg),
                \<lparr>world = w,
                 sent = sent n @ [fetchRequest ((api c)\<lparr>accept := []\<rparr>) (hopRequest meth p hs) u]\<rparr>)
           \<and> status r1 = rawStatus rw"
proof -
  have a: "apiUrl ((api c)\<lparr>accept := []\<rparr>) = baseUrl c" by (simp add: api_def)
  have b: "path (hopRequest meth p hs) = p"
          "expectStatus (hopRequest meth p hs) = Some [200, 302, 307]"
    by (simp_all add: hopRequest_def)
  let ?base = "''Unexpected HTTP '' @ showNat (rawStatus rw) @ '' from '' @ p"
  have "\<not> disturbed (newDockerResponse rw)" by simp
  from dockerThrowable_fresh[OF this, of P ?base]
  obtain r1 es msg where t: "dockerThrowable P (newDockerResponse rw) ?base
                               = (Inr (HttpError r1 es msg), r1)" by blast
  from dockerThrowable_status[OF t] have s: "status r1 = rawStatus rw" by simp
  from u f st t have "request P ((api c)\<lparr>accept := []\<rparr>) (hopRequest meth p hs) n
             = (Inl (HttpError r1 es msg),
                \<lparr>world = w,
                 sent = sent n @ [fetchRequest ((api c)\<lparr>accept := []\<rparr>) (hopRequest meth p hs) u]\<rparr>)"
    unfolding request_def by (simp add: a b doFetch_def)
  with s show ?thesis by blast
qed

text \<open>\<open>request\<close> never throws a \<open>TooManyRedirectsError\<close>, and sends at most one request.\<close>

lemma request_hop_outcome:
  fixes P :: "'w platform"
  assumes "request P ((api c)\<lparr>accept := []\<rparr>) (hopRequest meth p hs) n = (res, n1)"
  shows "(\<forall>msg. res \<noteq> Inl (TooManyRedirectsError msg))
         \<and> (case res of
               Inl e \<Rightarrow> sent n1 = sent n
                          \<or> (\<exists>u. newURL P p (baseUrl c) = Some u
                                \<and> sent n1 = sent n @ [fetchRequest ((api c)\<lparr>accept := []\<rparr>)
                                                          (hopRequest meth p hs) u])
             | Inr r \<Rightarrow> status r \<in> {200, 302, 307}
                          \<and> (\<exists>u. newURL P p (baseUrl c) = Some u
                                \<and> sent n1 = sent n @ [fetchRequest ((api c)\<lparr>accept := []\<rparr>)
                                                          (hopRequest meth p hs) u]))"
proof (cases "newURL P p (baseUrl c)")
  case None
  with assms show ?thesis
    by (auto simp add: request_def api_def hopRequest_def)
next
  case (Some u)
  let ?rq = "fetchRequest ((api c)\<lparr>accept := []\<rparr>) (hopRequest meth p hs) u"
  obtain out w where f: "fetch P ?rq (world n) = (out, w)" by (cases "fetch P ?rq (world n)")
  have a: "apiUrl ((api c)\<lparr>accept := []\<rparr>) = baseUrl c" by (simp add: api_def)
  have b: "path (hopRequest meth p hs) = p"
          "expectStatus (hopRequest meth p hs) = Some [200, 302, 307]"
    by (simp_all add: hopRequest_def)
  show ?thesis
  proof (cases out)
    case (Inl m)
    with assms Some f show ?thesis
      unfolding request_def by (auto simp add: a b doFetch_def)
  next
    case (Inr rw)
    show ?thesis
    proof (cases "rawStatus rw \<in> {200, 302, 307}")
      case True
      from request_hop[OF Some f[unfolded Inr] True] assms True Some show ?thesis by auto
    next
      case False
      from request_hop_unexpected[OF Some f[unfolded Inr] False] assms Some show ?thesis by auto
    qed
  qed
qed


text \<open>
  A registry that answers every request with a 307 to the location \<open>l\<close>, which
  resolves to the URL \<open>t\<close> from there on: the loop with \<open>k\<close> passes left sends \<open>k\<close>
  requests to \<open>t\<close> and then throws.
\<close>

lemma redirectLoop_exhausts:
  fixes P :: "'w platform"
  assumes always: "\<forall>rq w. \<exists>rw w'. fetch P rq w = (Inr rw, w') \<and> rawStatus rw = 307
                      \<and> hget (rawHeaders rw) ''location'' = Some l"
      and l: "l \<noteq> []"
      and tt: "newURL P t (baseUrl c) = Some t"
      and lt: "newURL P l t = Some t"
    shows "\<exists>w'. redirectLoop k P c meth True maxR t (Some []) ress n
               = (Inl (TooManyRedirectsError
                         (''maximum number of redirects ('' @ showNat maxR @ '') hit'')),
                  \<lparr>world = w',
                   sent = sent n @ replicate k (fetchRequest ((api c)\<lparr>accept := []\<rparr>)
                                                  (hopRequest meth t (Some [])) t)\<rparr>)"
proof (induction k arbitrary: ress n)
  case 0
  show ?case by (cases n) simp
next
  case (Suc k)
  let ?rq = "fetchRequest ((api c)\<lparr>accept := []\<rparr>) (hopRequest meth t (Some [])) t"
  from always obtain rw w where f: "fetch P ?rq (world n) = (Inr rw, w)"
    and st: "rawStatus rw = 307" and loc: "hget (rawHeaders rw) ''location'' = Some l"
    by blast
  let ?n1 = "\<lparr>world = w, sent = sent n @ [?rq]\<rparr>"
  have rq: "request P ((api c)\<lparr>accept := []\<rparr>) (hopRequest meth t (Some [])) n
              = (Inr (newDockerResponse rw), ?n1)"
    using request_hop[OF tt f] st by simp
  have step: "redirectLoop (Suc k) P c meth True maxR t (Some []) ress n
                = redirectLoop k P c meth True maxR t (Some []) (ress @ [newDockerResponse rw]) ?n1"
    by (simp add: rq st loc l tt lt htruthy_def)
  from Suc.IH[of "ress @ [newDockerResponse rw]" ?n1]
  show ?case unfolding step by (simp add: replicate_app_Cons_same)
qed

text \<open>
  The loop throws \<open>TooManyRedirectsError\<close> only with no pass left: after as many
  requests as there were passes.
\<close>

lemma redirectLoop_toomany:
  fixes P :: "'w platform"
  assumes "redirectLoop k P c meth fl maxR p hs ress n = (Inl (TooManyRedirectsError msg), m)"
  shows "length (sent m) = length (sent n) + k"
  using assms
proof (induction k arbitrary: p hs ress n)
  case 0
  then show ?case by simp
next
  case (Suc k)
  obtain r1 n1 where rq: "request P ((api c)\<lparr>accept := []\<rparr>) (hopRequest meth p hs) n = (r1, n1)"
    by (cases "request P ((api c)\<lparr>accept := []\<rparr>) (hopRequest meth p hs) n")
  note o = request_hop_outcome[OF rq]
  show ?case
  proof (cases r1)
    case (Inl e)
    with Suc.prems rq o show ?thesis by auto
  next
    case (Inr r)
    with o obtain u where u: "newURL P p (baseUrl c) = Some u"
      and s1: "sent n1 = sent n @ [fetchRequest ((api c)\<lparr>accept := []\<rparr>) (hopRequest meth p hs) u]"
      by auto
    from Suc.prems rq Inr u
    have "\<exists>t. redirectLoop k P c meth fl maxR t (Some []) (ress @ [r]) n1
                = (Inl (TooManyRedirectsError msg), m)"
      by (auto split: if_splits option.splits)
    then obtain t where "redirectLoop k P c meth fl maxR t (Some []) (ress @ [r]) n1
                = (Inl (TooManyRedirectsError msg), m)" by blast
    from Suc.IH[OF this] s1 show ?thesis by simp
  qed
qed

text \<open>
  The chain that the loop returns: one response for each request sent, every
  response but the last a redirect with a location, the last one not, each request
  after the first to the location of the response before it, resolved against the
  URL of the request before it.
\<close>

lemma redirectLoop_chain:
  fixes P :: "'w platform"
  assumes "redirectLoop k P c meth True maxR p hs ress n = (Inr out, m)"
  shows "\<exists>new X. out = ress @ new \<and> sent m = sent n @ X \<and> new \<noteq> []
           \<and> length X = length new \<and> length new \<le> k
           \<and> (\<forall>r \<in> set (butlast new). (status r = 302 \<or> status r = 307)
                                        \<and> htruthy (hget (headers r) ''location''))
           \<and> \<not> ((status (last new) = 302 \<or> status (last new) = 307)
                 \<and> htruthy (hget (headers (last new)) ''location''))
           \<and> (\<forall>r \<in> set new. status r \<in> {200, 302, 307})
           \<and> newURL P p (baseUrl c) = Some (fetchUrl (hd X))
           \<and> (\<forall>(r, x, y) \<in> set (zip new (zip X (tl X))).
                 \<exists>t. newURL P (the (hget (headers r) ''location'')) (fetchUrl x) = Some t
                     \<and> newURL P t (baseUrl c) = Some (fetchUrl y))"
  using assms
proof (induction k arbitrary: p hs ress n)
  case 0
  then show ?case by simp
next
  case (Suc k)
  obtain r1 n1 where rq: "request P ((api c)\<lparr>accept := []\<rparr>) (hopRequest meth p hs) n = (r1, n1)"
    by (cases "request P ((api c)\<lparr>accept := []\<rparr>) (hopRequest meth p hs) n")
  note o = request_hop_outcome[OF rq]
  from Suc.prems rq obtain r where r: "r1 = Inr r" by (cases r1) auto
  let ?rq = "\<lambda>u. fetchRequest ((api c)\<lparr>accept := []\<rparr>) (hopRequest meth p hs) u"
  from o r obtain u where u: "newURL P p (baseUrl c) = Some u"
    and s1: "sent n1 = sent n @ [?rq u]" and st: "status r \<in> {200, 302, 307}"
    by auto
  have fu: "fetchUrl (?rq u) = u" by (simp add: fetchRequest_hop)
  show ?case
  proof (cases "(status r = 302 \<or> status r = 307) \<and> htruthy (hget (headers r) ''location'')")
    case False
    with Suc.prems rq r have "out = ress @ [r]" "m = n1" by (auto split: if_splits)
    with s1 st False u fu show ?thesis
      by (intro exI[of _ "[r]"] exI[of _ "[?rq u]"]) simp
  next
    case True
    with Suc.prems rq r u obtain t
      where t: "newURL P (the (hget (headers r) ''location'')) u = Some t"
        and rest: "redirectLoop k P c meth True maxR t (Some []) (ress @ [r]) n1 = (Inr out, m)"
      by (auto split: if_splits option.splits)
    from Suc.IH[OF rest] obtain new X where
      a: "out = (ress @ [r]) @ new" "sent m = sent n1 @ X" "new \<noteq> []"
         "length X = length new" "length new \<le> k"
      and b: "\<forall>r \<in> set (butlast new). (status r = 302 \<or> status r = 307)
                                        \<and> htruthy (hget (headers r) ''location'')"
      and c: "\<not> ((status (last new) = 302 \<or> status (last new) = 307)
                 \<and> htruthy (hget (headers (last new)) ''location''))"
      and d: "\<forall>r \<in> set new. status r \<in> {200, 302, 307}"
      and e: "newURL P t (baseUrl c) = Some (fetchUrl (hd X))"
      and f: "\<forall>(r, x, y) \<in> set (zip new (zip X (tl X))).
                 \<exists>t. newURL P (the (hget (headers r) ''location'')) (fetchUrl x) = Some t
                     \<and> newURL P t (baseUrl c) = Some (fetchUrl y)"
      by blast
    from a obtain x X' where X: "X = x # X'" by (cases X) auto
    have z: "zip (r # new) (zip (?rq u # X) (tl (?rq u # X)))
               = (r, ?rq u, x) # zip new (zip X (tl X))"
      using a(3) X by (cases new) auto
    have g: "\<forall>(r, x, y) \<in> set (zip (r # new) (zip (?rq u # X) (tl (?rq u # X)))).
                 \<exists>t. newURL P (the (hget (headers r) ''location'')) (fetchUrl x) = Some t
                     \<and> newURL P t (baseUrl c) = Some (fetchUrl y)"
      unfolding z using f t e X fu by auto
    have h: "\<forall>r \<in> set (butlast (r # new)). (status r = 302 \<or> status r = 307)
                                        \<and> htruthy (hget (headers r) ''location'')"
      using b True a(3) by auto
    have i: "\<not> ((status (last (r # new)) = 302 \<or> status (last (r # new)) = 307)
                 \<and> htruthy (hget (headers (last (r # new))) ''location''))"
      using c a(3) by simp
    have j: "\<forall>r \<in> set (r # new). status r \<in> {200, 302, 307}"
      using d st by auto
    have k: "out = ress @ (r # new)" "sent m = sent n @ (?rq u # X)" "r # new \<noteq> []"
         "length (?rq u # X) = length (r # new)" "length (r # new) \<le> Suc k"
         "newURL P p (baseUrl c) = Some (fetchUrl (hd (?rq u # X)))"
      using a s1 u fu by simp_all
    from k g h i j show ?thesis
      by (intro exI[of _ "r # new"] exI[of _ "?rq u # X"]) blast
  qed
qed


text \<open>
  Claim C3, as amended. With redirect following not disabled, a registry that
  answers every request with a 307 to a location that resolves to the URL \<open>t\<close>
  makes \<open>_makeHttpRequest\<close> throw \<open>TooManyRedirectsError\<close> after exactly
  \<open>maxRedirects\<close> requests (3 when the option is not given): the first to the
  requested path with the headers of the caller, the others to \<open>t\<close>; with
  \<open>maxRedirects\<close> 0 it throws at once. A response with status 200, or a 302 or
  307 without a location, ends the loop, and the chain of the responses, this one
  last, is returned: at the first request, and after one redirect, where the
  second request goes to the location of the first response, resolved against the
  URL of the first request. A response with another status makes \<open>request\<close> throw
  an \<open>HttpError\<close> with that status, and no chain is returned. In every chain that
  is returned, each response but the last is a 302 or 307 with a location that the
  next request went to, and the last one is not. Whenever
  \<open>TooManyRedirectsError\<close> is thrown, \<open>maxRedirects\<close> requests were sent.
\<close>

theorem makeHttpRequest_redirect_chain:
  fixes P :: "'w platform"
  shows
   "((\<forall>rq w. \<exists>rw w'. fetch P rq w = (Inr rw, w') \<and> rawStatus rw = 307
                      \<and> hget (rawHeaders rw) ''location'' = Some l)
      \<and> l \<noteq> [] \<and> newURL P (mPath opts) (baseUrl c) = Some u0 \<and> newURL P l u0 = Some t
      \<and> newURL P t (baseUrl c) = Some t \<and> newURL P l t = Some t
      \<and> mFollowRedirects opts \<noteq> Some False
      \<and> (case maxRedirects opts of None \<Rightarrow> 3 | Some x \<Rightarrow> x) = Suc k
      \<longrightarrow> (\<exists>w'. makeHttpRequest P c opts n
                   = (Inl (TooManyRedirectsError
                             (''maximum number of redirects ('' @ showNat (Suc k) @ '') hit'')),
                      \<lparr>world = w',
                       sent = sent n
                         @ fetchRequest ((api c)\<lparr>accept := []\<rparr>)
                             (hopRequest (mMethod opts) (mPath opts) (mHeaders opts)) u0
                         # replicate k (fetchRequest ((api c)\<lparr>accept := []\<rparr>)
                                          (hopRequest (mMethod opts) t (Some [])) t)\<rparr>)))
    \<and> (maxRedirects opts = Some 0
      \<longrightarrow> makeHttpRequest P c opts n
            = (Inl (TooManyRedirectsError ''maximum number of redirects (0) hit''), n))
    \<and> (newURL P (mPath opts) (baseUrl c) = Some u0
        \<and> fetch P (fetchRequest ((api c)\<lparr>accept := []\<rparr>)
                     (hopRequest (mMethod opts) (mPath opts) (mHeaders opts)) u0) (world n)
            = (Inr rw0, w1)
        \<and> (rawStatus rw0 = 200
            \<or> (rawStatus rw0 = 302 \<or> rawStatus rw0 = 307)
               \<and> \<not> htruthy (hget (rawHeaders rw0) ''location''))
        \<and> maxRedirects opts \<noteq> Some 0
      \<longrightarrow> makeHttpRequest P c opts n
            = (Inr [newDockerResponse rw0],
               \<lparr>world = w1,
                sent = sent n @ [fetchRequest ((api c)\<lparr>accept := []\<rparr>)
                                   (hopRequest (mMethod opts) (mPath opts) (mHeaders opts)) u0]\<rparr>))
    \<and> (newURL P (mPath opts) (baseUrl c) = Some u0
        \<and> fetch P (fetchRequest ((api c)\<lparr>accept := []\<rparr>)
                     (hopRequest (mMethod opts) (mPath opts) (mHeaders opts)) u0) (world n)
            = (Inr rw0, w1)
        \<and> (rawStatus rw0 = 302 \<or> rawStatus rw0 = 307)
        \<and> hget (rawHeaders rw0) ''location'' = Some l0 \<and> l0 \<noteq> []
        \<and> newURL P l0 u0 = Some t0 \<and> newURL P t0 (baseUrl c) = Some u1
        \<and> fetch P (fetchRequest ((api c)\<lparr>accept := []\<rparr>)
                     (hopRequest (mMethod opts) t0 (Some [])) u1) w1
            = (Inr rw1, w2)
        \<and> (rawStatus rw1 = 200
            \<or> (rawStatus rw1 = 302 \<or> rawStatus rw1 = 307)
               \<and> \<not> htruthy (hget (rawHeaders rw1) ''location''))
        \<and> mFollowRedirects opts \<noteq> Some False
        \<and> maxRedirects opts \<noteq> Some 0 \<and> maxRedirects opts \<noteq> Some 1
      \<longrightarrow> makeHttpRequest P c opts n
            = (Inr [newDockerResponse rw0, newDockerResponse rw1],
               \<lparr>world = w2,
                sent = sent n @ [fetchRequest ((api c)\<lparr>accept := []\<rparr>)
                                   (hopRequest (mMethod opts) (mPath opts) (mHeaders opts)) u0,
                                 fetchRequest ((api c)\<lparr>accept := []\<rparr>)
                                   (hopRequest (mMethod opts) t0 (Some [])) u1]\<rparr>))
    \<and> (newURL P (mPath opts) (baseUrl c) = Some u0
        \<and> fetch P (fetchRequest ((api c)\<lparr>accept := []\<rparr>)
                     (hopRequest (mMethod opts) (mPath opts) (mHeaders opts)) u0) (world n)
            = (Inr rw0, w1)
        \<and> rawStatus rw0 \<notin> {200, 302, 307}
        \<and> maxRedirects opts \<noteq> Some 0
      \<longrightarrow> (\<exists>r1 es msg. makeHttpRequest P c opts n
            = (Inl (HttpError r1 es msg),
               \<lparr>world = w1,
                sent = sent n @ [fetchRequest ((api c)\<lparr>accept := []\<rparr>)
                                   (hopRequest (mMethod opts) (mPath opts) (mHeaders opts)) u0]\<rparr>)
            \<and> status r1 = rawStatus rw0))
    \<and> (newURL P (mPath opts) (baseUrl c) = Some u0
        \<and> fetch P (fetchRequest ((api c)\<lparr>accept := []\<rparr>)
                     (hopRequest (mMethod opts) (mPath opts) (mHeaders opts)) u0) (world n)
            = (Inr rw0, w1)
        \<and> (rawStatus rw0 = 302 \<or> rawStatus rw0 = 307)
        \<and> hget (rawHeaders rw0) ''location'' = Some l0 \<and> l0 \<noteq> []
        \<and> newURL P l0 u0 = Some t0 \<and> newURL P t0 (baseUrl c) = Some u1
        \<and> fetch P (fetchRequest ((api c)\<lparr>accept := []\<rparr>)
                     (hopRequest (mMethod opts) t0 (Some [])) u1) w1
            = (Inr rw1, w2)
        \<and> rawStatus rw1 \<notin> {200, 302, 307}
        \<and> mFollowRedirects opts \<noteq> Some False
        \<and> maxRedirects opts \<noteq> Some 0 \<and> maxRedirects opts \<noteq> Some 1
      \<longrightarrow> (\<exists>r1 es msg. makeHttpRequest P c opts n
            = (Inl (HttpError r1 es msg),
               \<lparr>world = w2,
                sent = sent n @ [fetchRequest ((api c)\<lparr>accept := []\<rparr>)
                                   (hopRequest (mMethod opts) (mPath opts) (mHeaders opts)) u0,
                                 fetchRequest ((api c)\<lparr>accept := []\<rparr>)
                                   (hopRequest (mMethod opts) t0 (Some [])) u1]\<rparr>)
            \<and> status r1 = rawStatus rw1))
    \<and> (mFollowRedirects opts \<noteq> Some False \<and> makeHttpRequest P c opts n = (Inr ress, m)
      \<longrightarrow> (\<exists>X. sent m = sent n @ X \<and> ress \<noteq> [] \<and> length X = length ress
               \<and> length ress \<le> (case maxRedirects opts of None \<Rightarrow> 3 | Some x \<Rightarrow> x)
               \<and> (\<forall>r \<in> set (butlast ress). (status r = 302 \<or> status r = 307)
                                             \<and> htruthy (hget (headers r) ''location''))
               \<and> \<not> ((status (last ress) = 302 \<or> status (last ress) = 307)
                     \<and> htruthy (hget (headers (last ress)) ''location''))
               \<and> (\<forall>r \<in> set ress. status r \<in> {200, 302, 307})
               \<and> newURL P (mPath opts) (baseUrl c) = Some (fetchUrl (hd X))
               \<and> (\<forall>(r, x, y) \<in> set (zip ress (zip X (tl X))).
                     \<exists>t. newURL P (the (hget (headers r) ''location'')) (fetchUrl x) = Some t
                         \<and> newURL P t (baseUrl c) = Some (fetchUrl y))))
    \<and> (makeHttpRequest P c opts n = (Inl (TooManyRedirectsError msg), m)
      \<longrightarrow> length (sent m)
            = length (sent n) + (case maxRedirects opts of None \<Rightarrow> 3 | Some x \<Rightarrow> x))
    \<and> fetchRequest ((api c)\<lparr>accept := []\<rparr>) (hopRequest meth p hs) u
        = \<lparr>fetchUrl = u, fetchMethod = meth,
           fetchHeaders = hset (case hs of None \<Rightarrow> [] | Some h \<Rightarrow> h) ''user-agent''
                            (clientUserAgent c),
           fetchRedirect = ''manual'', fetchBody = None\<rparr>"
proof -
  let ?A = "(api c)\<lparr>accept := []\<rparr>"
  let ?meth = "mMethod opts"
  let ?mx = "case maxRedirects opts of None \<Rightarrow> 3 | Some x \<Rightarrow> x"
  let ?fl = "case mFollowRedirects opts of None \<Rightarrow> True | Some b \<Rightarrow> b"
  let ?first = "fetchRequest ?A (hopRequest ?meth (mPath opts) (mHeaders opts)) u0"
  have mk: "makeHttpRequest P c opts n
              = redirectLoop ?mx P c ?meth ?fl ?mx (mPath opts) (mHeaders opts) [] n"
    by (simp add: makeHttpRequest_def Let_def)
  have fl: "mFollowRedirects opts \<noteq> Some False \<Longrightarrow> ?fl = True"
    by (cases "mFollowRedirects opts") auto
  have pos: "maxRedirects opts \<noteq> Some 0 \<Longrightarrow> \<exists>j. ?mx = Suc j"
    by (cases "maxRedirects opts") (auto simp add: numeral_3_eq_3 gr0_conv_Suc)
  have pos2: "maxRedirects opts \<noteq> Some 0 \<Longrightarrow> maxRedirects opts \<noteq> Some 1
                \<Longrightarrow> \<exists>j. ?mx = Suc (Suc j)"
  proof (cases "maxRedirects opts")
    case None
    then show ?thesis by (simp add: numeral_3_eq_3)
  next
    case (Some x)
    assume "maxRedirects opts \<noteq> Some 0" "maxRedirects opts \<noteq> Some 1"
    with Some have "x \<noteq> 0" "x \<noteq> 1" by auto
    then obtain j where "x = Suc (Suc j)" by (cases x; cases "x - 1") auto
    with Some show ?thesis by simp
  qed

  have A: "(\<forall>rq w. \<exists>rw w'. fetch P rq w = (Inr rw, w') \<and> rawStatus rw = 307
                      \<and> hget (rawHeaders rw) ''location'' = Some l)
      \<and> l \<noteq> [] \<and> newURL P (mPath opts) (baseUrl c) = Some u0 \<and> newURL P l u0 = Some t
      \<and> newURL P t (baseUrl c) = Some t \<and> newURL P l t = Some t
      \<and> mFollowRedirects opts \<noteq> Some False
      \<and> ?mx = Suc k
      \<longrightarrow> (\<exists>w'. makeHttpRequest P c opts n
                   = (Inl (TooManyRedirectsError
                             (''maximum number of redirects ('' @ showNat (Suc k) @ '') hit'')),
                      \<lparr>world = w',
                       sent = sent n @ ?first
                         # replicate k (fetchRequest ?A (hopRequest ?meth t (Some [])) t)\<rparr>))"
  proof
    assume a: "(\<forall>rq w. \<exists>rw w'. fetch P rq w = (Inr rw, w') \<and> rawStatus rw = 307
                      \<and> hget (rawHeaders rw) ''location'' = Some l)
      \<and> l \<noteq> [] \<and> newURL P (mPath opts) (baseUrl c) = Some u0 \<and> newURL P l u0 = Some t
      \<and> newURL P t (baseUrl c) = Some t \<and> newURL P l t = Some t
      \<and> mFollowRedirects opts \<noteq> Some False
      \<and> ?mx = Suc k"
    then have always: "\<forall>rq w. \<exists>rw w'. fetch P rq w = (Inr rw, w') \<and> rawStatus rw = 307
                      \<and> hget (rawHeaders rw) ''location'' = Some l"
      and l: "l \<noteq> []" and u0: "newURL P (mPath opts) (baseUrl c) = Some u0"
      and lu: "newURL P l u0 = Some t" and tt: "newURL P t (baseUrl c) = Some t"
      and lt: "newURL P l t = Some t" and f: "?fl = True" and mx: "?mx = Suc k"
      using fl by simp_all
    from always obtain rw w where f0: "fetch P ?first (world n) = (Inr rw, w)"
      and st: "rawStatus rw = 307" and loc: "hget (rawHeaders rw) ''location'' = Some l"
      by blast
    let ?n1 = "\<lparr>world = w, sent = sent n @ [?first]\<rparr>"
    have rq: "request P ?A (hopRequest ?meth (mPath opts) (mHeaders opts)) n
                = (Inr (newDockerResponse rw), ?n1)"
      using request_hop[OF u0 f0] st by simp
    have step: "redirectLoop (Suc k) P c ?meth True (Suc k) (mPath opts) (mHeaders opts) [] n
                  = redirectLoop k P c ?meth True (Suc k) t (Some []) [newDockerResponse rw] ?n1"
      by (simp add: rq st loc l u0 lu htruthy_def)
    from redirectLoop_exhausts[OF always l tt lt, of k ?meth "Suc k" "[newDockerResponse rw]" ?n1]
    show "\<exists>w'. makeHttpRequest P c opts n
                   = (Inl (TooManyRedirectsError
                             (''maximum number of redirects ('' @ showNat (Suc k) @ '') hit'')),
                      \<lparr>world = w',
                       sent = sent n @ ?first
                         # replicate k (fetchRequest ?A (hopRequest ?meth t (Some [])) t)\<rparr>)"
      unfolding mk f mx step by simp
  qed

  have B: "maxRedirects opts = Some 0
      \<longrightarrow> makeHttpRequest P c opts n
            = (Inl (TooManyRedirectsError ''maximum number of redirects (0) hit''), n)"
    by (simp add: mk showNat_def)

  have C: "newURL P (mPath opts) (baseUrl c) = Some u0
        \<and> fetch P ?first (world n) = (Inr rw0, w1)
        \<and> (rawStatus rw0 = 200
            \<or> (rawStatus rw0 = 302 \<or> rawStatus rw0 = 307)
               \<and> \<not> htruthy (hget (rawHeaders rw0) ''location''))
        \<and> maxRedirects opts \<noteq> Some 0
      \<longrightarrow> makeHttpRequest P c opts n
            = (Inr [newDockerResponse rw0], \<lparr>world = w1, sent = sent n @ [?first]\<rparr>)"
  proof
    assume a: "newURL P (mPath opts) (baseUrl c) = Some u0
        \<and> fetch P ?first (world n) = (Inr rw0, w1)
        \<and> (rawStatus rw0 = 200
            \<or> (rawStatus rw0 = 302 \<or> rawStatus rw0 = 307)
               \<and> \<not> htruthy (hget (rawHeaders rw0) ''location''))
        \<and> maxRedirects opts \<noteq> Some 0"
    then have u0: "newURL P (mPath opts) (baseUrl c) = Some u0"
      and f0: "fetch P ?first (world n) = (Inr rw0, w1)"
      and st: "rawStatus rw0 \<in> {200, 302, 307}"
      and stop: "rawStatus rw0 = 200
            \<or> (rawStatus rw0 = 302 \<or> rawStatus rw0 = 307)
               \<and> \<not> htruthy (hget (rawHeaders rw0) ''location'')"
      by auto
    from a pos obtain j where mx: "?mx = Suc j" by blast
    note rq = request_hop[OF u0 f0 st]
    from stop show "makeHttpRequest P c opts n
            = (Inr [newDockerResponse rw0], \<lparr>world = w1, sent = sent n @ [?first]\<rparr>)"
      unfolding mk mx by (auto simp add: rq)
  qed

  have D: "newURL P (mPath opts) (baseUrl c) = Some u0
        \<and> fetch P ?first (world n) = (Inr rw0, w1)
        \<and> (rawStatus rw0 = 302 \<or> rawStatus rw0 = 307)
        \<and> hget (rawHeaders rw0) ''location'' = Some l0 \<and> l0 \<noteq> []
        \<and> newURL P l0 u0 = Some t0 \<and> newURL P t0 (baseUrl c) = Some u1
        \<and> fetch P (fetchRequest ?A (hopRequest ?meth t0 (Some [])) u1) w1 = (Inr rw1, w2)
        \<and> (rawStatus rw1 = 200
            \<or> (rawStatus rw1 = 302 \<or> rawStatus rw1 = 307)
               \<and> \<not> htruthy (hget (rawHeaders rw1) ''location''))
        \<and> mFollowRedirects opts \<noteq> Some False
        \<and> maxRedirects opts \<noteq> Some 0 \<and> maxRedirects opts \<noteq> Some 1
      \<longrightarrow> makeHttpRequest P c opts n
            = (Inr [newDockerResponse rw0, newDockerResponse rw1],
               \<lparr>world = w2,
                sent = sent n @ [?first, fetchRequest ?A (hopRequest ?meth t0 (Some [])) u1]\<rparr>)"
  proof
    assume a: "newURL P (mPath opts) (baseUrl c) = Some u0
        \<and> fetch P ?first (world n) = (Inr rw0, w1)
        \<and> (rawStatus rw0 = 302 \<or> rawStatus rw0 = 307)
        \<and> hget (rawHeaders rw0) ''location'' = Some l0 \<and> l0 \<noteq> []
        \<and> newURL P l0 u0 = Some t0 \<and> newURL P t0 (baseUrl c) = Some u1
        \<and> fetch P (fetchRequest ?A (hopRequest ?meth t0 (Some [])) u1) w1 = (Inr rw1, w2)
        \<and> (rawStatus rw1 = 200
            \<or> (rawStatus rw1 = 302 \<or> rawStatus rw1 = 307)
               \<and> \<not> htruthy (hget (rawHeaders rw1) ''location''))
        \<and> mFollowRedirects opts \<noteq> Some False
        \<and> maxRedirects opts \<noteq> Some 0 \<and> maxRedirects opts \<noteq> Some 1"
    then have u0: "newURL P (mPath opts) (baseUrl c) = Some u0"
      and f0: "fetch P ?first (world n) = (Inr rw0, w1)"
      and st0: "rawStatus rw0 \<in> {200, 302, 307}" "rawStatus rw0 = 302 \<or> rawStatus rw0 = 307"
      and loc: "hget (rawHeaders rw0) ''location'' = Some l0" "l0 \<noteq> []"
      and t0: "newURL P l0 u0 = Some t0" and u1: "newURL P t0 (baseUrl c) = Some u1"
      and st1: "rawStatus rw1 \<in> {200, 302, 307}"
      and stop: "rawStatus rw1 = 200
            \<or> (rawStatus rw1 = 302 \<or> rawStatus rw1 = 307)
               \<and> \<not> htruthy (hget (rawHeaders rw1) ''location'')"
      and f: "?fl = True"
      using fl by auto
    let ?n1 = "\<lparr>world = w1, sent = sent n @ [?first]\<rparr>"
    from a have f1: "fetch P (fetchRequest ?A (hopRequest ?meth t0 (Some [])) u1) (world ?n1)
                       = (Inr rw1, w2)" by simp
    from a pos2 obtain j where mx: "?mx = Suc (Suc j)" by blast
    note rq0 = request_hop[OF u0 f0 st0(1)]
    note rq1 = request_hop[OF u1 f1 st1]
    have step: "redirectLoop (Suc (Suc j)) P c ?meth True (Suc (Suc j)) (mPath opts)
                   (mHeaders opts) [] n
                  = redirectLoop (Suc j) P c ?meth True (Suc (Suc j)) t0 (Some [])
                      [newDockerResponse rw0] ?n1"
      using st0(2) by (auto simp add: rq0 loc u0 t0 htruthy_def)
    from stop show "makeHttpRequest P c opts n
            = (Inr [newDockerResponse rw0, newDockerResponse rw1],
               \<lparr>world = w2,
                sent = sent n @ [?first, fetchRequest ?A (hopRequest ?meth t0 (Some [])) u1]\<rparr>)"
      unfolding mk mx f step by (auto simp add: rq1)
  qed

  have E: "newURL P (mPath opts) (baseUrl c) = Some u0
        \<and> fetch P ?first (world n) = (Inr rw0, w1)
        \<and> rawStatus rw0 \<notin> {200, 302, 307}
        \<and> maxRedirects opts \<noteq> Some 0
      \<longrightarrow> (\<exists>r1 es msg. makeHttpRequest P c opts n
            = (Inl (HttpError r1 es msg), \<lparr>world = w1, sent = sent n @ [?first]\<rparr>)
            \<and> status r1 = rawStatus rw0)"
  proof
    assume a: "newURL P (mPath opts) (baseUrl c) = Some u0
        \<and> fetch P ?first (world n) = (Inr rw0, w1)
        \<and> rawStatus rw0 \<notin> {200, 302, 307}
        \<and> maxRedirects opts \<noteq> Some 0"
    then have u0: "newURL P (mPath opts) (baseUrl c) = Some u0"
      and f0: "fetch P ?first (world n) = (Inr rw0, w1)"
      and st: "rawStatus rw0 \<notin> {200, 302, 307}" by simp_all
    from a pos obtain j where mx: "?mx = Suc j" by blast
    from request_hop_unexpected[OF u0 f0 st] obtain r1 es msg where
      rq: "request P ?A (hopRequest ?meth (mPath opts) (mHeaders opts)) n
             = (Inl (HttpError r1 es msg), \<lparr>world = w1, sent = sent n @ [?first]\<rparr>)"
      and s: "status r1 = rawStatus rw0" by blast
    have "makeHttpRequest P c opts n
            = (Inl (HttpError r1 es msg), \<lparr>world = w1, sent = sent n @ [?first]\<rparr>)"
      unfolding mk mx by (simp add: rq)
    with s show "\<exists>r1 es msg. makeHttpRequest P c opts n
            = (Inl (HttpError r1 es msg), \<lparr>world = w1, sent = sent n @ [?first]\<rparr>)
            \<and> status r1 = rawStatus rw0" by blast
  qed

  have F: "newURL P (mPath opts) (baseUrl c) = Some u0
        \<and> fetch P ?first (world n) = (Inr rw0, w1)
        \<and> (rawStatus rw0 = 302 \<or> rawStatus rw0 = 307)
        \<and> hget (rawHeaders rw0) ''location'' = Some l0 \<and> l0 \<noteq> []
        \<and> newURL P l0 u0 = Some t0 \<and> newURL P t0 (baseUrl c) = Some u1
        \<and> fetch P (fetchRequest ?A (hopRequest ?meth t0 (Some [])) u1) w1 = (Inr rw1, w2)
        \<and> rawStatus rw1 \<notin> {200, 302, 307}
        \<and> mFollowRedirects opts \<noteq> Some False
        \<and> maxRedirects opts \<noteq> Some 0 \<and> maxRedirects opts \<noteq> Some 1
      \<longrightarrow> (\<exists>r1 es msg. makeHttpRequest P c opts n
            = (Inl (HttpError r1 es msg),
               \<lparr>world = w2,
                sent = sent n @ [?first, fetchRequest ?A (hopRequest ?meth t0 (Some [])) u1]\<rparr>)
            \<and> status r1 = rawStatus rw1)"
  proof
    assume a: "newURL P (mPath opts) (baseUrl c) = Some u0
        \<and> fetch P ?first (world n) = (Inr rw0, w1)
        \<and> (rawStatus rw0 = 302 \<or> rawStatus rw0 = 307)
        \<and> hget (rawHeaders rw0) ''location'' = Some l0 \<and> l0 \<noteq> []
        \<and> newURL P l0 u0 = Some t0 \<and> newURL P t0 (baseUrl c) = Some u1
        \<and> fetch P (fetchRequest ?A (hopRequest ?meth t0 (Some [])) u1) w1 = (Inr rw1, w2)
        \<and> rawStatus rw1 \<notin> {200, 302, 307}
        \<and> mFollowRedirects opts \<noteq> Some False
        \<and> maxRedirects opts \<noteq> Some 0 \<and> maxRedirects opts \<noteq> Some 1"
    then have u0: "newURL P (mPath opts) (baseUrl c) = Some u0"
      and f0: "fetch P ?first (world n) = (Inr rw0, w1)"
      and st0: "rawStatus rw0 \<in> {200, 302, 307}" "rawStatus rw0 = 302 \<or> rawStatus rw0 = 307"
      and loc: "hget (rawHeaders rw0) ''location'' = Some l0" "l0 \<noteq> []"
      and t0: "newURL P l0 u0 = Some t0" and u1: "newURL P t0 (baseUrl c) = Some u1"
      and st1: "rawStatus rw1 \<notin> {200, 302, 307}"
      and f: "?fl = True"
      using fl by auto
    let ?n1 = "\<lparr>world = w1, sent = sent n @ [?first]\<rparr>"
    from a have f1: "fetch P (fetchRequest ?A (hopRequest ?meth t0 (Some [])) u1) (world ?n1)
                       = (Inr rw1, w2)" by simp
    from a pos2 obtain j where mx: "?mx = Suc (Suc j)" by blast
    note rq0 = request_hop[OF u0 f0 st0(1)]
    from request_hop_unexpected[OF u1 f1 st1] obtain r1 es msg where
      rq1: "request P ?A (hopRequest ?meth t0 (Some [])) ?n1
             = (Inl (HttpError r1 es msg),
                \<lparr>world = w2,
                 sent = sent ?n1 @ [fetchRequest ?A (hopRequest ?meth t0 (Some [])) u1]\<rparr>)"
      and s: "status r1 = rawStatus rw1" by blast
    have step: "redirectLoop (Suc (Suc j)) P c ?meth True (Suc (Suc j)) (mPath opts)
                   (mHeaders opts) [] n
                  = redirectLoop (Suc j) P c ?meth True (Suc (Suc j)) t0 (Some [])
                      [newDockerResponse rw0] ?n1"
      using st0(2) by (auto simp add: rq0 loc u0 t0 htruthy_def)
    have "makeHttpRequest P c opts n
            = (Inl (HttpError r1 es msg),
               \<lparr>world = w2,
                sent = sent n @ [?first, fetchRequest ?A (hopRequest ?meth t0 (Some [])) u1]\<rparr>)"
      unfolding mk mx f step by (simp add: rq1)
    with s show "\<exists>r1 es msg. makeHttpRequest P c opts n
            = (Inl (HttpError r1 es msg),
               \<lparr>world = w2,
                sent = sent n @ [?first, fetchRequest ?A (hopRequest ?meth t0 (Some [])) u1]\<rparr>)
            \<and> status r1 = rawStatus rw1" by blast
  qed

  have G: "mFollowRedirects opts \<noteq> Some False \<and> makeHttpRequest P c opts n = (Inr ress, m)
      \<longrightarrow> (\<exists>X. sent m = sent n @ X \<and> ress \<noteq> [] \<and> length X = length ress
               \<and> length ress \<le> ?mx
               \<and> (\<forall>r \<in> set (butlast ress). (status r = 302 \<or> status r = 307)
                                             \<and> htruthy (hget (headers r) ''location''))
               \<and> \<not> ((status (last ress) = 302 \<or> status (last ress) = 307)
                     \<and> htruthy (hget (headers (last ress)) ''location''))
               \<and> (\<forall>r \<in> set ress. status r \<in> {200, 302, 307})
               \<and> newURL P (mPath opts) (baseUrl c) = Some (fetchUrl (hd X))
               \<and> (\<forall>(r, x, y) \<in> set (zip ress (zip X (tl X))).
                     \<exists>t. newURL P (the (hget (headers r) ''location'')) (fetchUrl x) = Some t
                         \<and> newURL P t (baseUrl c) = Some (fetchUrl y)))"
  proof
    assume a: "mFollowRedirects opts \<noteq> Some False \<and> makeHttpRequest P c opts n = (Inr ress, m)"
    with fl have "redirectLoop ?mx P c ?meth True ?mx (mPath opts) (mHeaders opts) [] n
                    = (Inr ress, m)"
      unfolding mk by simp
    from redirectLoop_chain[OF this]
    show "\<exists>X. sent m = sent n @ X \<and> ress \<noteq> [] \<and> length X = length ress
               \<and> length ress \<le> ?mx
               \<and> (\<forall>r \<in> set (butlast ress). (status r = 302 \<or> status r = 307)
                                             \<and> htruthy (hget (headers r) ''location''))
               \<and> \<not> ((status (last ress) = 302 \<or> status (last ress) = 307)
                     \<and> htruthy (hget (headers (last ress)) ''location''))
               \<and> (\<forall>r \<in> set ress. status r \<in> {200, 302, 307})
               \<and> newURL P (mPath opts) (baseUrl c) = Some (fetchUrl (hd X))
               \<and> (\<forall>(r, x, y) \<in> set (zip ress (zip X (tl X))).
                     \<exists>t. newURL P (the (hget (headers r) ''location'')) (fetchUrl x) = Some t
                         \<and> newURL P t (baseUrl c) = Some (fetchUrl y))"
      by auto
  qed

  have H: "makeHttpRequest P c opts n = (Inl (TooManyRedirectsError msg), m)
      \<longrightarrow> length (sent m) = length (sent n) + ?mx"
    unfolding mk using redirectLoop_toomany by blast

  note I = fetchRequest_hop[of c meth p hs u]
  from A B C D E F G H I show ?thesis by (intro conjI)
qed

text \<open>The digits of a status written as a numeral.\<close>

lemma digits_numeral:
  "digits (numeral k) n =
     (if n < 10 then [''0123456789'' ! n]
      else digits (pred_numeral k) (n div 10) @ [''0123456789'' ! (n mod 10)])"
  by (simp add: numeral_eq_Suc)

text \<open>
  The theorem on the example platforms: at the registry that always redirects to
  \<open>https://cdn.example/x\<close>, with the default of three redirects; with
  \<open>maxRedirects\<close> 0; at a registry that answers the first request with 200; at one
  that redirects once and answers the second request with 200; and at registries
  that answer the first or the second request with 404.
\<close>

theorem makeHttpRequest_redirect_chain_witness:
  "(\<exists>n'. makeHttpRequest exRedirector exClient
            \<lparr>mMethod = ''GET'', mPath = ''/v2/blarg/blobs/x'', mHeaders = None,
             mFollowRedirects = None, maxRedirects = None\<rparr> \<lparr>world = (), sent = []\<rparr>
          = (Inl (TooManyRedirectsError ''maximum number of redirects (3) hit''), n')
        \<and> map fetchUrl (sent n')
            = [''https://registry.example/v2/blarg/blobs/x'', ''https://cdn.example/x'',
               ''https://cdn.example/x''])
   \<and> makeHttpRequest exPlatform exClient
            \<lparr>mMethod = ''GET'', mPath = ''/v2/blarg/blobs/x'', mHeaders = None,
             mFollowRedirects = None, maxRedirects = Some 0\<rparr> \<lparr>world = [], sent = []\<rparr>
        = (Inl (TooManyRedirectsError ''maximum number of redirects (0) hit''),
           \<lparr>world = [], sent = []\<rparr>)
   \<and> (\<exists>r m. makeHttpRequest exPlatform exClient
            \<lparr>mMethod = ''GET'', mPath = ''/v2/blarg/blobs/x'', mHeaders = None,
             mFollowRedirects = None, maxRedirects = None\<rparr>
            \<lparr>world = [exResponse 200 [] ''hello''], sent = []\<rparr> = (Inr [r], m)
          \<and> status r = 200 \<and> length (sent m) = 1)
   \<and> (\<exists>r0 r1 m. makeHttpRequest exPlatform exClient
            \<lparr>mMethod = ''GET'', mPath = ''/v2/blarg/blobs/x'', mHeaders = None,
             mFollowRedirects = None, maxRedirects = None\<rparr>
            \<lparr>world = [exResponse 307 [(''location'', ''https://cdn.example/x'')] [],
                      exResponse 200 [] ''hello''], sent = []\<rparr> = (Inr [r0, r1], m)
          \<and> status r0 = 307 \<and> status r1 = 200 \<and> body r1 = Some ''hello''
          \<and> map fetchUrl (sent m)
              = [''https://registry.example/v2/blarg/blobs/x'', ''https://cdn.example/x''])
   \<and> (\<exists>r1 es msg m. makeHttpRequest exPlatform exClient
            \<lparr>mMethod = ''GET'', mPath = ''/v2/blarg/blobs/x'', mHeaders = None,
             mFollowRedirects = None, maxRedirects = None\<rparr>
            \<lparr>world = [exResponse 404 [] []], sent = []\<rparr> = (Inl (HttpError r1 es msg), m)
          \<and> status r1 = 404 \<and> length (sent m) = 1)
   \<and> (\<exists>r1 es msg m. makeHttpRequest exPlatform exClient
            \<lparr>mMethod = ''GET'', mPath = ''/v2/blarg/blobs/x'', mHeaders = None,
             mFollowRedirects = None, maxRedirects = None\<rparr>
            \<lparr>world = [exResponse 307 [(''location'', ''https://cdn.example/x'')] [],
                      exResponse 404 [] []], sent = []\<rparr> = (Inl (HttpError r1 es msg), m)
          \<and> status r1 = 404 \<and> length (sent m) = 2)"
proof -
  let ?opts = "\<lparr>mMethod = ''GET'', mPath = ''/v2/blarg/blobs/x'', mHeaders = None,
             mFollowRedirects = None, maxRedirects = None\<rparr>"
  let ?reg = "''https://registry.example/v2/blarg/blobs/x''"
  let ?cdn = "''https://cdn.example/x''"
  let ?rw307 = "\<lparr>rawStatus = 307, rawStatusText = [], rawHeaders = [(''location'', ?cdn)],
                  rawBody = Some []\<rparr>"
  let ?rw200 = "\<lparr>rawStatus = 200, rawStatusText = [], rawHeaders = [],
                  rawBody = Some ''hello''\<rparr>"
  let ?rw404 = "\<lparr>rawStatus = 404, rawStatusText = [], rawHeaders = [], rawBody = Some []\<rparr>"
  have o: "mFollowRedirects ?opts \<noteq> Some False" "maxRedirects ?opts \<noteq> Some 0"
          "maxRedirects ?opts \<noteq> Some 1" "mPath ?opts = ''/v2/blarg/blobs/x''"
          "(case maxRedirects ?opts of None \<Rightarrow> 3 | Some x \<Rightarrow> x) = Suc 2"
          "mMethod ?opts = ''GET''" "mHeaders ?opts = None"
    by simp_all
  have s3: "showNat (Suc 2) = ''3''" by (simp add: showNat_def numeral_2_eq_2)
  have b: "baseUrl exClient = ''https://registry.example''" by (simp add: exClient_def)
  have urls: "exNewURL ''/v2/blarg/blobs/x'' ''https://registry.example'' = Some ?reg"
             "exNewURL ?cdn ?reg = Some ?cdn"
             "exNewURL ?cdn ''https://registry.example'' = Some ?cdn"
             "exNewURL ?cdn ?cdn = Some ?cdn"
    by (simp_all add: exNewURL_def exOrigin_def matchScheme_def isWord_def)
  have nr: "newURL exRedirector = exNewURL" "newURL exPlatform = exNewURL"
    by (simp_all add: exRedirector_def exPlatform_def)
  have fr: "\<forall>rq w. \<exists>rw w'. fetch exRedirector rq w = (Inr rw, w') \<and> rawStatus rw = 307
                      \<and> hget (rawHeaders rw) ''location'' = Some ?cdn"
    by (simp add: exRedirector_def exResponse_def hget_def)
  have fp: "\<And>rq x xs. fetch exPlatform rq (x # xs) = (x, xs)"
    by (simp add: exPlatform_def exFetch_def)
  have er: "exResponse 307 [(''location'', ?cdn)] [] = Inr ?rw307"
           "exResponse 200 [] ''hello'' = Inr ?rw200" "exResponse 404 [] [] = Inr ?rw404"
    by (simp_all add: exResponse_def)
  have hl: "hget (rawHeaders ?rw307) ''location'' = Some ?cdn"
           "\<not> htruthy (hget (rawHeaders ?rw200) ''location'')"
    by (simp_all add: hget_def htruthy_def)
  note T = makeHttpRequest_redirect_chain[where c = exClient and opts = ?opts]
  note rec = T[THEN conjunct2, THEN conjunct2, THEN conjunct2, THEN conjunct2, THEN conjunct2,
               THEN conjunct2, THEN conjunct2, THEN conjunct2]

  txt \<open>Always redirected.\<close>
  from T[where P = exRedirector and l = ?cdn and ?u0.0 = ?reg and t = ?cdn and k = 2
           and n = "\<lparr>world = (), sent = []\<rparr>", THEN conjunct1]
    fr o b urls nr
  obtain w' where A0: "makeHttpRequest exRedirector exClient ?opts \<lparr>world = (), sent = []\<rparr>
          = (Inl (TooManyRedirectsError (''maximum number of redirects ('' @ showNat (Suc 2)
                                          @ '') hit'')),
             \<lparr>world = w',
              sent = [] @ fetchRequest ((api exClient)\<lparr>accept := []\<rparr>)
                             (hopRequest ''GET'' ''/v2/blarg/blobs/x'' None) ?reg
                         # replicate 2 (fetchRequest ((api exClient)\<lparr>accept := []\<rparr>)
                                          (hopRequest ''GET'' ?cdn (Some [])) ?cdn)\<rparr>)"
    by auto
  have A: "\<exists>n'. makeHttpRequest exRedirector exClient ?opts \<lparr>world = (), sent = []\<rparr>
          = (Inl (TooManyRedirectsError ''maximum number of redirects (3) hit''), n')
        \<and> map fetchUrl (sent n') = [?reg, ?cdn, ?cdn]"
    unfolding A0 s3 by (simp add: rec numeral_2_eq_2)

  txt \<open>No pass at all.\<close>
  from makeHttpRequest_redirect_chain[where P = exPlatform and c = exClient
      and opts = "?opts\<lparr>maxRedirects := Some 0\<rparr>" and n = "\<lparr>world = [], sent = []\<rparr>",
      THEN conjunct2, THEN conjunct1]
  have B: "makeHttpRequest exPlatform exClient
            \<lparr>mMethod = ''GET'', mPath = ''/v2/blarg/blobs/x'', mHeaders = None,
             mFollowRedirects = None, maxRedirects = Some 0\<rparr> \<lparr>world = [], sent = []\<rparr>
        = (Inl (TooManyRedirectsError ''maximum number of redirects (0) hit''),
           \<lparr>world = [], sent = []\<rparr>)"
    by simp

  txt \<open>Answered at once.\<close>
  from T[where P = exPlatform and ?u0.0 = ?reg and ?rw0.0 = ?rw200 and ?w1.0 = "[]"
           and n = "\<lparr>world = [exResponse 200 [] ''hello''], sent = []\<rparr>",
         THEN conjunct2, THEN conjunct2, THEN conjunct1]
    o b urls nr fp er hl
  have C: "makeHttpRequest exPlatform exClient ?opts
             \<lparr>world = [exResponse 200 [] ''hello''], sent = []\<rparr>
           = (Inr [newDockerResponse ?rw200],
              \<lparr>world = [], sent = [] @ [fetchRequest ((api exClient)\<lparr>accept := []\<rparr>)
                                   (hopRequest ''GET'' ''/v2/blarg/blobs/x'' None) ?reg]\<rparr>)"
    by simp

  txt \<open>One redirect.\<close>
  from T[where P = exPlatform and ?u0.0 = ?reg and ?rw0.0 = ?rw307
           and ?w1.0 = "[exResponse 200 [] ''hello'']" and ?l0.0 = ?cdn and ?t0.0 = ?cdn
           and ?u1.0 = ?cdn and ?rw1.0 = ?rw200 and ?w2.0 = "[]"
           and n = "\<lparr>world = [exResponse 307 [(''location'', ?cdn)] [],
                               exResponse 200 [] ''hello''], sent = []\<rparr>",
         THEN conjunct2, THEN conjunct2, THEN conjunct2, THEN conjunct1]
    o b urls nr fp er hl
  have D: "makeHttpRequest exPlatform exClient ?opts
             \<lparr>world = [exResponse 307 [(''location'', ?cdn)] [],
                       exResponse 200 [] ''hello''], sent = []\<rparr>
           = (Inr [newDockerResponse ?rw307, newDockerResponse ?rw200],
              \<lparr>world = [],
               sent = [] @ [fetchRequest ((api exClient)\<lparr>accept := []\<rparr>)
                                   (hopRequest ''GET'' ''/v2/blarg/blobs/x'' None) ?reg,
                            fetchRequest ((api exClient)\<lparr>accept := []\<rparr>)
                                   (hopRequest ''GET'' ?cdn (Some [])) ?cdn]\<rparr>)"
    by simp

  txt \<open>Not found.\<close>
  from T[where P = exPlatform and ?u0.0 = ?reg and ?rw0.0 = ?rw404 and ?w1.0 = "[]"
           and n = "\<lparr>world = [exResponse 404 [] []], sent = []\<rparr>",
         THEN conjunct2, THEN conjunct2, THEN conjunct2, THEN conjunct2, THEN conjunct1]
    o b urls nr fp er
  obtain r1 es msg where E: "makeHttpRequest exPlatform exClient ?opts
             \<lparr>world = [exResponse 404 [] []], sent = []\<rparr>
           = (Inl (HttpError r1 es msg),
              \<lparr>world = [], sent = [] @ [fetchRequest ((api exClient)\<lparr>accept := []\<rparr>)
                                   (hopRequest ''GET'' ''/v2/blarg/blobs/x'' None) ?reg]\<rparr>)"
    and E1: "status r1 = 404"
    by auto

  txt \<open>Not found at the target of the redirect.\<close>
  from T[where P = exPlatform and ?u0.0 = ?reg and ?rw0.0 = ?rw307
           and ?w1.0 = "[exResponse 404 [] []]" and ?l0.0 = ?cdn and ?t0.0 = ?cdn
           and ?u1.0 = ?cdn and ?rw1.0 = ?rw404 and ?w2.0 = "[]"
           and n = "\<lparr>world = [exResponse 307 [(''location'', ?cdn)] [],
                               exResponse 404 [] []], sent = []\<rparr>",
         THEN conjunct2, THEN conjunct2, THEN conjunct2, THEN conjunct2, THEN conjunct2,
         THEN conjunct1]
    o b urls nr fp er hl
  obtain r2 es2 msg2 where F: "makeHttpRequest exPlatform exClient ?opts
             \<lparr>world = [exResponse 307 [(''location'', ?cdn)] [],
                       exResponse 404 [] []], sent = []\<rparr>
           = (Inl (HttpError r2 es2 msg2),
              \<lparr>world = [],
               sent = [] @ [fetchRequest ((api exClient)\<lparr>accept := []\<rparr>)
                                   (hopRequest ''GET'' ''/v2/blarg/blobs/x'' None) ?reg,
                            fetchRequest ((api exClient)\<lparr>accept := []\<rparr>)
                                   (hopRequest ''GET'' ?cdn (Some [])) ?cdn]\<rparr>)"
    and F1: "status r2 = 404"
    by auto

  txt \<open>The chain of the run with one redirect, and the count of the run without end.\<close>
  from T[where P = exPlatform
           and n = "\<lparr>world = [exResponse 307 [(''location'', ?cdn)] [],
                               exResponse 200 [] ''hello''], sent = []\<rparr>"
           and ress = "[newDockerResponse ?rw307, newDockerResponse ?rw200]"
           and m = "\<lparr>world = [],
               sent = [] @ [fetchRequest ((api exClient)\<lparr>accept := []\<rparr>)
                                   (hopRequest ''GET'' ''/v2/blarg/blobs/x'' None) ?reg,
                            fetchRequest ((api exClient)\<lparr>accept := []\<rparr>)
                                   (hopRequest ''GET'' ?cdn (Some [])) ?cdn]\<rparr>",
         THEN conjunct2, THEN conjunct2, THEN conjunct2, THEN conjunct2, THEN conjunct2,
         THEN conjunct2, THEN conjunct1] D o
  have G: "\<not> ((status (newDockerResponse ?rw200) = 302 \<or> status (newDockerResponse ?rw200) = 307)
              \<and> htruthy (hget (headers (newDockerResponse ?rw200)) ''location''))"
    by simp
  from A0 obtain n' where A': "makeHttpRequest exRedirector exClient ?opts \<lparr>world = (), sent = []\<rparr>
          = (Inl (TooManyRedirectsError ''maximum number of redirects (3) hit''), n')"
    unfolding s3 by simp
  from T[where P = exRedirector and n = "\<lparr>world = (), sent = []\<rparr>" and m = n'
           and msg = "''maximum number of redirects (3) hit''",
         THEN conjunct2, THEN conjunct2, THEN conjunct2, THEN conjunct2, THEN conjunct2,
         THEN conjunct2, THEN conjunct2, THEN conjunct1] A'
  have H: "length (sent n') = 3" by simp
  have C': "\<exists>r m. makeHttpRequest exPlatform exClient ?opts
            \<lparr>world = [exResponse 200 [] ''hello''], sent = []\<rparr> = (Inr [r], m)
          \<and> status r = 200 \<and> length (sent m) = 1"
    unfolding C by simp
  have D': "\<exists>r0 r1 m. makeHttpRequest exPlatform exClient ?opts
            \<lparr>world = [exResponse 307 [(''location'', ?cdn)] [],
                      exResponse 200 [] ''hello''], sent = []\<rparr> = (Inr [r0, r1], m)
          \<and> status r0 = 307 \<and> status r1 = 200 \<and> body r1 = Some ''hello''
          \<and> map fetchUrl (sent m) = [?reg, ?cdn]"
    unfolding D by (simp add: rec)
  have E': "\<exists>r1 es msg m. makeHttpRequest exPlatform exClient ?opts
            \<lparr>world = [exResponse 404 [] []], sent = []\<rparr> = (Inl (HttpError r1 es msg), m)
          \<and> status r1 = 404 \<and> length (sent m) = 1"
    unfolding E using E1 by simp
  have F': "\<exists>r1 es msg m. makeHttpRequest exPlatform exClient ?opts
            \<lparr>world = [exResponse 307 [(''location'', ?cdn)] [],
                      exResponse 404 [] []], sent = []\<rparr> = (Inl (HttpError r1 es msg), m)
          \<and> status r1 = 404 \<and> length (sent m) = 2"
    unfolding F using F1 by simp
  from A B C' D' E' F' show ?thesis by (intro conjI)
qed

text \<open>
  Claim C3 as stated is false: a response whose status is not 302 or 307 ends the
  loop with the chain only when the status is 200. A 404, at the first request or
  at the target of a redirect, makes \<open>request\<close> throw an \<open>HttpError\<close>, and the
  responses collected so far are not returned.
\<close>

theorem makeHttpRequest_not_found_counterexample:
  "map_sum message (map status)
     (fst (makeHttpRequest exPlatform exClient
            \<lparr>mMethod = ''GET'', mPath = ''/v2/blarg/blobs/x'', mHeaders = None,
             mFollowRedirects = None, maxRedirects = None\<rparr>
            \<lparr>world = [exResponse 307 [(''location'', ''https://cdn.example/x'')] [],
                      exResponse 404 [] []], sent = []\<rparr>))
     = Inl ''Unexpected HTTP 404 from https://cdn.example/x''
   \<and> map_sum message (map status)
     (fst (makeHttpRequest exPlatform exClient
            \<lparr>mMethod = ''GET'', mPath = ''/v2/blarg/blobs/x'', mHeaders = None,
             mFollowRedirects = None, maxRedirects = None\<rparr>
            \<lparr>world = [exResponse 404 [] []], sent = []\<rparr>))
     = Inl ''Unexpected HTTP 404 from /v2/blarg/blobs/x''"
  by (simp add: makeHttpRequest_def hopRequest_def numeral_3_eq_3 client_defs example_defs
        header_defs response_defs js_defs message_def digits_numeral)

section \<open>Requests to redirect targets\<close>

text \<open>
  \<open>request\<close> and the loop read the network state and only append to the trace:
  from another trace over the same state they do the same and append the same.
\<close>

lemma request_world:
  fixes P :: "'w platform"
  assumes "world n' = world n" and "request P cl opts n = (res, m)"
  shows "\<exists>X. sent m = sent n @ X
            \<and> request P cl opts n' = (res, \<lparr>world = world m, sent = sent n' @ X\<rparr>)"
proof (cases "newURL P (path opts) (apiUrl cl)")
  case None
  with assms show ?thesis by (cases n') (auto simp: request_def)
next
  case (Some u)
  obtain out w where f: "fetch P (fetchRequest cl opts u) (world n) = (out, w)"
    by (cases "fetch P (fetchRequest cl opts u) (world n)")
  have d: "doFetch P (fetchRequest cl opts u) n
             = (out, \<lparr>world = w, sent = sent n @ [fetchRequest cl opts u]\<rparr>)"
          "doFetch P (fetchRequest cl opts u) n'
             = (out, \<lparr>world = w, sent = sent n' @ [fetchRequest cl opts u]\<rparr>)"
    using f assms(1) by (simp_all add: doFetch_def)
  from assms(2) have m: "m = \<lparr>world = w, sent = sent n @ [fetchRequest cl opts u]\<rparr>"
    by (auto simp: request_def Some d split: sum.splits prod.splits if_splits)
  from assms(2) have "request P cl opts n'
                        = (res, \<lparr>world = w, sent = sent n' @ [fetchRequest cl opts u]\<rparr>)"
    by (auto simp: request_def Some d split: sum.splits prod.splits if_splits)
  with m show ?thesis by simp
qed

lemma redirectLoop_world:
  fixes P :: "'w platform"
  assumes "world n' = world n"
      and "redirectLoop k P c meth fl mx p hs ress n = (res, m)"
  shows "\<exists>X. sent m = sent n @ X
            \<and> redirectLoop k P c meth fl mx p hs ress n'
                = (res, \<lparr>world = world m, sent = sent n' @ X\<rparr>)"
  using assms
proof (induction k arbitrary: p hs ress n n' res m)
  case 0
  then show ?case by (cases n') auto
next
  case (Suc k)
  obtain r1 n1 where rq: "request P ((api c)\<lparr>accept := []\<rparr>) (hopRequest meth p hs) n = (r1, n1)"
    by (cases "request P ((api c)\<lparr>accept := []\<rparr>) (hopRequest meth p hs) n")
  from request_world[OF Suc.prems(1) rq] obtain X where
    X: "sent n1 = sent n @ X"
    and rq': "request P ((api c)\<lparr>accept := []\<rparr>) (hopRequest meth p hs) n'
                = (r1, \<lparr>world = world n1, sent = sent n' @ X\<rparr>)"
    by blast
  let ?n1' = "\<lparr>world = world n1, sent = sent n' @ X\<rparr>"
  have w: "world ?n1' = world n1" by simp
  show ?case
  proof (cases "\<exists>r b loc. r1 = Inr r \<and> fl \<and> (status r = 302 \<or> status r = 307)
                  \<and> htruthy (hget (headers r) ''location'')
                  \<and> newURL P p (baseUrl c) = Some b
                  \<and> newURL P (the (hget (headers r) ''location'')) b = Some loc")
    case True
    then obtain r b loc where r: "r1 = Inr r" "fl" "status r = 302 \<or> status r = 307"
        "htruthy (hget (headers r) ''location'')" "newURL P p (baseUrl c) = Some b"
        "newURL P (the (hget (headers r) ''location'')) b = Some loc"
      by blast
    from Suc.prems(2) rq r
    have rec: "redirectLoop k P c meth fl mx loc (Some []) (ress @ [r]) n1 = (res, m)"
      by auto
    from Suc.IH[OF w rec] obtain Y where
      Y: "sent m = sent n1 @ Y"
      and rec': "redirectLoop k P c meth fl mx loc (Some []) (ress @ [r]) ?n1'
                  = (res, \<lparr>world = world m, sent = sent ?n1' @ Y\<rparr>)"
      by blast
    have "redirectLoop (Suc k) P c meth fl mx p hs ress n'
            = (res, \<lparr>world = world m, sent = sent n' @ (X @ Y)\<rparr>)"
      using rq' r rec' by auto
    with X Y show ?thesis by auto
  next
    case False
    with Suc.prems(2) rq have a: "res = (case r1 of Inl e \<Rightarrow> Inl e | Inr r \<Rightarrow>
         if \<not> fl \<or> \<not> (status r = 302 \<or> status r = 307)
            \<or> \<not> htruthy (hget (headers r) ''location'') then Inr (ress @ [r])
         else Inl (TypeError ''Invalid URL''))" and b: "m = n1"
      by (auto split: sum.splits option.splits if_splits)
    from False rq' a have "redirectLoop (Suc k) P c meth fl mx p hs ress n' = (res, ?n1')"
      by (auto split: sum.splits option.splits if_splits)
    with b X show ?thesis by auto
  qed
qed

text \<open>The loop reads only the base URL and the user agent of the client.\<close>

lemma redirectLoop_client:
  assumes "baseUrl c' = baseUrl c" "clientUserAgent c' = clientUserAgent c"
  shows "redirectLoop k P c' meth fl mx p hs ress n = redirectLoop k P c meth fl mx p hs ress n"
proof (induction k arbitrary: p hs ress n fl)
  case 0
  show ?case by simp
next
  case (Suc k)
  have "(api c')\<lparr>accept := []\<rparr> = (api c)\<lparr>accept := []\<rparr>"
    using assms by (simp add: api_def)
  then show ?case using Suc assms(1) by (simp split: sum.splits prod.splits option.splits)
qed


text \<open>What one pass of the loop appends to the trace.\<close>

lemma request_hop_trace:
  fixes P :: "'w platform"
  assumes "request P ((api c)\<lparr>accept := []\<rparr>) (hopRequest meth p hs) n = (res, m)"
  shows "(sent m = sent n \<and> (\<exists>e. res = Inl e))
         \<or> (\<exists>u. sent m = sent n @
                [\<lparr>fetchUrl = u, fetchMethod = meth,
                  fetchHeaders = hset (case hs of None \<Rightarrow> [] | Some h \<Rightarrow> h) ''user-agent''
                                   (clientUserAgent c),
                  fetchRedirect = ''manual'', fetchBody = None\<rparr>])"
proof (cases "newURL P (path (hopRequest meth p hs)) (apiUrl ((api c)\<lparr>accept := []\<rparr>))")
  case None
  with assms show ?thesis by (auto simp: request_def)
next
  case (Some u)
  with assms have "sent m = sent n @ [fetchRequest ((api c)\<lparr>accept := []\<rparr>) (hopRequest meth p hs) u]"
    by (auto simp: request_def doFetch_def split: sum.splits prod.splits if_splits)
  then show ?thesis unfolding fetchRequest_hop by blast
qed

text \<open>A pass that starts with the cleared headers sends nothing but the user agent.\<close>

lemma redirectLoop_cleared:
  fixes P :: "'w platform"
  assumes "redirectLoop k P c meth fl mx p (Some []) ress n = (res, m)"
  shows "\<exists>X. sent m = sent n @ X
            \<and> (\<forall>rq \<in> set X. fetchHeaders rq = [(''user-agent'', clientUserAgent c)]
                              \<and> fetchBody rq = None)"
  using assms
proof (induction k arbitrary: p ress n res m)
  case 0
  then show ?case by auto
next
  case (Suc k)
  obtain r1 n1 where rq: "request P ((api c)\<lparr>accept := []\<rparr>) (hopRequest meth p (Some [])) n = (r1, n1)"
    by (cases "request P ((api c)\<lparr>accept := []\<rparr>) (hopRequest meth p (Some [])) n")
  from request_hop_trace[OF rq] obtain X where
    X: "sent n1 = sent n @ X"
       "\<forall>rq \<in> set X. fetchHeaders rq = [(''user-agent'', clientUserAgent c)] \<and> fetchBody rq = None"
    by (auto simp: hset_def hdelete_def)
  show ?case
  proof (cases "\<exists>r b loc. r1 = Inr r \<and> fl \<and> (status r = 302 \<or> status r = 307)
                  \<and> htruthy (hget (headers r) ''location'')
                  \<and> newURL P p (baseUrl c) = Some b
                  \<and> newURL P (the (hget (headers r) ''location'')) b = Some loc")
    case True
    then obtain r loc where "redirectLoop k P c meth fl mx loc (Some []) (ress @ [r]) n1 = (res, m)"
      using Suc.prems rq by auto
    from Suc.IH[OF this] X show ?thesis by auto
  next
    case False
    with rq Suc.prems have "m = n1"
      by (auto split: sum.splits option.splits if_splits)
    with X show ?thesis by auto
  qed
qed

lemma redirectLoop_rest_cleared:
  fixes P :: "'w platform"
  assumes "redirectLoop k P c meth fl mx p hs ress n = (res, m)"
  shows "\<exists>X. sent m = sent n @ X
            \<and> (\<forall>rq \<in> set (tl X). fetchHeaders rq = [(''user-agent'', clientUserAgent c)]
                                   \<and> fetchBody rq = None)"
proof (cases k)
  case 0
  with assms show ?thesis by auto
next
  case (Suc j)
  obtain r1 n1 where rq: "request P ((api c)\<lparr>accept := []\<rparr>) (hopRequest meth p hs) n = (r1, n1)"
    by (cases "request P ((api c)\<lparr>accept := []\<rparr>) (hopRequest meth p hs) n")
  from request_hop_trace[OF rq] obtain X where X: "sent n1 = sent n @ X" "length X \<le> 1"
    by auto
  show ?thesis
  proof (cases "\<exists>r b loc. r1 = Inr r \<and> fl \<and> (status r = 302 \<or> status r = 307)
                  \<and> htruthy (hget (headers r) ''location'')
                  \<and> newURL P p (baseUrl c) = Some b
                  \<and> newURL P (the (hget (headers r) ''location'')) b = Some loc")
    case True
    then obtain r loc where r: "r1 = Inr r"
      and "redirectLoop j P c meth fl mx loc (Some []) (ress @ [r]) n1 = (res, m)"
      using assms Suc rq by auto
    from redirectLoop_cleared[OF this(2)] obtain Y where
      Y: "sent m = sent n1 @ Y"
         "\<forall>rq \<in> set Y. fetchHeaders rq = [(''user-agent'', clientUserAgent c)] \<and> fetchBody rq = None"
      by auto
    from request_hop_trace[OF rq] r obtain x where "X = [x]" using X by auto
    with X Y show ?thesis by auto
  next
    case False
    with rq assms Suc have "m = n1"
      by (auto split: sum.splits option.splits if_splits)
    moreover from X(2) have "tl X = []" by (cases X) auto
    ultimately show ?thesis using X by auto
  qed
qed


text \<open>
  Two first passes that differ only in the request headers, against a registry
  whose answers do not depend on the request headers.
\<close>

lemma request_hop_insensitive:
  fixes P :: "'w platform"
  assumes ins: "\<forall>rq h w. fetch P (rq\<lparr>fetchHeaders := h\<rparr>) w = fetch P rq w"
      and a: "request P ((api c)\<lparr>accept := []\<rparr>) (hopRequest meth p hs) n = (r1, n1)"
      and b: "request P ((api c)\<lparr>accept := []\<rparr>) (hopRequest meth p hs') n = (r1', n1')"
    shows "r1' = r1 \<and> world n1' = world n1
           \<and> ((sent n1 = sent n \<and> sent n1' = sent n \<and> (\<exists>e. r1 = Inl e))
               \<or> (\<exists>x x'. sent n1 = sent n @ [x] \<and> sent n1' = sent n @ [x']))"
proof (cases "newURL P p (baseUrl c)")
  case None
  then have "newURL P (path (hopRequest meth p hs)) (apiUrl ((api c)\<lparr>accept := []\<rparr>)) = None"
            "newURL P (path (hopRequest meth p hs')) (apiUrl ((api c)\<lparr>accept := []\<rparr>)) = None"
    by (simp_all add: hopRequest_def api_def)
  with a b show ?thesis by (auto simp: request_def)
next
  case (Some u)
  let ?A = "(api c)\<lparr>accept := []\<rparr>"
  have u: "newURL P (path (hopRequest meth p hs)) (apiUrl (api c)) = Some u"
          "newURL P (path (hopRequest meth p hs')) (apiUrl (api c)) = Some u"
    using Some by (simp_all add: hopRequest_def api_def)
  have "fetchRequest ?A (hopRequest meth p hs') u
          = (fetchRequest ?A (hopRequest meth p hs) u)
              \<lparr>fetchHeaders := hset (case hs' of None \<Rightarrow> [] | Some h \<Rightarrow> h) ''user-agent''
                                  (clientUserAgent c)\<rparr>"
    by (simp add: fetchRequest_hop)
  with ins have f: "fetch P (fetchRequest ?A (hopRequest meth p hs') u) (world n)
                      = fetch P (fetchRequest ?A (hopRequest meth p hs) u) (world n)"
    by metis
  obtain out w where o: "fetch P (fetchRequest ?A (hopRequest meth p hs) u) (world n) = (out, w)"
    by (cases "fetch P (fetchRequest ?A (hopRequest meth p hs) u) (world n)")
  have d: "doFetch P (fetchRequest ?A (hopRequest meth p hs) u) n
             = (out, \<lparr>world = w, sent = sent n @ [fetchRequest ?A (hopRequest meth p hs) u]\<rparr>)"
          "doFetch P (fetchRequest ?A (hopRequest meth p hs') u) n
             = (out, \<lparr>world = w, sent = sent n @ [fetchRequest ?A (hopRequest meth p hs') u]\<rparr>)"
    using o f by (simp_all add: doFetch_def)
  have e: "path (hopRequest meth p hs') = path (hopRequest meth p hs)"
          "expectStatus (hopRequest meth p hs') = expectStatus (hopRequest meth p hs)"
    by (simp_all add: hopRequest_def)
  from a have 1: "n1 = \<lparr>world = w, sent = sent n @ [fetchRequest ?A (hopRequest meth p hs) u]\<rparr>"
    by (auto simp: request_def u d split: sum.splits prod.splits if_splits)
  from b have 2: "n1' = \<lparr>world = w, sent = sent n @ [fetchRequest ?A (hopRequest meth p hs') u]\<rparr>"
    by (auto simp: request_def u d split: sum.splits prod.splits if_splits)
  from a b have 3: "r1' = r1"
    by (auto simp: request_def u d e split: sum.splits prod.splits if_splits)
  from 1 2 3 show ?thesis by simp
qed

lemma redirectLoop_insensitive:
  fixes P :: "'w platform"
  assumes ins: "\<forall>rq h w. fetch P (rq\<lparr>fetchHeaders := h\<rparr>) w = fetch P rq w"
      and cl: "baseUrl c' = baseUrl c" "clientUserAgent c' = clientUserAgent c"
      and a: "redirectLoop k P c meth fl mx p hs ress n = (res, m)"
      and b: "redirectLoop k P c' meth fl mx p hs' ress n = (res', m')"
    shows "res' = res \<and> world m' = world m
           \<and> tl (drop (length (sent n)) (sent m')) = tl (drop (length (sent n)) (sent m))"
proof (cases k)
  case 0
  with a b show ?thesis by auto
next
  case (Suc j)
  from b have b': "redirectLoop k P c meth fl mx p hs' ress n = (res', m')"
    by (simp add: redirectLoop_client[OF cl])
  obtain r1 n1 where rq: "request P ((api c)\<lparr>accept := []\<rparr>) (hopRequest meth p hs) n = (r1, n1)"
    by (cases "request P ((api c)\<lparr>accept := []\<rparr>) (hopRequest meth p hs) n")
  obtain r1' n1' where rq': "request P ((api c)\<lparr>accept := []\<rparr>) (hopRequest meth p hs') n = (r1', n1')"
    by (cases "request P ((api c)\<lparr>accept := []\<rparr>) (hopRequest meth p hs') n")
  from request_hop_insensitive[OF ins rq rq'] have
    eq: "r1' = r1" "world n1' = world n1"
    and tr: "(sent n1 = sent n \<and> sent n1' = sent n \<and> (\<exists>e. r1 = Inl e))
               \<or> (\<exists>x x'. sent n1 = sent n @ [x] \<and> sent n1' = sent n @ [x'])"
    by auto
  show ?thesis
  proof (cases "\<exists>r b loc. r1 = Inr r \<and> fl \<and> (status r = 302 \<or> status r = 307)
                  \<and> htruthy (hget (headers r) ''location'')
                  \<and> newURL P p (baseUrl c) = Some b
                  \<and> newURL P (the (hget (headers r) ''location'')) b = Some loc")
    case True
    then obtain r bb loc where r: "r1 = Inr r" "fl" "status r = 302 \<or> status r = 307"
        "htruthy (hget (headers r) ''location'')" "newURL P p (baseUrl c) = Some bb"
        "newURL P (the (hget (headers r) ''location'')) bb = Some loc"
      by blast
    from a Suc rq r
    have rec: "redirectLoop j P c meth fl mx loc (Some []) (ress @ [r]) n1 = (res, m)" by auto
    from b' Suc rq' r eq
    have rec': "redirectLoop j P c meth fl mx loc (Some []) (ress @ [r]) n1' = (res', m')" by auto
    from redirectLoop_world[OF eq(2) rec] obtain X where
      X: "sent m = sent n1 @ X"
      and "redirectLoop j P c meth fl mx loc (Some []) (ress @ [r]) n1'
             = (res, \<lparr>world = world m, sent = sent n1' @ X\<rparr>)"
      by blast
    with rec' have m': "res' = res" "m' = \<lparr>world = world m, sent = sent n1' @ X\<rparr>" by auto
    from tr r(1) obtain x x' where "sent n1 = sent n @ [x]" "sent n1' = sent n @ [x']" by auto
    with X m' show ?thesis by simp
  next
    case False
    with a Suc rq have 1: "res = (case r1 of Inl e \<Rightarrow> Inl e | Inr r \<Rightarrow>
         if \<not> fl \<or> \<not> (status r = 302 \<or> status r = 307)
            \<or> \<not> htruthy (hget (headers r) ''location'') then Inr (ress @ [r])
         else Inl (TypeError ''Invalid URL''))" and 2: "m = n1"
      by (auto split: sum.splits option.splits if_splits)
    from False b' Suc rq' eq have 3: "res' = (case r1 of Inl e \<Rightarrow> Inl e | Inr r \<Rightarrow>
         if \<not> fl \<or> \<not> (status r = 302 \<or> status r = 307)
            \<or> \<not> htruthy (hget (headers r) ''location'') then Inr (ress @ [r])
         else Inl (TypeError ''Invalid URL''))" and 4: "m' = n1'"
      by (auto split: sum.splits option.splits if_splits)
    from tr have "tl (drop (length (sent n)) (sent n1')) = tl (drop (length (sent n)) (sent n1))"
      by auto
    with 1 2 3 4 eq show ?thesis by simp
  qed
qed


text \<open>
  Claim C4. Of the requests that one call of \<open>_makeHttpRequest\<close> hands to
  \<open>fetch\<close>, every one after the first carries no header but the user agent
  that \<open>request\<close> sets on every request, and no body: the headers of the caller,
  the Authorization header among them, go to the first URL only. In a pass that
  follows a redirect, the next request path is the location header resolved
  against the previous request path, itself resolved against the base URL, and
  the next request starts from an empty header set. Two calls that differ in the
  headers of the caller and in the client, but not in its base URL and user agent,
  against a registry whose answers do not depend on the request headers, give the
  same result and send the same requests after the first.
\<close>

theorem redirect_targets_get_no_caller_headers:
  fixes P :: "'w platform"
  shows
   "(makeHttpRequest P c opts n = (res, m)
      \<longrightarrow> (\<exists>X. sent m = sent n @ X
               \<and> (\<forall>rq \<in> set (tl X). fetchHeaders rq = [(''user-agent'', clientUserAgent c)]
                                      \<and> fetchBody rq = None)))
    \<and> (request P ((api c)\<lparr>accept := []\<rparr>) (hopRequest meth p hs) k1 = (Inr r, k2)
        \<and> fl \<and> (status r = 302 \<or> status r = 307)
        \<and> htruthy (hget (headers r) ''location'')
        \<and> newURL P p (baseUrl c) = Some b
        \<and> newURL P (the (hget (headers r) ''location'')) b = Some loc
      \<longrightarrow> redirectLoop (Suc j) P c meth fl mx p hs ress k1
            = redirectLoop j P c meth fl mx loc (Some []) (ress @ [r]) k2)
    \<and> ((\<forall>rq h w. fetch P (rq\<lparr>fetchHeaders := h\<rparr>) w = fetch P rq w)
        \<and> baseUrl c' = baseUrl c \<and> clientUserAgent c' = clientUserAgent c
        \<and> makeHttpRequest P c (opts\<lparr>mHeaders := h1\<rparr>) n = (res1, m1)
        \<and> makeHttpRequest P c' (opts\<lparr>mHeaders := h2\<rparr>) n = (res2, m2)
      \<longrightarrow> res2 = res1 \<and> world m2 = world m1
          \<and> tl (drop (length (sent n)) (sent m2)) = tl (drop (length (sent n)) (sent m1)))"
proof (intro conjI impI)
  assume "makeHttpRequest P c opts n = (res, m)"
  then show "\<exists>X. sent m = sent n @ X
               \<and> (\<forall>rq \<in> set (tl X). fetchHeaders rq = [(''user-agent'', clientUserAgent c)]
                                      \<and> fetchBody rq = None)"
    unfolding makeHttpRequest_def Let_def by (rule redirectLoop_rest_cleared)
next
  assume "request P ((api c)\<lparr>accept := []\<rparr>) (hopRequest meth p hs) k1 = (Inr r, k2)
        \<and> fl \<and> (status r = 302 \<or> status r = 307)
        \<and> htruthy (hget (headers r) ''location'')
        \<and> newURL P p (baseUrl c) = Some b
        \<and> newURL P (the (hget (headers r) ''location'')) b = Some loc"
  then show "redirectLoop (Suc j) P c meth fl mx p hs ress k1
            = redirectLoop j P c meth fl mx loc (Some []) (ress @ [r]) k2"
    by auto
next
  assume a: "(\<forall>rq h w. fetch P (rq\<lparr>fetchHeaders := h\<rparr>) w = fetch P rq w)
        \<and> baseUrl c' = baseUrl c \<and> clientUserAgent c' = clientUserAgent c
        \<and> makeHttpRequest P c (opts\<lparr>mHeaders := h1\<rparr>) n = (res1, m1)
        \<and> makeHttpRequest P c' (opts\<lparr>mHeaders := h2\<rparr>) n = (res2, m2)"
  then have ins: "\<forall>rq h w. fetch P (rq\<lparr>fetchHeaders := h\<rparr>) w = fetch P rq w"
    and cl: "baseUrl c' = baseUrl c" "clientUserAgent c' = clientUserAgent c"
    by auto
  let ?k = "case maxRedirects opts of None \<Rightarrow> 3 | Some k \<Rightarrow> k"
  let ?f = "case mFollowRedirects opts of None \<Rightarrow> True | Some b \<Rightarrow> b"
  from a have 1: "redirectLoop ?k P c (mMethod opts) ?f ?k (mPath opts) h1 [] n = (res1, m1)"
    and 2: "redirectLoop ?k P c' (mMethod opts) ?f ?k (mPath opts) h2 [] n = (res2, m2)"
    by (simp_all add: makeHttpRequest_def Let_def)
  from redirectLoop_insensitive[OF ins cl 1 2]
  show "res2 = res1" and "world m2 = world m1"
    and "tl (drop (length (sent n)) (sent m2)) = tl (drop (length (sent n)) (sent m1))"
    by simp_all
qed


text \<open>
  The theorem at a registry that answers the blob request with a 307 to
  \<open>https://cdn.example/x\<close> and the request to that URL with 200: the call sends two
  requests, the second with the user agent alone, and a second client with a user
  name, called without the Authorization header, gets the same result.
\<close>

theorem redirect_targets_get_no_caller_headers_witness:
  "\<exists>res m r k2 res2 m2.
      makeHttpRequest exPlatform exClient
         \<lparr>mMethod = ''GET'', mPath = ''/v2/blarg/blobs/x'',
          mHeaders = Some [(''authorization'', ''Bearer abc'')],
          mFollowRedirects = None, maxRedirects = None\<rparr>
         \<lparr>world = [exResponse 307 [(''location'', ''https://cdn.example/x'')] [],
                   exResponse 200 [] ''hello''], sent = []\<rparr> = (res, m)
    \<and> length (sent m) = 2
    \<and> map fetchHeaders (tl (sent m)) = [[(''user-agent'', clientUserAgent exClient)]]
    \<and> map fetchBody (tl (sent m)) = [None]
    \<and> request exPlatform ((api exClient)\<lparr>accept := []\<rparr>)
         (hopRequest ''GET'' ''/v2/blarg/blobs/x'' (Some [(''authorization'', ''Bearer abc'')]))
         \<lparr>world = [exResponse 307 [(''location'', ''https://cdn.example/x'')] [],
                   exResponse 200 [] ''hello''], sent = []\<rparr> = (Inr r, k2)
    \<and> status r = 307
    \<and> redirectLoop 3 exPlatform exClient ''GET'' True 3 ''/v2/blarg/blobs/x''
         (Some [(''authorization'', ''Bearer abc'')]) []
         \<lparr>world = [exResponse 307 [(''location'', ''https://cdn.example/x'')] [],
                   exResponse 200 [] ''hello''], sent = []\<rparr>
       = redirectLoop 2 exPlatform exClient ''GET'' True 3 ''https://cdn.example/x''
           (Some []) [r] k2
    \<and> makeHttpRequest exPlatform (exClient\<lparr>username := Some ''alice''\<rparr>)
         \<lparr>mMethod = ''GET'', mPath = ''/v2/blarg/blobs/x'', mHeaders = None,
          mFollowRedirects = None, maxRedirects = None\<rparr>
         \<lparr>world = [exResponse 307 [(''location'', ''https://cdn.example/x'')] [],
                   exResponse 200 [] ''hello''], sent = []\<rparr> = (res2, m2)
    \<and> res2 = res \<and> world m2 = world m \<and> tl (sent m2) = tl (sent m)"
proof -
  let ?auth = "Some [(''authorization'', ''Bearer abc'')]"
  let ?opts = "\<lparr>mMethod = ''GET'', mPath = ''/v2/blarg/blobs/x'', mHeaders = None,
          mFollowRedirects = None, maxRedirects = None\<rparr>"
  let ?n = "\<lparr>world = [exResponse 307 [(''location'', ''https://cdn.example/x'')] [],
                   exResponse 200 [] ''hello''], sent = []\<rparr>"
  let ?c' = "exClient\<lparr>username := Some ''alice''\<rparr>"
  obtain r k2 where rq: "request exPlatform ((api exClient)\<lparr>accept := []\<rparr>)
         (hopRequest ''GET'' ''/v2/blarg/blobs/x'' ?auth) ?n = (Inr r, k2)"
    and st: "status r = 307"
    and loc: "hget (headers r) ''location'' = Some ''https://cdn.example/x''"
    by (simp add: client_defs example_defs header_defs hopRequest_def)
  have u1: "newURL exPlatform ''/v2/blarg/blobs/x'' (baseUrl exClient)
              = Some ''https://registry.example/v2/blarg/blobs/x''"
    by (simp add: example_defs matchScheme_def isWord_def)
  have u2: "newURL exPlatform ''https://cdn.example/x''
              ''https://registry.example/v2/blarg/blobs/x'' = Some ''https://cdn.example/x''"
    by (simp add: example_defs matchScheme_def isWord_def)
  note T0 = redirect_targets_get_no_caller_headers[where P = exPlatform and c = exClient
      and n = ?n]
  note T = T0[where c' = ?c' and opts = ?opts and meth = "''GET''"
      and p = "''/v2/blarg/blobs/x''" and hs = ?auth and ?k1.0 = ?n and r = r and ?k2.0 = k2
      and fl = True and b = "''https://registry.example/v2/blarg/blobs/x''"
      and loc = "''https://cdn.example/x''" and j = 2 and mx = 3 and ress = "[]"
      and ?h1.0 = ?auth and ?h2.0 = None]
  from T[THEN conjunct2, THEN conjunct1] rq st loc u1 u2
  have hop: "redirectLoop 3 exPlatform exClient ''GET'' True 3 ''/v2/blarg/blobs/x'' ?auth [] ?n
       = redirectLoop 2 exPlatform exClient ''GET'' True 3 ''https://cdn.example/x''
           (Some []) [r] k2"
    by (simp add: numeral_3_eq_3 htruthy_def)
  obtain res m where mk: "makeHttpRequest exPlatform exClient (?opts\<lparr>mHeaders := ?auth\<rparr>) ?n
                            = (res, m)"
    by (cases "makeHttpRequest exPlatform exClient (?opts\<lparr>mHeaders := ?auth\<rparr>) ?n")
  obtain res2 m2 where mk2: "makeHttpRequest exPlatform ?c' (?opts\<lparr>mHeaders := None\<rparr>) ?n
                            = (res2, m2)"
    by (cases "makeHttpRequest exPlatform ?c' (?opts\<lparr>mHeaders := None\<rparr>) ?n")
  have len: "length (sent m) = 2"
    using mk by (auto simp add: makeHttpRequest_def numeral_3_eq_3 client_defs example_defs
        header_defs hopRequest_def matchScheme_def isWord_def)
  then obtain x y where xy: "sent m = [x, y]"
    by (cases "sent m"; cases "tl (sent m)") auto
  from T0[where res = res and m = m and opts = "?opts\<lparr>mHeaders := ?auth\<rparr>", THEN conjunct1] mk xy
  have clr: "map fetchHeaders (tl (sent m)) = [[(''user-agent'', clientUserAgent exClient)]]"
            "map fetchBody (tl (sent m)) = [None]"
    by simp_all
  have ins: "\<forall>rq h w. fetch exPlatform (rq\<lparr>fetchHeaders := h\<rparr>) w = fetch exPlatform rq w"
    by (simp add: exPlatform_def exFetch_def)
  from T[where ?res1.0 = res and ?m1.0 = m and ?res2.0 = res2 and ?m2.0 = m2,
         THEN conjunct2, THEN conjunct2] ins mk mk2
  have ni: "res2 = res \<and> world m2 = world m \<and> tl (sent m2) = tl (sent m)"
    by (simp add: exClient_def)
  from rq st hop mk mk2 len clr ni show ?thesis by auto
qed

section \<open>The session\<close>

text \<open>Reading the authorization header after \<open>_setAuthHeaderFromAuthInfo\<close>.\<close>

lemma hget_hset:
  "hget (hset hs k v) k = Some v"
proof -
  have "filter (\<lambda>kv. fst kv = k) (filter (\<lambda>kv. fst kv \<noteq> k) hs) = []"
    by (induction hs) auto
  then show ?thesis by (simp add: hget_def hset_def hdelete_def)
qed

lemma hget_hdelete:
  "hget (hdelete hs k) k = None"
proof -
  have "filter (\<lambda>kv. fst kv = k) (filter (\<lambda>kv. fst kv \<noteq> k) hs) = []"
    by (induction hs) auto
  then show ?thesis by (simp add: hget_def hdelete_def)
qed

lemma authorization_after_set:
  assumes "setAuthHeaderFromAuthInfo P hs (Some ai) = Inr hs'"
  shows "hget hs' ''authorization''
     = (case ai of
          Bearer t \<Rightarrow> Some (''Bearer '' @ t)
        | Basic u pw \<Rightarrow> Some (''Basic '' @ btoa P (u @ '':'' @ pw))
        | AuthNone \<Rightarrow> None)"
  using assms
  by (cases ai)
     (auto simp add: setAuthHeaderFromAuthInfo_def Headers_set_def hget_hset hget_hdelete
        split: if_splits)

text \<open>Every request goes to the end of the trace.\<close>

lemma request_extends:
  fixes P :: "'w platform"
  assumes "request P cl opts n = (r, n1)"
  shows "\<exists>X. sent n1 = sent n @ X"
  using assms
  by (auto simp add: request_def doFetch_def split: option.splits sum.splits prod.splits if_splits)

lemma ping_sends:
  fixes P :: "'w platform"
  assumes url: "newURL P ''/v2/'' (baseUrl c) = Some u"
      and p: "ping P c None (Some es) n = (r, n1)"
    shows "sent n1 = sent n @ [\<lparr>fetchUrl = u, fetchMethod = ''GET'',
                     fetchHeaders = [(''accept'', ''application/json''),
                                     (''user-agent'', clientUserAgent c)],
                     fetchRedirect = ''manual'', fetchBody = None\<rparr>]"
proof -
  have a: "apiUrl (api c) = baseUrl c" by (simp add: api_def)
  from p show ?thesis
    unfolding ping_def request_def
    by (auto simp add: a url fetchRequest_ping doFetch_def
          split: sum.splits prod.splits if_splits)
qed

lemma getToken_extends:
  fixes P :: "'w platform"
  assumes "getToken P c realm service scps n = (r, n1)"
  shows "\<exists>X. sent n1 = sent n @ X"
proof (cases "tokenUrl P c realm service scps")
  case (Inl e)
  with assms show ?thesis by (simp add: getToken_def)
next
  case u: (Inr u)
  show ?thesis
  proof (cases "tokenHeaders P c")
    case (Inl e)
    with assms u show ?thesis by (simp add: getToken_def)
  next
    case (Inr hs)
    let ?o = "\<lparr>path = u, reqMethod = ''GET'', reqHeaders = Some hs,
                     reqBody = None, retry = None, connectTimeout = None,
                     expectStatus = Some [200, 401], redirect = None\<rparr>"
    obtain r0 n0 where rq: "request P (api c) ?o n = (r0, n0)"
      by (cases "request P (api c) ?o n")
    from assms u Inr rq have "n1 = n0"
      by (auto simp add: getToken_def split: sum.splits if_splits)
    with request_extends[OF rq] show ?thesis by simp
  qed
qed

lemma loginWithChallenge_extends:
  fixes P :: "'w platform"
  assumes "loginWithChallenge P c sc res n = (r, n1)"
  shows "\<exists>X. sent n1 = sent n @ X"
proof (cases "\<exists>ch. htruthy (hget (headers res) ''www-authenticate'')
                \<and> parseWWWAuthenticate (the (hget (headers res) ''www-authenticate'')) = Inr ch
                \<and> toLowerCase (schemeName ch) \<noteq> ''basic''
                \<and> toLowerCase (schemeName ch) = ''bearer''")
  case True
  then obtain ch where ch: "htruthy (hget (headers res) ''www-authenticate'')"
      "parseWWWAuthenticate (the (hget (headers res) ''www-authenticate'')) = Inr ch"
      "toLowerCase (schemeName ch) \<noteq> ''basic''" "toLowerCase (schemeName ch) = ''bearer''"
    by blast
  let ?s = "Some (case sc of None \<Rightarrow> [] | Some s \<Rightarrow> if s \<noteq> [] then [s] else [])"
  obtain r0 n0 where g: "getToken P c (map_of (parms ch) ''realm'')
                             (map_of (parms ch) ''service'') ?s n = (r0, n0)"
    by (cases "getToken P c (map_of (parms ch) ''realm'') (map_of (parms ch) ''service'') ?s n")
  from assms ch g have "n1 = n0"
    by (auto simp add: loginWithChallenge_def Let_def split: sum.splits)
  with getToken_extends[OF g] show ?thesis by simp
next
  case False
  with assms have "n1 = n"
    by (auto simp add: loginWithChallenge_def Let_def split: sum.splits prod.splits if_splits)
  then show ?thesis by simp
qed

lemma performLogin_pings:
  fixes P :: "'w platform"
  assumes url: "newURL P ''/v2/'' (baseUrl c) = Some u"
      and p: "performLogin P c sc None n = (r, n1)"
    shows "\<exists>X. sent n1 = sent n @ \<lparr>fetchUrl = u, fetchMethod = ''GET'',
                     fetchHeaders = [(''accept'', ''application/json''),
                                     (''user-agent'', clientUserAgent c)],
                     fetchRedirect = ''manual'', fetchBody = None\<rparr> # X"
proof -
  obtain r0 n0 where pg: "ping P c None (Some [200, 401]) n = (r0, n0)"
    by (cases "ping P c None (Some [200, 401]) n")
  note s = ping_sends[OF url pg]
  show ?thesis
  proof (cases "\<exists>res. r0 = Inr res \<and> status res \<noteq> 200")
    case True
    then obtain res where res: "r0 = Inr res" "status res \<noteq> 200" by blast
    with p pg have "loginWithChallenge P c sc res n0 = (r, n1)"
      by (simp add: performLogin_def)
    from loginWithChallenge_extends[OF this] s show ?thesis by auto
  next
    case False
    with p pg have "n1 = n0"
      by (cases r0) (auto simp add: performLogin_def split: if_splits)
    with s show ?thesis by simp
  qed
qed

text \<open>What a \<open>login\<close> that is not answered from the memo does.\<close>

lemma login_fresh:
  fixes P :: "'w platform"
  assumes "\<not> (loggedIn c \<and> loggedInScope c = Some (effectiveScope c s))"
  shows "login P c pr s n =
           (case performLogin P c (Some (effectiveScope c s)) pr n of
              (Inl e, n1) \<Rightarrow> (Inl e, c, n1)
            | (Inr ai, n1) \<Rightarrow>
                (case setAuthHeaderFromAuthInfo P (sessionHeaders c) (Some ai) of
                   Inl e \<Rightarrow>
                     (Inl e,
                      c\<lparr>loggedIn := True, loggedInScope := Some (effectiveScope c s),
                        authInfo := Some ai\<rparr>, n1)
                 | Inr hs \<Rightarrow>
                     (Inr (),
                      c\<lparr>loggedIn := True, loggedInScope := Some (effectiveScope c s),
                        authInfo := Some ai, sessionHeaders := hs\<rparr>, n1)))"
  using assms
  by (cases "loggedIn c") (auto simp add: login_def Let_def split: prod.splits sum.splits)

lemma login_memo:
  fixes P :: "'w platform"
  assumes "loggedIn c" "loggedInScope c = Some (effectiveScope c s)"
  shows "login P c pr s n = (Inr (), c, n)"
  using assms by (simp add: login_def Let_def)

lemma login_success:
  fixes P :: "'w platform"
  assumes "login P c pr s n = (Inr (), c1, n1)"
  shows "loggedIn c1 \<and> loggedInScope c1 = Some (effectiveScope c s)
         \<and> repo c1 = repo c \<and> scopes c1 = scopes c"
proof (cases "loggedIn c \<and> loggedInScope c = Some (effectiveScope c s)")
  case True
  with assms show ?thesis by (simp add: login_def Let_def)
next
  case False
  obtain r0 n0 where pl: "performLogin P c (Some (effectiveScope c s)) pr n = (r0, n0)"
    by (cases "performLogin P c (Some (effectiveScope c s)) pr n")
  from assms show ?thesis
    unfolding login_fresh[OF False] pl by (cases r0) (auto split: sum.splits)
qed

lemma effectiveScope_cong:
  "repo c1 = repo c \<Longrightarrow> scopes c1 = scopes c \<Longrightarrow> effectiveScope c1 s = effectiveScope c s"
  by (cases s) (simp_all add: effectiveScope_def)

text \<open>
  Claim C5. The effective scope of \<open>login\<close> is the scope option when it is a
  non-empty string, else \<open>repository:<remoteName>:<scopes joined by commas>\<close>, and
  the constructor sets the scopes to \<open>["pull"]\<close> when it is given none. A \<open>login\<close>
  of a client that is logged in with the effective scope returns at once: no
  request is sent, and the client is unchanged. So does a second \<open>login\<close> with
  the effective scope of a first one that succeeded. A \<open>login\<close> with another
  scope runs \<open>performLogin\<close>: without a ping response at hand its first request is
  the ping, and when it succeeds the stored \<open>AuthInfo\<close>, the scope and the
  authorization header are the new ones.
\<close>

theorem login_memoized:
  fixes P :: "'w platform"
  shows
   "effectiveScope c None
      = ''repository:'' @ remoteName (repo c) @ '':'' @ join '','' (scopes c)
    \<and> effectiveScope c (Some sc)
      = (if sc = [] then effectiveScope c None else sc)
    \<and> (newRegistryClientV2 P opts = Inr c0 \<and> optScopes opts = None
         \<longrightarrow> scopes c0 = [''pull''] \<and> \<not> loggedIn c0)
    \<and> (loggedIn c \<and> loggedInScope c = Some (effectiveScope c s)
         \<longrightarrow> login P c pr s n = (Inr (), c, n))
    \<and> (login P c pr s n = (Inr (), c1, n1) \<and> effectiveScope c1 s' = effectiveScope c s
         \<longrightarrow> login P c1 pr' s' n1 = (Inr (), c1, n1))
    \<and> (\<not> (loggedIn c \<and> loggedInScope c = Some (effectiveScope c s))
        \<and> login P c pr s n = (Inr (), c2, n2)
         \<longrightarrow> (\<exists>ai. performLogin P c (Some (effectiveScope c s)) pr n = (Inr ai, n2)
                  \<and> loggedIn c2 \<and> loggedInScope c2 = Some (effectiveScope c s)
                  \<and> authInfo c2 = Some ai
                  \<and> hget (sessionHeaders c2) ''authorization''
                      = (case ai of
                           Bearer t \<Rightarrow> Some (''Bearer '' @ t)
                         | Basic u pw \<Rightarrow> Some (''Basic '' @ btoa P (u @ '':'' @ pw))
                         | AuthNone \<Rightarrow> None)))
    \<and> (\<not> (loggedIn c \<and> loggedInScope c = Some (effectiveScope c s))
        \<and> newURL P ''/v2/'' (baseUrl c) = Some u
        \<and> login P c None s n = (r3, c3, n3)
         \<longrightarrow> (\<exists>X. sent n3 = sent n @ \<lparr>fetchUrl = u, fetchMethod = ''GET'',
                     fetchHeaders = [(''accept'', ''application/json''),
                                     (''user-agent'', clientUserAgent c)],
                     fetchRedirect = ''manual'', fetchBody = None\<rparr> # X))"
proof (intro conjI)
  show "effectiveScope c None
      = ''repository:'' @ remoteName (repo c) @ '':'' @ join '','' (scopes c)"
    by (simp add: effectiveScope_def makeAuthScope_def)
  show "effectiveScope c (Some sc) = (if sc = [] then effectiveScope c None else sc)"
    by (simp add: effectiveScope_def)
  show "newRegistryClientV2 P opts = Inr c0 \<and> optScopes opts = None
         \<longrightarrow> scopes c0 = [''pull''] \<and> \<not> loggedIn c0"
    by (auto simp add: newRegistryClientV2_def split: sum.splits option.splits if_splits)
  show "loggedIn c \<and> loggedInScope c = Some (effectiveScope c s)
         \<longrightarrow> login P c pr s n = (Inr (), c, n)"
    by (simp add: login_memo)
  show "login P c pr s n = (Inr (), c1, n1) \<and> effectiveScope c1 s' = effectiveScope c s
         \<longrightarrow> login P c1 pr' s' n1 = (Inr (), c1, n1)"
  proof
    assume a: "login P c pr s n = (Inr (), c1, n1) \<and> effectiveScope c1 s' = effectiveScope c s"
    with login_success[of P c pr s n c1 n1]
    have "loggedIn c1" "loggedInScope c1 = Some (effectiveScope c1 s')" by simp_all
    then show "login P c1 pr' s' n1 = (Inr (), c1, n1)" by (rule login_memo)
  qed
  show "\<not> (loggedIn c \<and> loggedInScope c = Some (effectiveScope c s))
        \<and> login P c pr s n = (Inr (), c2, n2)
         \<longrightarrow> (\<exists>ai. performLogin P c (Some (effectiveScope c s)) pr n = (Inr ai, n2)
                  \<and> loggedIn c2 \<and> loggedInScope c2 = Some (effectiveScope c s)
                  \<and> authInfo c2 = Some ai
                  \<and> hget (sessionHeaders c2) ''authorization''
                      = (case ai of
                           Bearer t \<Rightarrow> Some (''Bearer '' @ t)
                         | Basic u pw \<Rightarrow> Some (''Basic '' @ btoa P (u @ '':'' @ pw))
                         | AuthNone \<Rightarrow> None))"
  proof
    assume a: "\<not> (loggedIn c \<and> loggedInScope c = Some (effectiveScope c s))
        \<and> login P c pr s n = (Inr (), c2, n2)"
    then have f: "\<not> (loggedIn c \<and> loggedInScope c = Some (effectiveScope c s))" by simp
    obtain r0 n0 where pl: "performLogin P c (Some (effectiveScope c s)) pr n = (r0, n0)"
      by (cases "performLogin P c (Some (effectiveScope c s)) pr n")
    from a have l: "login P c pr s n = (Inr (), c2, n2)" by simp
    from l obtain ai hs where ai: "r0 = Inr ai" and n2: "n2 = n0"
      and hs: "setAuthHeaderFromAuthInfo P (sessionHeaders c) (Some ai) = Inr hs"
      and c2: "c2 = c\<lparr>loggedIn := True, loggedInScope := Some (effectiveScope c s),
                   authInfo := Some ai, sessionHeaders := hs\<rparr>"
      unfolding login_fresh[OF f] pl by (cases r0) (auto split: sum.splits)
    have "hget (sessionHeaders c2) ''authorization''
            = (case ai of
                 Bearer t \<Rightarrow> Some (''Bearer '' @ t)
               | Basic u pw \<Rightarrow> Some (''Basic '' @ btoa P (u @ '':'' @ pw))
               | AuthNone \<Rightarrow> None)"
      unfolding c2 using authorization_after_set[OF hs] by simp
    with pl ai n2 c2 show "\<exists>ai. performLogin P c (Some (effectiveScope c s)) pr n = (Inr ai, n2)
                  \<and> loggedIn c2 \<and> loggedInScope c2 = Some (effectiveScope c s)
                  \<and> authInfo c2 = Some ai
                  \<and> hget (sessionHeaders c2) ''authorization''
                      = (case ai of
                           Bearer t \<Rightarrow> Some (''Bearer '' @ t)
                         | Basic u pw \<Rightarrow> Some (''Basic '' @ btoa P (u @ '':'' @ pw))
                         | AuthNone \<Rightarrow> None)"
      by simp
  qed
  show "\<not> (loggedIn c \<and> loggedInScope c = Some (effectiveScope c s))
        \<and> newURL P ''/v2/'' (baseUrl c) = Some u
        \<and> login P c None s n = (r3, c3, n3)
         \<longrightarrow> (\<exists>X. sent n3 = sent n @ \<lparr>fetchUrl = u, fetchMethod = ''GET'',
                     fetchHeaders = [(''accept'', ''application/json''),
                                     (''user-agent'', clientUserAgent c)],
                     fetchRedirect = ''manual'', fetchBody = None\<rparr> # X)"
  proof
    assume a: "\<not> (loggedIn c \<and> loggedInScope c = Some (effectiveScope c s))
        \<and> newURL P ''/v2/'' (baseUrl c) = Some u
        \<and> login P c None s n = (r3, c3, n3)"
    then have f: "\<not> (loggedIn c \<and> loggedInScope c = Some (effectiveScope c s))"
      and url: "newURL P ''/v2/'' (baseUrl c) = Some u"
      and l: "login P c None s n = (r3, c3, n3)" by simp_all
    obtain r0 n0 where pl: "performLogin P c (Some (effectiveScope c s)) None n = (r0, n0)"
      by (cases "performLogin P c (Some (effectiveScope c s)) None n")
    from l have "n3 = n0"
      unfolding login_fresh[OF f] pl by (cases r0) (auto split: sum.splits)
    with performLogin_pings[OF url pl]
    show "\<exists>X. sent n3 = sent n @ \<lparr>fetchUrl = u, fetchMethod = ''GET'',
                     fetchHeaders = [(''accept'', ''application/json''),
                                     (''user-agent'', clientUserAgent c)],
                     fetchRedirect = ''manual'', fetchBody = None\<rparr> # X"
      by simp
  qed
qed


text \<open>The definitions that evaluating a login on the example platform unfolds.\<close>

lemmas auth_defs = parseWWWAuthenticate_def Parse_WWW_Authenticate_def parse_params_def
  parmsSet_def trim_def isSpace_def isWord_def exChallenge_def dq_def toLowerCase_def
  lowerChar_def exLoggedIn_def exPushScope_def

lemmas token_defs = getToken_def tokenUrl_def tokenQuery_def tokenHeaders_def tokenFromBody_def
  tokenUnauthorized_def getRegistryErrorMessage_def

text \<open>
  The theorem on the example platform. The registry answers the first ping with
  200, so that the first \<open>login\<close> stores \<open>{type: 'None'}\<close> after one request; a
  second \<open>login\<close>, with no scope or with the scope \<open>repository:blarg:pull\<close> written
  out, changes nothing; a \<open>login\<close> with the scope \<open>repository:blarg:pull,push\<close> is
  answered with a challenge and a token, and leaves the token in the client.
\<close>

theorem login_memoized_witness:
  "\<exists>n1 c2 n2.
      effectiveScope exClient None = ''repository:blarg:pull''
    \<and> newRegistryClientV2 exPlatform exOpts = Inr exClient
    \<and> scopes exClient = [''pull''] \<and> \<not> loggedIn exClient
    \<and> login exPlatform exClient None None
         \<lparr>world = [exResponse 200 [] [],
                   exResponse 401 [(''www-authenticate'', exChallenge)] [],
                   exResponse 200 [] exToken], sent = []\<rparr> = (Inr (), exLoggedIn, n1)
    \<and> length (sent n1) = 1
    \<and> login exPlatform exLoggedIn None None n1 = (Inr (), exLoggedIn, n1)
    \<and> login exPlatform exLoggedIn None (Some ''repository:blarg:pull'') n1
         = (Inr (), exLoggedIn, n1)
    \<and> login exPlatform exLoggedIn None (Some exPushScope) n1 = (Inr (), c2, n2)
    \<and> authInfo c2 = Some (Bearer ''abc'') \<and> loggedInScope c2 = Some exPushScope
    \<and> hget (sessionHeaders c2) ''authorization'' = Some ''Bearer abc''
    \<and> length (sent n2) = 3
    \<and> fetchUrl (sent n2 ! 1) = ''https://registry.example/v2/''"
proof -
  let ?n0 = "\<lparr>world = [exResponse 200 [] [],
                   exResponse 401 [(''www-authenticate'', exChallenge)] [],
                   exResponse 200 [] exToken], sent = []\<rparr>"
  let ?ping = "\<lparr>fetchUrl = ''https://registry.example/v2/'', fetchMethod = ''GET'',
                fetchHeaders = [(''accept'', ''application/json''),
                                (''user-agent'', clientUserAgent exClient)],
                fetchRedirect = ''manual'', fetchBody = None\<rparr>"
  let ?n1 = "\<lparr>world = [exResponse 401 [(''www-authenticate'', exChallenge)] [],
                        exResponse 200 [] exToken], sent = [?ping]\<rparr>"
  have mk: "newRegistryClientV2 exPlatform exOpts = Inr exClient"
    by (simp add: newRegistryClientV2_def exOpts_def exClient_def parse_defs urlFromIndex_def
          schemeText_def initialHeaders_def header_defs setAuthHeaderFromAuthInfo_def
          exPlatform_def)
  have e1: "login exPlatform exClient None None ?n0 = (Inr (), exLoggedIn, ?n1)"
    by (simp add: client_defs example_defs header_defs response_defs exLoggedIn_def)
  obtain c2 n2 where e3: "login exPlatform exLoggedIn None (Some exPushScope) ?n1
                            = (Inr (), c2, n2)"
    and a2: "authInfo c2 = Some (Bearer ''abc'')" and l2: "length (sent n2) = 3"
    by (simp add: client_defs example_defs header_defs response_defs js_defs token_defs
          auth_defs)
  have li: "loggedIn exLoggedIn" "loggedInScope exLoggedIn = Some ''repository:blarg:pull''"
           "loggedInScope exLoggedIn \<noteq> Some exPushScope"
           "effectiveScope exLoggedIn (Some exPushScope) = exPushScope"
           "effectiveScope exLoggedIn (Some ''repository:blarg:pull'') = ''repository:blarg:pull''"
           "\<not> loggedIn exClient" "scopes exClient = [''pull'']"
           "remoteName (repo exClient) = ''blarg''" "remoteName (repo exLoggedIn) = ''blarg''"
           "scopes exLoggedIn = [''pull'']" "optScopes exOpts = None"
    by (simp_all add: exLoggedIn_def exClient_def exPushScope_def effectiveScope_def exOpts_def)
  have u: "newURL exPlatform ''/v2/'' (baseUrl exLoggedIn) = Some ''https://registry.example/v2/''"
    by (simp add: example_defs exLoggedIn_def)
  note A = login_memoized[where P = exPlatform and c = exClient and opts = exOpts
      and ?c0.0 = exClient and s = None and pr = None and n = ?n0 and ?c1.0 = exLoggedIn
      and ?n1.0 = ?n1 and s' = "Some ''repository:blarg:pull''" and pr' = None]
  note B = login_memoized[where P = exPlatform and c = exLoggedIn and s = None and pr = None
      and n = ?n1]
  note C = login_memoized[where P = exPlatform and c = exLoggedIn and s = "Some exPushScope"
      and pr = None and n = ?n1 and ?c2.0 = c2 and ?n2.0 = n2 and ?r3.0 = "Inr ()"
      and ?c3.0 = c2 and ?n3.0 = n2 and u = "''https://registry.example/v2/''"]
  from A[THEN conjunct1] li have s0: "effectiveScope exClient None = ''repository:blarg:pull''"
    by simp
  from B[THEN conjunct1] li have s1: "effectiveScope exLoggedIn None = ''repository:blarg:pull''"
    by simp
  from A[THEN conjunct2, THEN conjunct2, THEN conjunct1] mk li
  have sc: "scopes exClient = [''pull''] \<and> \<not> loggedIn exClient" by blast
  from B[THEN conjunct2, THEN conjunct2, THEN conjunct2, THEN conjunct1] li s1
  have m1: "login exPlatform exLoggedIn None None ?n1 = (Inr (), exLoggedIn, ?n1)" by simp
  from A[THEN conjunct2, THEN conjunct2, THEN conjunct2, THEN conjunct2, THEN conjunct1]
    e1 li s0
  have m2: "login exPlatform exLoggedIn None (Some ''repository:blarg:pull'') ?n1
              = (Inr (), exLoggedIn, ?n1)" by simp
  from C[THEN conjunct2, THEN conjunct2, THEN conjunct2, THEN conjunct2, THEN conjunct2,
         THEN conjunct1] e3 li
  obtain ai where ai: "authInfo c2 = Some ai" "loggedInScope c2 = Some exPushScope"
     "hget (sessionHeaders c2) ''authorization''
        = (case ai of Bearer t \<Rightarrow> Some (''Bearer '' @ t)
           | Basic u pw \<Rightarrow> Some (''Basic '' @ btoa exPlatform (u @ '':'' @ pw))
           | AuthNone \<Rightarrow> None)"
    by auto
  with a2 have h2: "hget (sessionHeaders c2) ''authorization'' = Some ''Bearer abc''" by simp
  from C[THEN conjunct2, THEN conjunct2, THEN conjunct2, THEN conjunct2, THEN conjunct2,
         THEN conjunct2] e3 li u
  obtain X where "sent n2 = [?ping, ?ping] @ X"
    by (auto simp add: exLoggedIn_def)
  then have p2: "fetchUrl (sent n2 ! 1) = ''https://registry.example/v2/''" by simp
  from s0 mk sc e1 m1 m2 e3 a2 ai(2) h2 l2 p2 show ?thesis by auto
qed

section \<open>A login that fails\<close>










section \<open>The token request\<close>









section \<open>Reading a blob\<close>

text \<open>Every error of \<open>_parseDockerContentDigest\<close> is a \<open>BadDigestError\<close>.\<close>

lemma parseDockerContentDigest_error:
  assumes "parseDockerContentDigest P h = Inl e"
  shows "\<exists>msg. e = BadDigestError msg"
  using assms by (auto simp add: parseDockerContentDigest_def Let_def split: if_splits)

lemma parseDockerContentDigest_raw:
  assumes "parseDockerContentDigest P h = Inr info"
  shows "raw info = h"
  using assms by (auto simp add: parseDockerContentDigest_def Let_def split: if_splits)

lemma dockerStream_plain:
  assumes "dockerStream P r = Inr st"
  shows "failure st = None \<and> body r = Some (delivered st)"
  using assms by (auto simp add: dockerStream_def split: option.splits if_splits)

lemma blobStream_plain:
  assumes "blobStream P dgst ress = Inr (out, st)"
  shows "out = ress \<and> ress \<noteq> [] \<and> dockerStream P (last ress) = Inr st"
  using assms
  by (auto simp add: blobStream_def Let_def split: if_splits sum.splits)

text \<open>
  Claim C1. When the first response has a \<open>docker-content-digest\<close> header that
  differs from the requested digest, and the last response has a body to stream,
  \<open>createBlobReadStream\<close> throws a \<open>BadDigestError\<close> and returns no stream. But
  the stream it returns is the body of the last response as it is, whatever the
  header says: it never ends in an error. The transform \<open>validationStream\<close>, which
  would end a stream in a \<open>BadDigestError\<close> when the SHA-256 of its bytes is not
  the expected digest, is not applied: the line that pipes the stream through it
  is commented out in the source.
\<close>

theorem createBlobReadStream_unverified:
  fixes P :: "'w platform"
  shows
   "(createBlobReadStream P c dgst n = (Inr (ress, st), c1, n1)
      \<longrightarrow> ress \<noteq> [] \<and> failure st = None \<and> body (last ress) = Some (delivered st))
    \<and> (headOrGetBlob P c ''GET'' dgst n = (Inr ress, c1, n1) \<and> ress \<noteq> []
        \<and> dockerStream P (last ress) = Inr st
        \<and> hget (headers (hd ress)) ''docker-content-digest'' = Some h \<and> h \<noteq> []
        \<and> h \<noteq> dgst
      \<longrightarrow> (\<exists>msg. createBlobReadStream P c dgst n = (Inl (BadDigestError msg), c1, n1)))
    \<and> (failure st = None \<and> expectedDigest info \<noteq> sha256_hex P (delivered st)
      \<longrightarrow> failure (validationStream P info st)
            = Some (BadDigestError (''Docker-Content-Digest ('' @ expectedDigest info
                                      @ '' vs '' @ sha256_hex P (delivered st) @ '')'')))"
proof (intro conjI)
  show "createBlobReadStream P c dgst n = (Inr (ress, st), c1, n1)
      \<longrightarrow> ress \<noteq> [] \<and> failure st = None \<and> body (last ress) = Some (delivered st)"
  proof
    assume a: "createBlobReadStream P c dgst n = (Inr (ress, st), c1, n1)"
    obtain x c0 n0 where h: "headOrGetBlob P c ''GET'' dgst n = (x, c0, n0)"
      by (cases "headOrGetBlob P c ''GET'' dgst n")
    from a h obtain rs where "x = Inr rs" and b: "blobStream P dgst rs = Inr (ress, st)"
      by (cases x) (auto simp add: createBlobReadStream_def)
    from blobStream_plain[OF b] have "ress \<noteq> []" "dockerStream P (last ress) = Inr st"
      by auto
    with dockerStream_plain[of P "last ress" st]
    show "ress \<noteq> [] \<and> failure st = None \<and> body (last ress) = Some (delivered st)" by simp
  qed
  show "headOrGetBlob P c ''GET'' dgst n = (Inr ress, c1, n1) \<and> ress \<noteq> []
        \<and> dockerStream P (last ress) = Inr st
        \<and> hget (headers (hd ress)) ''docker-content-digest'' = Some h \<and> h \<noteq> []
        \<and> h \<noteq> dgst
      \<longrightarrow> (\<exists>msg. createBlobReadStream P c dgst n = (Inl (BadDigestError msg), c1, n1))"
  proof
    assume a: "headOrGetBlob P c ''GET'' dgst n = (Inr ress, c1, n1) \<and> ress \<noteq> []
        \<and> dockerStream P (last ress) = Inr st
        \<and> hget (headers (hd ress)) ''docker-content-digest'' = Some h \<and> h \<noteq> []
        \<and> h \<noteq> dgst"
    have "\<exists>msg. blobStream P dgst ress = Inl (BadDigestError msg)"
    proof (cases "parseDockerContentDigest P h")
      case (Inl e)
      with parseDockerContentDigest_error[OF Inl] a show ?thesis
        by (auto simp add: blobStream_def Let_def htruthy_def)
    next
      case (Inr info)
      with parseDockerContentDigest_raw[OF Inr] a show ?thesis
        by (auto simp add: blobStream_def Let_def htruthy_def)
    qed
    with a show "\<exists>msg. createBlobReadStream P c dgst n = (Inl (BadDigestError msg), c1, n1)"
      by (auto simp add: createBlobReadStream_def)
  qed
  show "failure st = None \<and> expectedDigest info \<noteq> sha256_hex P (delivered st)
      \<longrightarrow> failure (validationStream P info st)
            = Some (BadDigestError (''Docker-Content-Digest ('' @ expectedDigest info
                                      @ '' vs '' @ sha256_hex P (delivered st) @ '')''))"
    by (simp add: validationStream_def)
qed

text \<open>
  The theorem on the example platform. The client asks for the blob with the
  digest of \<open>hello\<close>; the registry answers the ping with 200 and the request for
  the blob with the header \<open>docker-content-digest\<close> of \<open>hello\<close> and the body
  \<open>tampered\<close>. The stream that is returned delivers \<open>tampered\<close> and ends without
  an error, while \<open>validationStream\<close> would have ended it in a \<open>BadDigestError\<close>.
  With the digest of \<open>tampered\<close> in the header, the call throws.
\<close>

theorem createBlobReadStream_unverified_witness:
  "(\<exists>r st c1 n1 info.
       createBlobReadStream exPlatform exClient exHelloDigest
         \<lparr>world = [exResponse 200 [] [],
                   exResponse 200 [(''docker-content-digest'', exHelloDigest)] ''tampered''],
          sent = []\<rparr> = (Inr ([r], st), c1, n1)
     \<and> delivered st = ''tampered'' \<and> failure st = None \<and> body r = Some ''tampered''
     \<and> hget (headers r) ''docker-content-digest'' = Some exHelloDigest
     \<and> parseDockerContentDigest exPlatform exHelloDigest = Inr info
     \<and> expectedDigest info = exSha256 ''hello''
     \<and> sha256_hex exPlatform (delivered st) = exSha256 ''tampered''
     \<and> failure (validationStream exPlatform info st)
         = Some (BadDigestError (''Docker-Content-Digest ('' @ exSha256 ''hello''
                                   @ '' vs '' @ exSha256 ''tampered'' @ '')'')))
   \<and> exSha256 ''tampered'' \<noteq> exSha256 ''hello''
   \<and> (\<exists>msg c1 n1.
       createBlobReadStream exPlatform exClient exHelloDigest
         \<lparr>world = [exResponse 200 [] [],
                   exResponse 200 [(''docker-content-digest'', exTamperedDigest)] ''tampered''],
          sent = []\<rparr> = (Inl (BadDigestError msg), c1, n1))"
proof -
  let ?n = "\<lparr>world = [exResponse 200 [] [],
                   exResponse 200 [(''docker-content-digest'', exHelloDigest)] ''tampered''],
          sent = []\<rparr>"
  let ?n' = "\<lparr>world = [exResponse 200 [] [],
                   exResponse 200 [(''docker-content-digest'', exTamperedDigest)] ''tampered''],
          sent = []\<rparr>"
  have ne: "exSha256 ''tampered'' \<noteq> exSha256 ''hello''" "exTamperedDigest \<noteq> exHelloDigest"
           "exTamperedDigest \<noteq> []"
    by (simp_all add: exSha256_def exTamperedDigest_def exHelloDigest_def exManifestV2_def dq_def)
  have sh: "sha256_hex exPlatform ''tampered'' = exSha256 ''tampered''"
    by (simp add: exPlatform_def)
  obtain info where pi: "parseDockerContentDigest exPlatform exHelloDigest = Inr info"
    and ei: "expectedDigest info = exSha256 ''hello''"
    by (simp add: parseDockerContentDigest_def exHelloDigest_def exSha256_def exManifestV2_def
          dq_def splitIntoTwo_def slice_def sliceFrom_def Let_def)
  obtain r st c1 n1 where cr: "createBlobReadStream exPlatform exClient exHelloDigest ?n
                                 = (Inr ([r], st), c1, n1)"
    and dl: "delivered st = ''tampered''"
    and hr: "hget (headers r) ''docker-content-digest'' = Some exHelloDigest"
    by (simp add: createBlobReadStream_def headOrGetBlob_def makeHttpRequest_def hopRequest_def
          blobStream_def numeral_3_eq_3 client_defs example_defs header_defs response_defs
          parseDockerContentDigest_def exHelloDigest_def splitIntoTwo_def slice_def
          sliceFrom_def)
  note T = createBlobReadStream_unverified[where P = exPlatform and c = exClient
      and dgst = exHelloDigest]
  from T[where n = ?n and ress = "[r]" and st = st and ?c1.0 = c1 and ?n1.0 = n1,
         THEN conjunct1] cr
  have pl: "failure st = None" "body r = Some (delivered st)" by simp_all
  from T[where st = st and info = info, THEN conjunct2, THEN conjunct2] pl ei dl sh ne
  have vs: "failure (validationStream exPlatform info st)
         = Some (BadDigestError (''Docker-Content-Digest ('' @ exSha256 ''hello''
                                   @ '' vs '' @ exSha256 ''tampered'' @ '')''))"
    by simp
  obtain r' c1' n1' where hg: "headOrGetBlob exPlatform exClient ''GET'' exHelloDigest ?n'
                                 = (Inr [r'], c1', n1')"
    and hr': "hget (headers r') ''docker-content-digest'' = Some exTamperedDigest"
    and ds: "\<exists>st'. dockerStream exPlatform r' = Inr st'"
    by (simp add: headOrGetBlob_def makeHttpRequest_def hopRequest_def
          numeral_3_eq_3 client_defs example_defs header_defs response_defs
          exHelloDigest_def exTamperedDigest_def)
  from ds obtain st' where ds': "dockerStream exPlatform r' = Inr st'" ..
  from T[where n = ?n' and ress = "[r']" and st = st' and ?c1.0 = c1' and ?n1.0 = n1'
           and h = exTamperedDigest, THEN conjunct2, THEN conjunct1] hg hr' ds' ne
  obtain msg where bd: "createBlobReadStream exPlatform exClient exHelloDigest ?n'
                          = (Inl (BadDigestError msg), c1', n1')"
    by auto
  from cr dl pl hr pi ei sh vs ne bd show ?thesis by auto
qed

end
